(* ===== verification/Prelude.thy ===== *)
theory Prelude
  imports Main
begin

text \<open>
  Shared vocabulary of the development. The crawler (src/controller/x/xcrawl.py) is
  dynamically typed Python working on decoded JSON: this theory fixes the model of
  Python's exceptions (\<open>pyerr\<close>, results \<open>'a res = pyerr + 'a\<close>), of a decoded JSON
  value (\<open>json\<close>, a dict being an association list kept in insertion order, as Python
  3.7+ dicts are), of the dict/str primitives the code calls (\<open>d[k]\<close>, \<open>d.get\<close>,
  \<open>k in x\<close>, \<open>del d[k]\<close>, \<open>d.update\<close>, truthiness, iteration, \<open>str.replace\<close>,
  \<open>str.rstrip\<close>), and the lemmas about them that the component theories share.
  Strings are byte lists: a Python \<open>str\<close> is represented by its UTF-8 encoding.
\<close>

named_theorems py_simps "evaluation rules of the Python primitives"
named_theorems res_elims "elimination rules for a computation that returned a value"

declare char_of_eq_iff [py_simps]

section \<open>Exceptions and results\<close>

text \<open>One constructor per exception class the modelled code raises (the message
  argument records the failing key or operation where the code would show it).\<close>

datatype pyerr =
    KeyError string
  | IndexError
  | TypeError string
  | ValueError string
  | AttributeError string
  | UnboundLocalError string
  | HTTPErrorException string
  | CSRFTokenMissingError
  | EmptyListError
  | EmptyDictionaryError
  | MySQLConnectorError string
  | MySQLError int string

type_synonym 'a res = "pyerr + 'a"

definition bindr :: "'a res \<Rightarrow> ('a \<Rightarrow> 'b res) \<Rightarrow> 'b res" where
  "bindr m f = (case m of Inl e \<Rightarrow> Inl e | Inr a \<Rightarrow> f a)"

lemma bindr_Inl [simp]: "bindr (Inl e) f = Inl e"
  and bindr_Inr [simp]: "bindr (Inr a) f = f a"
  by (simp_all add: bindr_def)

lemma bindr_cong [fundef_cong]:
  assumes "m = m'" and "\<And>a. m' = Inr a \<Longrightarrow> f a = g a"
  shows "bindr m f = bindr m' g"
  using assms by (cases m') simp_all

lemma bindr_eq_Inr_iff: "bindr m f = Inr b \<longleftrightarrow> (\<exists>a. m = Inr a \<and> f a = Inr b)"
  by (cases m) simp_all

lemma bindr_eq_Inl_iff:
  "bindr m f = Inl e \<longleftrightarrow> m = Inl e \<or> (\<exists>a. m = Inr a \<and> f a = Inl e)"
  by (cases m) simp_all

lemma bindr_Inr_right [simp]: "bindr m Inr = m"
  by (cases m) simp_all

lemma bindr_InrE [res_elims]:
  assumes "bindr m f = Inr b"
  obtains a where "m = Inr a" and "f a = Inr b"
  using assms by (cases m) auto

text \<open>\<open>MySQLConnectorError m\<close> is the class of src/MySQL/exception.py as the code raises
  it (a message only, so its \<open>errno\<close> is the driver's default -1); \<open>MySQLError n m\<close> is an
  exception the mysql.connector driver raises (a subclass of \<open>mysql.connector.Error\<close>,
  with error number \<open>n\<close> and message \<open>m\<close>), which is not a \<open>MySQLConnectorError\<close>.\<close>

section \<open>Python values passed as arguments\<close>

text \<open>An argument whose type the code checks, or a value it passes on to a library.\<close>

datatype pyval = PStr string | PInt int | PBool bool | PNone | POther

section \<open>Decoded JSON values\<close>

text \<open>The value \<open>json.loads\<close> returns. Numbers are Python ints (the modelled payload
  fields never carry floats); a dict is the list of its items in insertion order.\<close>

datatype json =
    JNull
  | JBool bool
  | JInt int
  | JStr string
  | JList "json list"
  | JObj "(string \<times> json) list"

type_synonym dict = "(string \<times> json) list"

subsection \<open>Dicts as association lists\<close>

text \<open>\<open>d[k] = v\<close> and \<open>d.update({k: v})\<close>: an existing key keeps its position and
  takes the new value, a new key is appended.\<close>

fun aset :: "('k \<times> 'v) list \<Rightarrow> 'k \<Rightarrow> 'v \<Rightarrow> ('k \<times> 'v) list" where
  "aset [] k v = [(k, v)]"
| "aset ((a, b) # ps) k v = (if a = k then (k, v) # ps else (a, b) # aset ps k v)"

text \<open>\<open>del d[k]\<close> on a key that is present.\<close>

definition adel :: "('k \<times> 'v) list \<Rightarrow> 'k \<Rightarrow> ('k \<times> 'v) list" where
  "adel d k = filter (\<lambda>p. fst p \<noteq> k) d"

lemma map_of_aset [simp]: "map_of (aset d k v) = (map_of d)(k \<mapsto> v)"
  by (induction d k v rule: aset.induct) (auto simp: fun_eq_iff)

lemma keys_aset: "map fst (aset d k v) = (if k \<in> set (map fst d) then map fst d else map fst d @ [k])"
  by (induction d k v rule: aset.induct) auto

lemma set_keys_aset [simp]: "set (map fst (aset d k v)) = insert k (set (map fst d))"
  by (induction d k v rule: aset.induct) auto

lemma fst_set_aset [simp]: "fst ` set (aset d k v) = insert k (fst ` set d)"
  using set_keys_aset [of d k v] by simp

lemma distinct_aset [simp]: "distinct (map fst d) \<Longrightarrow> distinct (map fst (aset d k v))"
  by (simp add: keys_aset)

lemma wf_items_aset:
  "\<forall>p \<in> set d. P (snd p) \<Longrightarrow> P v \<Longrightarrow> \<forall>p \<in> set (aset d k v). P (snd p)"
  by (induction d k v rule: aset.induct) auto

lemma aset_present: "k \<in> set (map fst d) \<Longrightarrow> length (aset d k v) = length d"
  by (induction d k v rule: aset.induct) auto

lemma aset_same: "map_of d k = Some v \<Longrightarrow> aset d k v = d"
  by (induction d k v rule: aset.induct) (auto split: if_splits)

lemma map_of_adel [simp]: "map_of (adel d k) = (map_of d)(k := None)"
  by (induction d) (auto simp: adel_def fun_eq_iff)

lemma set_keys_adel [simp]: "set (map fst (adel d k)) = set (map fst d) - {k}"
  by (induction d) (auto simp: adel_def)

lemma distinct_adel [simp]: "distinct (map fst d) \<Longrightarrow> distinct (map fst (adel d k))"
  by (simp add: adel_def distinct_map_filter)

subsection \<open>The Python primitives on JSON values\<close>

text \<open>\<open>x[k]\<close>: \<open>KeyError\<close> for a missing key, \<open>TypeError\<close> when \<open>x\<close> is not a dict
  (a list, str, int or None is not subscriptable by a str).\<close>

fun jget :: "json \<Rightarrow> string \<Rightarrow> json res" where
  "jget (JObj d) k = (case map_of d k of Some v \<Rightarrow> Inr v | None \<Rightarrow> Inl (KeyError k))"
| "jget _ k = Inl (TypeError ''subscript'')"

text \<open>\<open>x.get(k, default)\<close>: only dicts have \<open>get\<close>.\<close>

fun jget_or :: "json \<Rightarrow> string \<Rightarrow> json \<Rightarrow> json res" where
  "jget_or (JObj d) k dflt = Inr (case map_of d k of Some v \<Rightarrow> v | None \<Rightarrow> dflt)"
| "jget_or _ k dflt = Inl (AttributeError ''get'')"

text \<open>\<open>k in x\<close> for a str \<open>k\<close>: key test on a dict, membership on a list, substring
  test on a str, \<open>TypeError\<close> on a scalar.\<close>

definition starts_with :: "string \<Rightarrow> string \<Rightarrow> bool" where
  "starts_with p s = (take (length p) s = p)"

fun is_substr :: "string \<Rightarrow> string \<Rightarrow> bool" where
  "is_substr p [] = (p = [])"
| "is_substr p (c # cs) = (starts_with p (c # cs) \<or> is_substr p cs)"

lemma starts_with_append_self [simp]: "starts_with p (p @ s)"
  by (simp add: starts_with_def)

lemma starts_with_Nil [simp]: "starts_with [] s"
  by (simp add: starts_with_def)

lemma starts_with_append_long:
  "length p \<le> length q \<Longrightarrow> starts_with p (q @ r) = starts_with p q"
  by (simp add: starts_with_def)

lemma starts_with_split: "starts_with p s \<Longrightarrow> s = p @ drop (length p) s"
  unfolding starts_with_def by (metis append_take_drop_id)

lemma starts_with_is_substr: "starts_with p s \<Longrightarrow> is_substr p s"
  by (cases s) (auto simp: starts_with_def)

fun jin :: "string \<Rightarrow> json \<Rightarrow> bool res" where
  "jin k (JObj d) = Inr (k \<in> set (map fst d))"
| "jin k (JList xs) = Inr (JStr k \<in> set xs)"
| "jin k (JStr s) = Inr (is_substr k s)"
| "jin k _ = Inl (TypeError ''in'')"

text \<open>Truthiness, as \<open>if x:\<close> reads a value.\<close>

fun truthy :: "json \<Rightarrow> bool" where
  "truthy JNull = False"
| "truthy (JBool b) = b"
| "truthy (JInt i) = (i \<noteq> 0)"
| "truthy (JStr s) = (s \<noteq> [])"
| "truthy (JList xs) = (xs \<noteq> [])"
| "truthy (JObj d) = (d \<noteq> [])"

text \<open>\<open>for x in v\<close>: the elements of a list, the keys of a dict, the characters of a
  str (one byte each), \<open>TypeError\<close> for a scalar.\<close>

fun jiter :: "json \<Rightarrow> json list res" where
  "jiter (JList xs) = Inr xs"
| "jiter (JObj d) = Inr (map (\<lambda>p. JStr (fst p)) d)"
| "jiter (JStr s) = Inr (map (\<lambda>c. JStr [c]) s)"
| "jiter _ = Inl (TypeError ''iter'')"

text \<open>\<open>x.update({k: v})\<close> (only dicts have \<open>update\<close>) and \<open>del x[k]\<close>.\<close>

fun jupdate :: "json \<Rightarrow> string \<Rightarrow> json \<Rightarrow> json res" where
  "jupdate (JObj d) k v = Inr (JObj (aset d k v))"
| "jupdate _ k v = Inl (AttributeError ''update'')"

fun jdel :: "json \<Rightarrow> string \<Rightarrow> json res" where
  "jdel (JObj d) k = (if k \<in> set (map fst d) then Inr (JObj (adel d k)) else Inl (KeyError k))"
| "jdel _ k = Inl (TypeError ''del'')"

text \<open>The general subscript \<open>x[k]\<close> with a JSON value as key, for the loops that
  subscript a container with the values they iterate: a dict takes str keys (a decoded
  object has no other keys; a list or dict key is unhashable), a list takes int (and
  bool) indices, negative ones counting from the end.\<close>

definition py_index :: "'a list \<Rightarrow> int \<Rightarrow> nat option" where
  "py_index xs i = (let n = int (length xs); j = (if i < 0 then n + i else i)
                    in if 0 \<le> j \<and> j < n then Some (nat j) else None)"

fun jsub :: "json \<Rightarrow> json \<Rightarrow> json res" where
  "jsub (JObj d) (JStr k) = (case map_of d k of Some v \<Rightarrow> Inr v | None \<Rightarrow> Inl (KeyError k))"
| "jsub (JObj d) (JList _) = Inl (TypeError ''unhashable'')"
| "jsub (JObj d) (JObj _) = Inl (TypeError ''unhashable'')"
| "jsub (JObj d) _ = Inl (KeyError ''key'')"
| "jsub (JList xs) (JInt i) = (case py_index xs i of Some j \<Rightarrow> Inr (xs ! j) | None \<Rightarrow> Inl IndexError)"
| "jsub (JList xs) (JBool b) = (case py_index xs (if b then 1 else 0) of Some j \<Rightarrow> Inr (xs ! j) | None \<Rightarrow> Inl IndexError)"
| "jsub (JStr s) (JInt i) = (case py_index s i of Some j \<Rightarrow> Inr (JStr [s ! j]) | None \<Rightarrow> Inl IndexError)"
| "jsub (JStr s) (JBool b) = (case py_index s (if b then 1 else 0) of Some j \<Rightarrow> Inr (JStr [s ! j]) | None \<Rightarrow> Inl IndexError)"
| "jsub _ _ = Inl (TypeError ''subscript'')"

text \<open>Writing back a mutated element \<open>x[k]\<close> found by \<open>jsub\<close>.\<close>

fun jsub_set :: "json \<Rightarrow> json \<Rightarrow> json \<Rightarrow> json res" where
  "jsub_set (JObj d) (JStr k) v = Inr (JObj (aset d k v))"
| "jsub_set (JList xs) (JInt i) v = (case py_index xs i of Some j \<Rightarrow> Inr (JList (xs[j := v])) | None \<Rightarrow> Inl IndexError)"
| "jsub_set (JList xs) (JBool b) v =
     (case py_index xs (if b then 1 else 0) of Some j \<Rightarrow> Inr (JList (xs[j := v])) | None \<Rightarrow> Inl IndexError)"
| "jsub_set _ _ v = Inl (TypeError ''item assignment'')"

text \<open>Reading a nested path \<open>x[k1][k2]...\<close>.\<close>

fun jpath :: "json \<Rightarrow> string list \<Rightarrow> json res" where
  "jpath v [] = Inr v"
| "jpath v (k # ks) = bindr (jget v k) (\<lambda>w. jpath w ks)"

text \<open>Writing a nested path: \<open>x[k1]...[kn] = v\<close> on an existing path (the in-place
  mutation of a sub-object, seen from the root).\<close>

fun jput :: "json \<Rightarrow> string list \<Rightarrow> json \<Rightarrow> json res" where
  "jput x [] v = Inr v"
| "jput x (k # ks) v = bindr (jget x k) (\<lambda>w. bindr (jput w ks v) (\<lambda>w'. jupdate x k w'))"

subsection \<open>Well-formed JSON: every dict has distinct keys\<close>

fun wf_json :: "json \<Rightarrow> bool" where
  "wf_json (JList xs) = (\<forall>x \<in> set xs. wf_json x)"
| "wf_json (JObj d) = (distinct (map fst d) \<and> (\<forall>p \<in> set d. wf_json (snd p)))"
| "wf_json _ = True"

lemma jget_wf: "jget x k = Inr v \<Longrightarrow> wf_json x \<Longrightarrow> wf_json v"
  by (cases x) (auto split: option.splits dest: map_of_SomeD)

lemma jupdate_wf:
  assumes "jupdate x k v = Inr y" and "wf_json x" and "wf_json v"
  shows "wf_json y"
proof (cases x)
  case (JObj d)
  with assms have "\<forall>p \<in> set (aset d k v). wf_json (snd p)"
    by (intro wf_items_aset) auto
  with assms JObj show ?thesis by auto
qed (use assms in auto)

lemma jdel_wf: "jdel x k = Inr y \<Longrightarrow> wf_json x \<Longrightarrow> wf_json y"
  by (cases x) (auto simp: adel_def distinct_map_filter split: if_splits)

lemma jpath_wf: "jpath x ks = Inr v \<Longrightarrow> wf_json x \<Longrightarrow> wf_json v"
  by (induction x ks rule: jpath.induct) (auto simp: bindr_eq_Inr_iff dest: jget_wf)

lemma jput_wf: "jput x ks v = Inr y \<Longrightarrow> wf_json x \<Longrightarrow> wf_json v \<Longrightarrow> wf_json y"
  by (induction x ks v arbitrary: y rule: jput.induct)
     (auto simp: bindr_eq_Inr_iff dest: jget_wf jupdate_wf)

lemma jget_jupdate [simp]: "jupdate x k v = Inr y \<Longrightarrow> jget y k = Inr v"
  by (cases x) auto

lemma jget_jupdate_other: "jupdate x k v = Inr y \<Longrightarrow> k' \<noteq> k \<Longrightarrow> jget y k' = jget x k'"
  by (cases x) auto

lemma jget_jdel_other: "jdel x k = Inr y \<Longrightarrow> k' \<noteq> k \<Longrightarrow> jget y k' = jget x k'"
  by (cases x) (auto split: if_splits)

lemma jpath_jput [simp]: "jput x ks v = Inr y \<Longrightarrow> jpath y ks = Inr v"
  by (induction x ks v arbitrary: y rule: jput.induct) (auto simp: bindr_eq_Inr_iff)

lemma jupdate_same: "jget x k = Inr v \<Longrightarrow> jupdate x k v = Inr x"
  by (cases x) (auto simp: aset_same split: option.splits)

section \<open>Python str operations on byte strings\<close>

subsection \<open>Decimal rendering of ints\<close>

text \<open>\<open>str(n)\<close> and \<open>f"{n}"\<close> for an int.\<close>

fun digits_nat :: "nat \<Rightarrow> string" where
  "digits_nat n = (if n < 10 then [char_of (48 + n)] else digits_nat (n div 10) @ [char_of (48 + n mod 10)])"

declare digits_nat.simps [simp del]

definition str_int :: "int \<Rightarrow> string" where
  "str_int i = (if i < 0 then CHR ''-'' # digits_nat (nat (- i)) else digits_nat (nat i))"

lemma digits_nat_nonempty: "digits_nat n \<noteq> []"
  by (subst digits_nat.simps) simp

subsection \<open>Whitespace\<close>

text \<open>The code points \<open>str.isspace\<close> and the regex class \<open>\s\<close> accept, as UTF-8
  byte sequences: the ASCII ones (tab to carriage return, the separators 0x1c-0x1f,
  space) and U+0085, U+00A0, U+1680, U+2000-U+200A, U+2028, U+2029, U+202F, U+205F,
  U+3000.\<close>

definition ascii_ws :: "char list" where
  "ascii_ws = [CHR 0x09, CHR 0x0A, CHR 0x0B, CHR 0x0C, CHR 0x0D, CHR 0x1C, CHR 0x1D, CHR 0x1E, CHR 0x1F, CHR 0x20]"

definition py_ws_multi :: "string list" where
  "py_ws_multi =
     [[CHR 0xC2, CHR 0x85], [CHR 0xC2, CHR 0xA0], [CHR 0xE1, CHR 0x9A, CHR 0x80],
      [CHR 0xE2, CHR 0x80, CHR 0x80], [CHR 0xE2, CHR 0x80, CHR 0x81], [CHR 0xE2, CHR 0x80, CHR 0x82],
      [CHR 0xE2, CHR 0x80, CHR 0x83], [CHR 0xE2, CHR 0x80, CHR 0x84], [CHR 0xE2, CHR 0x80, CHR 0x85],
      [CHR 0xE2, CHR 0x80, CHR 0x86], [CHR 0xE2, CHR 0x80, CHR 0x87], [CHR 0xE2, CHR 0x80, CHR 0x88],
      [CHR 0xE2, CHR 0x80, CHR 0x89], [CHR 0xE2, CHR 0x80, CHR 0x8A], [CHR 0xE2, CHR 0x80, CHR 0xA8],
      [CHR 0xE2, CHR 0x80, CHR 0xA9], [CHR 0xE2, CHR 0x80, CHR 0xAF], [CHR 0xE2, CHR 0x81, CHR 0x9F],
      [CHR 0xE3, CHR 0x80, CHR 0x80]]"

definition py_ws :: "string list" where
  "py_ws = map (\<lambda>c. [c]) ascii_ws @ py_ws_multi"

lemma py_ws_nonempty: "w \<in> set py_ws \<Longrightarrow> w \<noteq> []"
  by (auto simp: py_ws_def py_ws_multi_def)

text \<open>\<open>s.rstrip()\<close>: drop whitespace code points from the end.\<close>

function rstrip :: "string \<Rightarrow> string" where
  "rstrip s = (case find (\<lambda>w. drop (length s - length w) s = w \<and> length w \<le> length s) py_ws of
                 Some w \<Rightarrow> rstrip (take (length s - length w) s)
               | None \<Rightarrow> s)"
  by pat_completeness auto
termination
proof (relation "measure length")
  fix s w
  assume "find (\<lambda>w. drop (length s - length w) s = w \<and> length w \<le> length s) py_ws = Some w"
  then have "w \<in> set py_ws" and "length w \<le> length s"
    by (auto simp: find_Some_iff)
  moreover from \<open>w \<in> set py_ws\<close> have "0 < length w"
    using py_ws_nonempty by blast
  ultimately have "length s - length w < length s"
    by linarith
  then show "(take (length s - length w) s, s) \<in> measure length"
    by simp
qed simp

declare rstrip.simps [simp del]

lemma rstrip_stop:
  "find (\<lambda>w. drop (length s - length w) s = w \<and> length w \<le> length s) py_ws = None \<Longrightarrow> rstrip s = s"
  and rstrip_step:
  "find (\<lambda>w. drop (length s - length w) s = w \<and> length w \<le> length s) py_ws = Some w \<Longrightarrow>
   rstrip s = rstrip (take (length s - length w) s)"
  by (simp_all add: rstrip.simps [of s])

lemma rstrip_prefix: "take (length (rstrip s)) s = rstrip s \<and> length (rstrip s) \<le> length s"
proof (induction s rule: rstrip.induct)
  case (1 s)
  show ?case
  proof (cases "find (\<lambda>w. drop (length s - length w) s = w \<and> length w \<le> length s) py_ws")
    case None
    then show ?thesis by (simp add: rstrip_stop)
  next
    case (Some w)
    with "1.IH" have "take (length (rstrip (take (length s - length w) s))) (take (length s - length w) s)
        = rstrip (take (length s - length w) s)"
      and "length (rstrip (take (length s - length w) s)) \<le> length s - length w"
      by auto
    with Some show ?thesis
      by (simp add: rstrip_step [OF Some] min_def)
  qed
qed

subsection \<open>\<open>str.replace\<close>\<close>

text \<open>Non-empty pattern: scan left to right and replace non-overlapping occurrences.\<close>

function replace_ne :: "string \<Rightarrow> string \<Rightarrow> string \<Rightarrow> string" where
  "replace_ne old new s =
     (if s = [] \<or> old = [] then s
      else if starts_with old s then new @ replace_ne old new (drop (length old) s)
      else hd s # replace_ne old new (tl s))"
  by pat_completeness auto
termination
  by (relation "measure (\<lambda>(old, new, s). length s)") auto

declare replace_ne.simps [simp del]

text \<open>\<open>s.replace(old, new)\<close>: an empty \<open>old\<close> inserts \<open>new\<close> before every character
  and at the end (\<open>'ab'.replace('', 'X') == 'XaXbX'\<close>); the characters are code points,
  here bytes, which agrees with Python on ASCII text.\<close>

definition py_replace :: "string \<Rightarrow> string \<Rightarrow> string \<Rightarrow> string" where
  "py_replace old new s =
     (if old = [] then concat (map (\<lambda>c. new @ [c]) s) @ new else replace_ne old new s)"

lemma replace_ne_Nil [simp]: "replace_ne old new [] = []"
  by (simp add: replace_ne.simps)

lemma replace_ne_no_occ: "\<not> is_substr old s \<Longrightarrow> replace_ne old new s = s"
proof (induction old new s rule: replace_ne.induct)
  case (1 old new s)
  show ?case
  proof (cases "s = [] \<or> old = []")
    case True
    then show ?thesis by (subst replace_ne.simps) simp
  next
    case False
    then obtain c cs where s: "s = c # cs" by (cases s) auto
    with "1.prems" have "\<not> starts_with old s" and "\<not> is_substr old cs" by auto
    with False "1.IH"(2) s show ?thesis by (subst replace_ne.simps) simp
  qed
qed

lemma starts_with_append_notin:
  assumes "starts_with p (s @ c # t)" and "c \<notin> set p"
  shows "starts_with p s"
proof (cases "length p \<le> length s")
  case True
  with assms(1) show ?thesis by (simp add: starts_with_def)
next
  case False
  define m where "m = length p - length s - 1"
  have "length p - length s = Suc m" using False by (simp add: m_def)
  then have "take (length p) (s @ c # t) = s @ c # take m t" by simp
  with assms(1) have "p = s @ c # take m t" by (simp add: starts_with_def)
  with assms(2) show ?thesis by simp
qed

lemma replace_ne_append_sep:
  assumes "\<not> is_substr old s" and "c \<notin> set old"
  shows "replace_ne old new (s @ c # t) = s @ c # replace_ne old new t"
  using assms(1)
proof (induction s)
  case Nil
  then have "old \<noteq> []" by simp
  moreover have "\<not> starts_with old (c # t)"
    using starts_with_append_notin [of old "[]" c t] assms(2) \<open>old \<noteq> []\<close>
    by (auto simp: starts_with_def)
  ultimately show ?case by (subst replace_ne.simps) simp
next
  case (Cons x s)
  then have ne: "old \<noteq> []" and ns: "\<not> starts_with old (x # s)" and ni: "\<not> is_substr old s"
    by (auto dest: starts_with_is_substr)
  have "\<not> starts_with old (x # s @ c # t)"
    using starts_with_append_notin [of old "x # s" c t] assms(2) ns by auto
  with ne Cons.IH [OF ni] show ?case by (subst replace_ne.simps) simp
qed

lemma replace_ne_prefix:
  assumes "old \<noteq> []"
  shows "replace_ne old new (old @ t) = new @ replace_ne old new t"
  using assms by (subst replace_ne.simps) simp

lemma py_replace_no_occ: "old \<noteq> [] \<Longrightarrow> \<not> is_substr old s \<Longrightarrow> py_replace old new s = s"
  by (simp add: py_replace_def replace_ne_no_occ)

lemma replace_ne_same: "new = old \<Longrightarrow> replace_ne old new s = s"
proof (induction old new s rule: replace_ne.induct)
  case (1 old new s)
  show ?case
  proof (cases "s = [] \<or> old = []")
    case True
    then show ?thesis by (subst replace_ne.simps) simp
  next
    case False
    show ?thesis
    proof (cases "starts_with old s")
      case True
      with False "1.IH"(1) "1.prems" have "replace_ne old new (drop (length old) s) = drop (length old) s"
        by simp
      with False True "1.prems" show ?thesis
        by (subst replace_ne.simps) (metis starts_with_split)
    next
      case nt: False
      with False "1.IH"(2) "1.prems" show ?thesis
        by (subst replace_ne.simps) simp
    qed
  qed
qed

lemma py_replace_self [simp]: "old \<noteq> [] \<Longrightarrow> py_replace old old s = s"
  by (simp add: py_replace_def replace_ne_same)

end
