(* ===== verification/Auth.thy ===== *)
theory Auth
  imports Prelude
begin

text \<open>
  The session state of \<open>XCrawl\<close> and the authenticator (src/controller/x/xcrawl.py):
  the constructor \<open>XCrawl.__init__\<close> (lines 164-186), \<open>__guest_token\<close> (188-207),
  \<open>__Csrftoken\<close> (209-218) and the header preparation that \<open>search\<close> runs before
  every request (843-848; \<open>trends\<close> repeats it at 702-706). The session is a record
  of the private fields that these functions change; an operation that may raise
  returns the session it leaves behind together with its result, since Python keeps
  the mutations made before an exception.
\<close>

section \<open>Session state\<close>

record session =
  cookie :: "string option"
  headers :: dict

text \<open>A Python argument as the type checks of the code see it.\<close>

datatype arg = ArgStr string | ArgNone | ArgOther

definition bearer :: string where
  "bearer = ''Bearer AAAAAAAAAAAAAAAAAAAAANRILgAAAAAAnNwIzUejRCOuH5E6I8xnZz4puTs%3D1Zv7ttfk8LF81IUq16cHjhLTvJu4FA33AGWWjCpTnA''"

definition base_headers :: dict where
  "base_headers =
     [(''Accept'', JStr ''application/json, text/plain, */*''),
      (''Accept-Language'', JStr ''id-ID,id;q=0.9,en-US;q=0.8,en;q=0.7''),
      (''Sec-Fetch-Dest'', JStr ''empty''),
      (''Sec-Fetch-Mode'', JStr ''cors''),
      (''Sec-Fetch-Site'', JStr ''same-site''),
      (''Authorization'', JStr bearer)]"

text \<open>\<open>XCrawl(cookie)\<close>: anything but a str is rejected, \<open>None\<close> (the default) included;
  the cookie is copied into the headers when it is not \<open>None\<close>.\<close>

fun xcrawl_init :: "arg \<Rightarrow> session res" where
  "xcrawl_init (ArgStr c) =
     (let ck = Some c
      in Inr \<lparr>cookie = ck,
              headers = (case ck of Some v \<Rightarrow> aset base_headers ''Cookie'' (JStr v) | None \<Rightarrow> base_headers)\<rparr>)"
| "xcrawl_init _ = Inl (TypeError ''XCrawl'')"

section \<open>The CSRF token: \<open>re.search(r'ct0=([a-zA-Z0-9_-]+)', cookie)\<close>\<close>

definition is_tok_char :: "char \<Rightarrow> bool" where
  "is_tok_char c =
     (let n = of_char c :: nat
      in (97 \<le> n \<and> n \<le> 122) \<or> (65 \<le> n \<and> n \<le> 90) \<or> (48 \<le> n \<and> n \<le> 57) \<or> n = 95 \<or> n = 45)"

text \<open>The leftmost position where \<open>ct0=\<close> is followed by at least one token
  character; the group is the longest run of token characters there (greedy \<open>+\<close>).\<close>

fun csrf_search :: "string \<Rightarrow> string option" where
  "csrf_search [] = None"
| "csrf_search (c # cs) =
     (let tok = takeWhile is_tok_char (drop 4 (c # cs))
      in if starts_with ''ct0='' (c # cs) \<and> tok \<noteq> [] then Some tok else csrf_search cs)"

definition csrf_token :: "string \<Rightarrow> string res" where
  "csrf_token ck = (case csrf_search ck of Some t \<Rightarrow> Inr t | None \<Rightarrow> Inl CSRFTokenMissingError)"

section \<open>The guest token\<close>

text \<open>An HTTP response as the code reads it: status, reason phrase, and the body
  decoded by \<open>resp.json()\<close> (\<open>None\<close> when the body is not JSON, where \<open>json()\<close>
  raises \<open>JSONDecodeError\<close>, a \<open>ValueError\<close>).\<close>

record http_resp =
  status :: int
  reason :: string
  body :: "json option"

definition http_error_msg :: "http_resp \<Rightarrow> string" where
  "http_error_msg r = ''Error! status code '' @ str_int (status r) @ '' : '' @ reason r"

text \<open>\<open>__guest_token\<close>: a fresh User-Agent \<open>ua\<close> is stored, the POST is answered by
  \<open>r\<close>; the body is decoded before the status is looked at.\<close>

definition guest_token :: "string \<Rightarrow> http_resp \<Rightarrow> session \<Rightarrow> session \<times> json res" where
  "guest_token ua r st =
     (let st1 = st\<lparr>headers := aset (headers st) ''User-Agent'' (JStr ua)\<rparr>
      in case body r of
           None \<Rightarrow> (st1, Inl (ValueError ''JSONDecodeError''))
         | Some b \<Rightarrow>
             (case jget_or b ''guest_token'' JNull of
                Inl e \<Rightarrow> (st1, Inl e)
              | Inr content \<Rightarrow>
                  if status r = 200 then
                    (let st2 = st1\<lparr>headers := aset (headers st1) ''X-Guest-Token'' content\<rparr>
                     in (st2, Inr (case map_of (headers st2) ''X-Guest-Token'' of Some v \<Rightarrow> v | None \<Rightarrow> JNull)))
                  else (st1, Inl (HTTPErrorException (http_error_msg r)))))"

section \<open>Header preparation before a request\<close>

text \<open>Lines 843-848 of \<open>search\<close>: store the User-Agent \<open>ua\<close>, then the guest token
  (fetched with a second User-Agent \<open>ua'\<close> and the activation response \<open>r\<close>) when
  there is no cookie, the CSRF token otherwise.\<close>

definition prepare_headers :: "string \<Rightarrow> string \<Rightarrow> http_resp \<Rightarrow> session \<Rightarrow> session \<times> unit res" where
  "prepare_headers ua ua' r st =
     (let st1 = st\<lparr>headers := aset (headers st) ''User-Agent'' (JStr ua)\<rparr>
      in case cookie st1 of
           None \<Rightarrow>
             (case guest_token ua' r st1 of
                (st2, Inl e) \<Rightarrow> (st2, Inl e)
              | (st2, Inr tok) \<Rightarrow> (st2\<lparr>headers := aset (headers st2) ''X-Guest-Token'' tok\<rparr>, Inr ()))
         | Some ck \<Rightarrow>
             (case csrf_token ck of
                Inl e \<Rightarrow> (st1, Inl e)
              | Inr tok \<Rightarrow> (st1\<lparr>headers := aset (headers st1) ''X-Csrf-Token'' (JStr tok)\<rparr>, Inr ())))"

section \<open>Reachable sessions\<close>

text \<open>The session fields change only in the constructor and in the header preparation
  that \<open>search\<close> and \<open>trends\<close> run before each request; the user agents and the
  guest-activation response are inputs from the environment.\<close>

inductive session_reach :: "session \<Rightarrow> bool" where
  init: "xcrawl_init a = Inr st \<Longrightarrow> session_reach st"
| prepare: "session_reach st \<Longrightarrow> session_reach (fst (prepare_headers ua ua' r st))"

text \<open>The invariant: a cookie is present and copied into the headers, the header
  dict has distinct keys and keeps the fixed platform headers.\<close>

definition has_base :: "dict \<Rightarrow> bool" where
  "has_base h = list_all (\<lambda>p. map_of h (fst p) = Some (snd p)) base_headers"

definition session_inv :: "session \<Rightarrow> bool" where
  "session_inv st =
     (cookie st \<noteq> None \<and> distinct (map fst (headers st)) \<and> has_base (headers st) \<and>
      map_of (headers st) ''Cookie'' = map_option JStr (cookie st))"

section \<open>Lemmas: the CSRF token\<close>

definition demo_session :: session where
  "demo_session = \<lparr>cookie = Some ''ct0=ab'', headers = aset base_headers ''Cookie'' (JStr ''ct0=ab'')\<rparr>"

lemma csrf_search_SomeD:
  "csrf_search s = Some t \<Longrightarrow>
     t \<noteq> [] \<and> list_all is_tok_char t \<and>
     (\<exists>u v. s = u @ ''ct0='' @ t @ v \<and> (v = [] \<or> \<not> is_tok_char (hd v)))"
proof (induction s)
  case Nil
  then show ?case by simp
next
  case (Cons c cs)
  show ?case
  proof (cases "starts_with ''ct0='' (c # cs) \<and> takeWhile is_tok_char (drop 4 (c # cs)) \<noteq> []")
    case True
    with Cons.prems have t: "t = takeWhile is_tok_char (drop 4 (c # cs))" by simp
    let ?v = "dropWhile is_tok_char (drop 4 (c # cs))"
    have "c # cs = ''ct0='' @ drop (length ''ct0='') (c # cs)"
      using True by (intro starts_with_split) simp
    also have "drop (length ''ct0='') (c # cs) = t @ ?v"
      using t by (simp only: takeWhile_dropWhile_id) (simp add: numeral_3_eq_3)
    finally have "c # cs = [] @ ''ct0='' @ t @ ?v" by simp
    moreover have "?v = [] \<or> \<not> is_tok_char (hd ?v)"
      using hd_dropWhile by blast
    moreover have "list_all is_tok_char t"
      using t by (auto simp: list_all_iff dest: set_takeWhileD)
    ultimately show ?thesis
      using True t by (intro conjI exI [of _ "[]"] exI [of _ ?v]) simp_all
  next
    case False
    with Cons.prems have "csrf_search cs = Some t" by (auto simp: Let_def split: if_splits)
    with Cons.IH obtain u v where "cs = u @ ''ct0='' @ t @ v" "v = [] \<or> \<not> is_tok_char (hd v)"
      and "t \<noteq> []" "list_all is_tok_char t" by blast
    then show ?thesis by (metis append_Cons)
  qed
qed

lemma csrf_search_occ:
  "is_tok_char c \<Longrightarrow> csrf_search (u @ ''ct0='' @ c # v) \<noteq> None"
proof (induction u)
  case Nil
  have "starts_with ''ct0='' (''ct0='' @ c # v)" by (rule starts_with_append_self)
  with Nil show ?case by (simp add: Let_def)
qed (simp add: Let_def)

lemma csrf_search_first:
  assumes "\<not> is_substr ''ct0='' (u @ ''ct0'')" and "t \<noteq> []" and "list_all is_tok_char t"
    and "v = [] \<or> \<not> is_tok_char (hd v)"
  shows "csrf_search (u @ ''ct0='' @ t @ v) = Some t"
  using assms(1)
proof (induction u)
  case Nil
  have "takeWhile is_tok_char (t @ v) = t"
    using assms(3,4) by (cases v) (auto simp: list_all_iff takeWhile_append2)
  moreover have "starts_with ''ct0='' (''ct0='' @ t @ v)" by (rule starts_with_append_self)
  ultimately show ?case using assms(2) by (simp add: Let_def)
next
  case (Cons x u)
  have "(x # u) @ ''ct0='' @ t @ v = (x # u @ ''ct0'') @ (CHR ''='' # t @ v)" by simp
  moreover from Cons.prems have "\<not> starts_with ''ct0='' (x # u @ ''ct0'')" by simp
  moreover have "starts_with ''ct0='' ((x # u @ ''ct0'') @ (CHR ''='' # t @ v))
      = starts_with ''ct0='' (x # u @ ''ct0'')"
    by (rule starts_with_append_long) simp
  ultimately have "\<not> starts_with ''ct0='' ((x # u) @ ''ct0='' @ t @ v)"
    by (simp only: not_False_eq_True)
  moreover from Cons.prems have "\<not> is_substr ''ct0='' (u @ ''ct0'')" by simp
  ultimately show ?case using Cons.IH by (simp add: Let_def)
qed

section \<open>Lemmas: the session\<close>

lemma has_base_aset: "k \<notin> set (map fst base_headers) \<Longrightarrow> has_base h \<Longrightarrow> has_base (aset h k v)"
  by (auto simp: has_base_def list_all_iff)

lemma session_inv_aset:
  "session_inv st \<Longrightarrow> k \<notin> set (map fst base_headers) \<Longrightarrow> k \<noteq> ''Cookie'' \<Longrightarrow>
   session_inv (st\<lparr>headers := aset (headers st) k v\<rparr>)"
  by (auto simp: session_inv_def has_base_aset)

lemma xcrawl_init_inv: "xcrawl_init a = Inr st \<Longrightarrow> session_inv st"
  by (cases a) (auto simp: session_inv_def has_base_def base_headers_def)

lemma xcrawl_init_str: "(\<exists>st. xcrawl_init a = Inr st) \<longleftrightarrow> (\<exists>c. a = ArgStr c)"
  by (cases a) auto

lemma prepare_headers_csrf:
  assumes "cookie st = Some ck"
  shows "prepare_headers ua ua' r st =
     (let st1 = st\<lparr>headers := aset (headers st) ''User-Agent'' (JStr ua)\<rparr>
      in case csrf_token ck of
           Inl e \<Rightarrow> (st1, Inl e)
         | Inr tok \<Rightarrow> (st1\<lparr>headers := aset (headers st1) ''X-Csrf-Token'' (JStr tok)\<rparr>, Inr ()))"
  using assms by (simp add: prepare_headers_def Let_def)

lemma session_inv_prepare_headers:
  "session_inv st \<Longrightarrow> session_inv (fst (prepare_headers ua ua' r st))"
proof -
  assume inv: "session_inv st"
  then obtain ck where ck: "cookie st = Some ck" by (auto simp: session_inv_def)
  let ?st1 = "st\<lparr>headers := aset (headers st) ''User-Agent'' (JStr ua)\<rparr>"
  have inv1: "session_inv ?st1"
    using inv by (rule session_inv_aset) (auto simp: base_headers_def)
  then have "session_inv (?st1\<lparr>headers := aset (headers ?st1) ''X-Csrf-Token'' v\<rparr>)" for v
    by (rule session_inv_aset) (auto simp: base_headers_def)
  with inv1 show ?thesis
    by (simp add: prepare_headers_csrf [OF ck] Let_def split: sum.split)
qed

lemma guest_token_nonjson:
  "body r = None \<Longrightarrow> snd (guest_token ua r st) = Inl (ValueError ''JSONDecodeError'')"
  by (simp add: guest_token_def)

section \<open>Properties of the authenticator\<close>

text \<open>C31. \<open>__Csrftoken\<close> raises \<open>CSRFTokenMissingError\<close> exactly when the cookie has
  no \<open>ct0=\<close> followed by a token character; whatever surrounds such a segment, the
  token is found.\<close>

theorem csrf_token_missing_iff:
  "csrf_token ck = Inl CSRFTokenMissingError \<longleftrightarrow>
   \<not> (\<exists>u c v. ck = u @ ''ct0='' @ c # v \<and> is_tok_char c)"
proof
  assume "csrf_token ck = Inl CSRFTokenMissingError"
  then have "csrf_search ck = None" by (simp add: csrf_token_def split: option.splits)
  then show "\<not> (\<exists>u c v. ck = u @ ''ct0='' @ c # v \<and> is_tok_char c)"
    using csrf_search_occ by blast
next
  assume none: "\<not> (\<exists>u c v. ck = u @ ''ct0='' @ c # v \<and> is_tok_char c)"
  have "csrf_search ck = None"
  proof (rule ccontr)
    assume "csrf_search ck \<noteq> None"
    then obtain t where "csrf_search ck = Some t" by blast
    from csrf_search_SomeD [OF this] obtain u v where "ck = u @ ''ct0='' @ t @ v"
      and "t \<noteq> []" and "list_all is_tok_char t" by blast
    with none show False by (cases t) auto
  qed
  then show "csrf_token ck = Inl CSRFTokenMissingError" by (simp add: csrf_token_def)
qed

text \<open>A token returned by \<open>__Csrftoken\<close> is a non-empty run of
  \<open>[a-zA-Z0-9_-]\<close> that follows \<open>ct0=\<close> in the cookie and is not extended by a
  further token character (the greedy group).\<close>

theorem csrf_token_found:
  "csrf_token ck = Inr t \<Longrightarrow>
     t \<noteq> [] \<and> list_all is_tok_char t \<and>
     (\<exists>u v. ck = u @ ''ct0='' @ t @ v \<and> (v = [] \<or> \<not> is_tok_char (hd v)))"
  by (rule csrf_search_SomeD) (simp add: csrf_token_def split: option.splits)

theorem csrf_token_found_witness:
  "csrf_token ''lang=en; ct0=a-9; x=1'' = Inr ''a-9'' \<and>
   (\<exists>u v. ''lang=en; ct0=a-9; x=1'' = u @ ''ct0='' @ ''a-9'' @ v \<and> (v = [] \<or> \<not> is_tok_char (hd v)))"
proof -
  have r: "csrf_token ''lang=en; ct0=a-9; x=1'' = Inr ''a-9''"
    by (simp add: csrf_token_def is_tok_char_def starts_with_def)
  show ?thesis using r csrf_token_found [OF r] by simp
qed

text \<open>The pattern is not anchored at a cookie name: the token is taken from the
  first \<open>ct0=\<close> in the cookie string, also when it ends the name of another cookie
  such as \<open>act0\<close>.\<close>

theorem csrf_token_first_occurrence:
  "\<not> is_substr ''ct0='' (u @ ''ct0'') \<Longrightarrow> t \<noteq> [] \<Longrightarrow> list_all is_tok_char t \<Longrightarrow>
   v = [] \<or> \<not> is_tok_char (hd v) \<Longrightarrow> csrf_token (u @ ''ct0='' @ t @ v) = Inr t"
  using csrf_search_first [of u t v] by (simp add: csrf_token_def)

theorem csrf_token_first_occurrence_witness:
  "csrf_token (''a'' @ ''ct0='' @ ''zzz'' @ ''; ct0=real'') = Inr ''zzz''"
  by (rule csrf_token_first_occurrence) (simp_all add: is_tok_char_def starts_with_def)

lemma reach_session_inv: "session_reach st \<Longrightarrow> session_inv st"
proof (induction rule: session_reach.induct)
  case (init a st)
  then show ?case by (rule xcrawl_init_inv)
next
  case (prepare st ua ua' r)
  from prepare.IH show ?case by (rule session_inv_prepare_headers)
qed

lemma reach_cookie: "session_reach st \<Longrightarrow> \<exists>ck. cookie st = Some ck"
  by (auto dest: reach_session_inv simp: session_inv_def)

text \<open>C32. Every reachable session has a cookie, copied into the headers, distinct
  header names and the fixed platform headers (Accept, Accept-Language, Sec-Fetch-*,
  Authorization with the bearer token).\<close>

theorem session_reach_inv: "session_reach st \<Longrightarrow> session_inv st"
  by (rule reach_session_inv)

lemma demo_session_reach: "session_reach demo_session"
  by (rule session_reach.init [of "ArgStr ''ct0=ab''"]) (simp add: demo_session_def)

theorem session_reach_inv_witness:
  "session_reach demo_session \<and> session_inv demo_session"
  using demo_session_reach session_reach_inv [OF demo_session_reach] by simp

text \<open>C33. The constructor rejects a missing cookie (\<open>XCrawl()\<close> raises
  \<open>TypeError\<close>), so in every reachable session the guest-token branch of the header
  preparation is dead: its result does not depend on the guest-activation response
  nor on the user agent that branch would send.\<close>

theorem prepare_headers_ignores_guest:
  "session_reach st \<Longrightarrow> prepare_headers ua ua' r st = prepare_headers ua ua'' r' st"
  by (auto dest: reach_cookie simp: prepare_headers_csrf)

theorem prepare_headers_ignores_guest_witness:
  "prepare_headers ''UA'' ''UA1'' \<lparr>status = 200, reason = ''OK'', body = None\<rparr> demo_session =
   prepare_headers ''UA'' ''UA2'' \<lparr>status = 500, reason = ''Err'', body = Some JNull\<rparr> demo_session"
  by (rule prepare_headers_ignores_guest [OF demo_session_reach])

text \<open>With a cookie, the header preparation stores the new User-Agent and, when the
  cookie carries a token, the \<open>X-Csrf-Token\<close> header; when it does not, it raises the
  token error and leaves \<open>X-Csrf-Token\<close> as it was.\<close>

theorem prepare_headers_csrf_result:
  "cookie st = Some ck \<Longrightarrow> prepare_headers ua ua' r st = (st', x) \<Longrightarrow>
   map_of (headers st') ''User-Agent'' = Some (JStr ua) \<and>
   (case csrf_token ck of
      Inr t \<Rightarrow> x = Inr () \<and> map_of (headers st') ''X-Csrf-Token'' = Some (JStr t)
    | Inl e \<Rightarrow> x = Inl e \<and> map_of (headers st') ''X-Csrf-Token'' = map_of (headers st) ''X-Csrf-Token'')"
  by (auto simp: prepare_headers_csrf Let_def split: sum.splits)

theorem prepare_headers_csrf_result_witness:
  "map_of (headers (fst (prepare_headers ''UA'' ''UA1'' \<lparr>status = 200, reason = ''OK'', body = None\<rparr> demo_session)))
     ''X-Csrf-Token'' = Some (JStr ''ab'')"
proof -
  have c: "cookie demo_session = Some ''ct0=ab''" by (simp add: demo_session_def)
  have t: "csrf_token ''ct0=ab'' = Inr ''ab''"
    by (simp add: csrf_token_def is_tok_char_def starts_with_def)
  obtain st' x where p: "prepare_headers ''UA'' ''UA1'' \<lparr>status = 200, reason = ''OK'', body = None\<rparr> demo_session = (st', x)"
    by fastforce
  show ?thesis using prepare_headers_csrf_result [OF c p] t p by simp
qed

text \<open>C34. For a non-200 answer to the guest activation, \<open>__guest_token\<close> raises the
  HTTP error only when the body decodes to a JSON object: the body is decoded before the
  status is checked, so a non-JSON error page raises \<open>JSONDecodeError\<close> instead.\<close>

theorem guest_token_non200:
  "status r \<noteq> 200 \<Longrightarrow>
   snd (guest_token ua r st) = Inl (HTTPErrorException (http_error_msg r)) \<longleftrightarrow> (\<exists>d. body r = Some (JObj d))"
proof -
  assume s: "status r \<noteq> 200"
  show ?thesis
  proof (cases "body r")
    case None
    then show ?thesis by (simp add: guest_token_def)
  next
    case (Some b)
    with s show ?thesis by (cases b) (simp_all add: guest_token_def)
  qed
qed

theorem guest_token_non200_witness:
  "snd (guest_token ''UA'' \<lparr>status = 503, reason = ''Unavailable'', body = None\<rparr> demo_session)
     \<noteq> Inl (HTTPErrorException (http_error_msg \<lparr>status = 503, reason = ''Unavailable'', body = None\<rparr>))"
  using guest_token_non200 [of "\<lparr>status = 503, reason = ''Unavailable'', body = None\<rparr>" "''UA''" demo_session]
  by simp

end
