(* ===== verification/Entities.thy ===== *)
theory Entities
  imports Prelude
begin

text \<open>
  The noise-key machinery of the sanitizer (src/controller/x/xcrawl.py):
  \<open>__generatekey\<close> (the lambda of lines 184-186), the deletion loops built on it,
  and \<open>__removeallentites\<close> (lines 268-354), which cleans the \<open>entities\<close> or
  \<open>extended_entities\<close> block of a tweet's \<open>legacy\<close> dict in place. The function is
  modelled as a transformer of the tweet value; its local variable \<open>url\<close> (bound only
  when a media element loses a key, and kept across the loops) is threaded as an option,
  \<open>None\<close> standing for "unbound". In-place mutation of a nested element is modelled by
  writing the new element back at the position it was read from.
\<close>

section \<open>\<open>__generatekey\<close> and the deletion loops\<close>

text \<open>\<open>[key for key in datas if key in keys]\<close>: the iterated values that are strs of
  \<open>keys\<close> (only a str can equal a str).\<close>

fun str_keys_in :: "string list \<Rightarrow> json list \<Rightarrow> string list" where
  "str_keys_in keys [] = []"
| "str_keys_in keys (JStr s # xs) = (if s \<in> set keys then s # str_keys_in keys xs else str_keys_in keys xs)"
| "str_keys_in keys (_ # xs) = str_keys_in keys xs"

definition generatekey :: "json \<Rightarrow> string list \<Rightarrow> string list res" where
  "generatekey datas keys = bindr (jiter datas) (\<lambda>ks. Inr (str_keys_in keys ks))"

text \<open>\<open>for key in ...: del datas[key]\<close>.\<close>

fun del_all :: "json \<Rightarrow> string list \<Rightarrow> json res" where
  "del_all d [] = Inr d"
| "del_all d (k # ks) = bindr (jdel d k) (\<lambda>d'. del_all d' ks)"

definition strip_keys :: "json \<Rightarrow> string list \<Rightarrow> json res" where
  "strip_keys d keys = bindr (generatekey d keys) (del_all d)"

section \<open>\<open>__removeallentites\<close>\<close>

definition keys_remove :: "string list" where
  "keys_remove = [''id_str'', ''indices'', ''media_key'', ''ext_media_availability'', ''features'', ''sizes'',
                  ''original_info'', ''additional_media_info'']"

definition key_check :: "string list" where
  "key_check = [''hashtags'', ''media'', ''symbols'', ''timestamps'', ''urls'', ''user_mentions'']"

subsection \<open>Hashtags: objects flattened to their text\<close>

fun hashtag_texts :: "json list \<Rightarrow> json list res" where
  "hashtag_texts [] = Inr []"
| "hashtag_texts (e # es) = bindr (jget e ''text'') (\<lambda>t. bindr (hashtag_texts es) (\<lambda>ts. Inr (t # ts)))"

text \<open>The \<open>try\<close> block catches \<open>TypeError\<close> only (an element that is not a dict, a
  \<open>hashtags\<close> value that cannot be iterated); the list is then left as it was. A
  dict without \<open>text\<close> raises \<open>KeyError\<close>, which escapes.\<close>

definition hashtags_block :: "json \<Rightarrow> json res" where
  "hashtags_block E =
     bindr (jin ''hashtags'' E) (\<lambda>has.
       if \<not> has then Inr E
       else bindr (jget E ''hashtags'') (\<lambda>hs.
         if \<not> truthy hs then Inr E
         else (case bindr (jiter hs) hashtag_texts of
                 Inr ts \<Rightarrow> jupdate E ''hashtags'' (JList ts)
               | Inl (TypeError _) \<Rightarrow> Inr E
               | Inl e \<Rightarrow> Inl e)))"

subsection \<open>Media: noise keys, \<open>video_info.aspect_ratio\<close>, and the short link in \<open>full_text\<close>\<close>

text \<open>The inner loop over the keys \<open>__generatekey\<close> found in one media element: each
  deletion is followed by the \<open>aspect_ratio\<close> deletion and by \<open>url = e_media["url"]\<close>.\<close>

fun media_key_loop :: "json \<Rightarrow> string list \<Rightarrow> json option \<Rightarrow> (json \<times> json option) res" where
  "media_key_loop e [] url = Inr (e, url)"
| "media_key_loop e (k # ks) url =
     bindr (jdel e k) (\<lambda>e1.
     bindr (jin ''video_info'' e1) (\<lambda>has_vi.
     bindr (if has_vi
            then bindr (jget e1 ''video_info'') (\<lambda>vi.
                 bindr (jin ''aspect_ratio'' vi) (\<lambda>has_ar.
                   if has_ar then bindr (jdel vi ''aspect_ratio'') (\<lambda>vi'. jupdate e1 ''video_info'' vi')
                   else Inr e1))
            else Inr e1) (\<lambda>e2.
     bindr (jget e2 ''url'') (\<lambda>u. media_key_loop e2 ks (Some u)))))"

definition strip_media_elem :: "json \<Rightarrow> json option \<Rightarrow> (json \<times> json option) res" where
  "strip_media_elem e url = bindr (generatekey e keys_remove) (\<lambda>ks. media_key_loop e ks url)"

text \<open>\<open>for key, value in datas["legacy"].items(): if key == "full_text": ...\<close>: the
  attribute \<open>value.replace\<close> is looked up first, then \<open>url\<close> is read, then the call
  checks that \<open>url\<close> is a str.\<close>

definition replace_full_text :: "json \<Rightarrow> json option \<Rightarrow> json res" where
  "replace_full_text lg url =
     (case lg of
        JObj d \<Rightarrow>
          (case map_of d ''full_text'' of
             None \<Rightarrow> Inr lg
           | Some (JStr t) \<Rightarrow>
               (case url of
                  None \<Rightarrow> Inl (UnboundLocalError ''url'')
                | Some (JStr u) \<Rightarrow> Inr (JObj (aset d ''full_text'' (JStr (rstrip (py_replace u [] t)))))
                | Some _ \<Rightarrow> Inl (TypeError ''replace''))
           | Some _ \<Rightarrow> Inl (AttributeError ''replace''))
      | _ \<Rightarrow> Inl (AttributeError ''items''))"

text \<open>The loop over the media elements: each element is cleaned, then \<open>full_text\<close>
  loses the current \<open>url\<close>.\<close>

fun media_elems :: "json list \<Rightarrow> json \<Rightarrow> json option \<Rightarrow> (json list \<times> json \<times> json option) res" where
  "media_elems [] lg url = Inr ([], lg, url)"
| "media_elems (e # es) lg url =
     bindr (strip_media_elem e url) (\<lambda>(e', url').
     bindr (replace_full_text lg url') (\<lambda>lg'.
     bindr (media_elems es lg' url') (\<lambda>(es', lg'', url''). Inr (e' # es', lg'', url''))))"

text \<open>The media block on the legacy dict \<open>lg\<close>; the cleaned elements go back into
  \<open>lg[kw]["media"]\<close> when that is a list (iterating a dict or a str yields new strs,
  which the loop cannot change).\<close>

definition media_block :: "string \<Rightarrow> json \<Rightarrow> json option \<Rightarrow> (json \<times> json option) res" where
  "media_block kw lg url =
     bindr (jget lg kw) (\<lambda>E.
     bindr (jin ''media'' E) (\<lambda>has.
       if \<not> has then Inr (lg, url)
       else bindr (jget E ''media'') (\<lambda>ms.
         if \<not> truthy ms then Inr (lg, url)
         else bindr (jiter ms) (\<lambda>es.
              bindr (media_elems es lg url) (\<lambda>(es', lg', url').
                case ms of
                  JList _ \<Rightarrow> bindr (jput lg' [kw, ''media''] (JList es')) (\<lambda>lg''. Inr (lg'', url'))
                | _ \<Rightarrow> Inr (lg', url'))))))"

subsection \<open>Symbols, timestamps, urls, user mentions\<close>

fun strip_elems :: "string list \<Rightarrow> json list \<Rightarrow> json list res" where
  "strip_elems keys [] = Inr []"
| "strip_elems keys (e # es) = bindr (strip_keys e keys) (\<lambda>e'. bindr (strip_elems keys es) (\<lambda>es'. Inr (e' # es')))"

definition list_block :: "string \<Rightarrow> string list \<Rightarrow> json \<Rightarrow> json res" where
  "list_block cat keys E =
     bindr (jin cat E) (\<lambda>has.
       if \<not> has then Inr E
       else bindr (jget E cat) (\<lambda>xs.
         if \<not> truthy xs then Inr E
         else bindr (jiter xs) (\<lambda>es.
              bindr (strip_elems keys es) (\<lambda>es'.
                case xs of JList _ \<Rightarrow> jupdate E cat (JList es') | _ \<Rightarrow> Inr E))))"

subsection \<open>One pass of the six blocks, and the whole function\<close>

text \<open>The body of \<open>if kc in datas["legacy"][keyword]:\<close>: all six blocks, in the
  source's order, whatever \<open>kc\<close> is.\<close>

definition entity_block :: "string \<Rightarrow> json \<Rightarrow> json option \<Rightarrow> (json \<times> json option) res" where
  "entity_block kw lg url =
     bindr (jget lg kw) (\<lambda>E.
     bindr (hashtags_block E) (\<lambda>E1.
     bindr (jupdate lg kw E1) (\<lambda>lg1.
     bindr (media_block kw lg1 url) (\<lambda>(lg2, url2).
     bindr (jget lg2 kw) (\<lambda>E2.
     bindr (list_block ''symbols'' keys_remove E2) (\<lambda>E3.
     bindr (list_block ''timestamps'' keys_remove E3) (\<lambda>E4.
     bindr (list_block ''urls'' keys_remove E4) (\<lambda>E5.
     bindr (list_block ''user_mentions'' (filter (\<lambda>kr. kr \<noteq> ''id_str'') keys_remove) E5) (\<lambda>E6.
     bindr (jupdate lg2 kw E6) (\<lambda>lg3. Inr (lg3, url2)))))))))))"

fun kc_loop :: "string \<Rightarrow> string list \<Rightarrow> json \<Rightarrow> json option \<Rightarrow> (json \<times> json option) res" where
  "kc_loop kw [] lg url = Inr (lg, url)"
| "kc_loop kw (kc # kcs) lg url =
     bindr (jget lg kw) (\<lambda>E.
     bindr (jin kc E) (\<lambda>has.
       if has then bindr (entity_block kw lg url) (\<lambda>(lg', url'). kc_loop kw kcs lg' url')
       else kc_loop kw kcs lg url))"

definition removeallentites :: "string \<Rightarrow> json \<Rightarrow> json res" where
  "removeallentites kw datas =
     (case datas of
        JObj _ \<Rightarrow>
          bindr (jget datas ''legacy'') (\<lambda>lg.
          bindr (jin kw lg) (\<lambda>has.
            if \<not> has then Inr datas
            else bindr (kc_loop kw key_check lg None) (\<lambda>(lg', _). jupdate datas ''legacy'' lg')))
      | _ \<Rightarrow> Inl (TypeError ''__removeallentites''))"

subsection \<open>Frames and a sample tweet\<close>

text \<open>\<open>frame K x y\<close>: every key outside \<open>K\<close> reads the same in \<open>y\<close> as in \<open>x\<close>.\<close>

definition frame :: "string set \<Rightarrow> json \<Rightarrow> json \<Rightarrow> bool" where
  "frame K x y = (\<forall>k. k \<notin> K \<longrightarrow> jget y k = jget x k)"

text \<open>The tweet of the specification's example: one hashtag, one media element whose
  short link ends \<open>full_text\<close>, one user mention.\<close>

definition demo_tweet :: json where
  "demo_tweet = JObj [(''rest_id'', JStr ''1''), (''legacy'', JObj [
     (''full_text'', JStr ''hello world https://t.co/abc123''),
     (''entities'', JObj [
        (''hashtags'', JList [JObj [(''indices'', JList [JInt 0]), (''text'', JStr ''x'')]]),
        (''media'', JList [JObj [(''id_str'', JStr ''9''), (''indices'', JList []),
           (''url'', JStr ''https://t.co/abc123''),
           (''video_info'', JObj [(''aspect_ratio'', JList [JInt 1]), (''variants'', JList [])])]]),
        (''user_mentions'', JList [JObj [(''id_str'', JStr ''5''), (''indices'', JList []),
           (''name'', JStr ''n'')]])])])]"

definition demo_tweet_clean :: json where
  "demo_tweet_clean = JObj [(''rest_id'', JStr ''1''), (''legacy'', JObj [
     (''full_text'', JStr ''hello world''),
     (''entities'', JObj [
        (''hashtags'', JList [JStr ''x'']),
        (''media'', JList [JObj [(''url'', JStr ''https://t.co/abc123''),
           (''video_info'', JObj [(''variants'', JList [])])]]),
        (''user_mentions'', JList [JObj [(''id_str'', JStr ''5''), (''name'', JStr ''n'')]])])])]"

section \<open>Lemmas\<close>

subsection \<open>Key stripping is filtering\<close>

lemma str_keys_in_strs: "str_keys_in ks (map (\<lambda>p. JStr (fst p)) d) = filter (\<lambda>k. k \<in> set ks) (map fst d)"
  by (induction d) auto

lemma del_all_obj:
  "distinct ls \<Longrightarrow> set ls \<subseteq> set (map fst d) \<Longrightarrow>
   del_all (JObj d) ls = Inr (JObj (filter (\<lambda>p. fst p \<notin> set ls) d))"
proof (induction ls arbitrary: d)
  case (Cons l ls)
  have "set ls \<subseteq> set (map fst d) - {l}" using Cons.prems by auto
  then have "set ls \<subseteq> set (map fst (adel d l))" by (simp only: set_keys_adel)
  then have "del_all (JObj (adel d l)) ls = Inr (JObj (filter (\<lambda>p. fst p \<notin> set ls) (adel d l)))"
    using Cons by simp
  then show ?case using Cons.prems by (simp add: adel_def filter_filter conj_commute)
qed simp

lemma strip_keys_obj:
  "distinct (map fst d) \<Longrightarrow> strip_keys (JObj d) ks = Inr (JObj (filter (\<lambda>p. fst p \<notin> set ks) d))"
proof -
  assume "distinct (map fst d)"
  then have "del_all (JObj d) (filter (\<lambda>k. k \<in> set ks) (map fst d))
      = Inr (JObj (filter (\<lambda>p. fst p \<notin> set (filter (\<lambda>k. k \<in> set ks) (map fst d))) d))"
    by (intro del_all_obj) auto
  also have "filter (\<lambda>p. fst p \<notin> set (filter (\<lambda>k. k \<in> set ks) (map fst d))) d = filter (\<lambda>p. fst p \<notin> set ks) d"
    by (rule filter_cong) auto
  finally show ?thesis by (simp add: strip_keys_def generatekey_def str_keys_in_strs)
qed

lemma del_all_nonobj: "del_all x ls = Inr y \<Longrightarrow> (\<And>d. x \<noteq> JObj d) \<Longrightarrow> y = x"
  by (cases ls; cases x) auto

lemma strip_keys_cases:
  assumes that: "strip_keys x ks = Inr y"
  shows "(case x of JObj d \<Rightarrow> distinct (map fst d) \<longrightarrow> y = JObj (filter (\<lambda>p. fst p \<notin> set ks) d) | _ \<Rightarrow> y = x)"
proof (cases x)
  case (JObj d)
  then show ?thesis using that by (auto simp: strip_keys_obj)
qed (use that in \<open>auto simp: strip_keys_def generatekey_def bindr_eq_Inr_iff dest: del_all_nonobj\<close>)

lemma del_all_wf: "del_all x ls = Inr y \<Longrightarrow> wf_json x \<Longrightarrow> wf_json y"
  by (induction x ls rule: del_all.induct) (auto simp: bindr_eq_Inr_iff dest: jdel_wf)

lemma strip_keys_wf: "strip_keys x ks = Inr y \<Longrightarrow> wf_json x \<Longrightarrow> wf_json y"
  by (auto simp: strip_keys_def bindr_eq_Inr_iff dest: del_all_wf)


subsection \<open>What \<open>__removeallentites\<close> may change\<close>

lemma frame_refl [simp]: "frame K x x"
  by (simp add: frame_def)

lemma frame_trans: "frame K x y \<Longrightarrow> frame K' y z \<Longrightarrow> frame (K \<union> K') x z"
  by (simp add: frame_def)

lemma frame_mono: "frame K x y \<Longrightarrow> K \<subseteq> K' \<Longrightarrow> frame K' x y"
  by (auto simp: frame_def)

lemma jupdate_frame: "jupdate x k v = Inr y \<Longrightarrow> frame {k} x y"
  by (auto simp: frame_def jget_jupdate_other)

lemma jput_frame: "jput x (k # ks) v = Inr y \<Longrightarrow> frame {k} x y"
  by (auto simp: bindr_eq_Inr_iff intro: jupdate_frame)

lemma replace_full_text_cases:
  "replace_full_text lg url = Inr lg' \<Longrightarrow> \<exists>d. lg = JObj d \<and> (lg' = lg \<or> (\<exists>v. lg' = JObj (aset d ''full_text'' v)))"
  unfolding replace_full_text_def
  by (cases lg; simp; cases url; auto split: option.splits json.splits)

lemma replace_full_text_frame: "replace_full_text lg url = Inr lg' \<Longrightarrow> frame {''full_text''} lg lg'"
  by (drule replace_full_text_cases) (auto simp: frame_def)

lemma media_elems_Cons_Inr:
  assumes "media_elems (e # es) lg url = Inr (es', lg', url')"
  obtains e1 u1 lg1 es1 where "replace_full_text lg u1 = Inr lg1"
    and "media_elems es lg1 u1 = Inr (es1, lg', url')"
  using assms
  apply (simp only: media_elems.simps)
  apply (erule bindr_InrE)
  apply (simp only: split_beta)
  apply (erule bindr_InrE)
  apply (erule bindr_InrE)
  apply (simp add: split_beta)
  apply (metis prod.collapse)
  done

lemma media_elems_frame:
  "media_elems es lg url = Inr (es', lg', url') \<Longrightarrow> frame {''full_text''} lg lg'"
proof (induction es arbitrary: es' lg url)
  case (Cons e es)
  from Cons.prems obtain u1 lg1 es1 where a: "replace_full_text lg u1 = Inr lg1"
    and b: "media_elems es lg1 u1 = Inr (es1, lg', url')"
    by (rule media_elems_Cons_Inr)
  have "frame ({''full_text''} \<union> {''full_text''}) lg lg'"
    by (rule frame_trans [OF replace_full_text_frame [OF a] Cons.IH [OF b]])
  then show ?case by simp
qed simp

lemma frame_comp: "frame K x y \<Longrightarrow> frame K' y z \<Longrightarrow> K \<union> K' \<subseteq> L \<Longrightarrow> frame L x z"
  by (erule frame_mono [OF frame_trans])

lemma media_block_cases:
  "media_block kw lg url = Inr (lg', url') \<Longrightarrow>
   lg' = lg \<or> (\<exists>es es' u1 lg1. media_elems es lg url = Inr (es', lg1, u1) \<and>
                 (lg' = lg1 \<or> (\<exists>v. jput lg1 [kw, ''media''] v = Inr lg')))"
  unfolding media_block_def
  by (auto simp del: jput.simps elim!: res_elims split: if_split_asm prod.split_asm json.split_asm) blast+

lemma media_block_frame:
  assumes "media_block kw lg url = Inr (lg', url')"
  shows "frame {kw, ''full_text''} lg lg'"
proof -
  have step1: "frame {kw, ''full_text''} lg lg1" if "media_elems es lg url = Inr (es', lg1, u1)" for es es' lg1 u1
    using media_elems_frame [OF that] by (rule frame_mono) auto
  have step2: "frame {kw, ''full_text''} lg lg2"
    if "media_elems es lg url = Inr (es', lg1, u1)" and "jput lg1 [kw, ''media''] v = Inr lg2" for es es' lg1 u1 v lg2
    using media_elems_frame [OF that(1)] jput_frame [OF that(2)] by (rule frame_comp) auto
  from media_block_cases [OF assms] show ?thesis
    by (elim disjE exE conjE) (auto intro: step1 step2)
qed

lemma entity_block_cases:
  "entity_block kw lg url = Inr (lg', url') \<Longrightarrow>
   \<exists>E1 lg1 lg2 u2 E6. jupdate lg kw E1 = Inr lg1 \<and> media_block kw lg1 url = Inr (lg2, u2)
                    \<and> jupdate lg2 kw E6 = Inr lg'"
  unfolding entity_block_def
  by (auto elim!: res_elims split: prod.split_asm)

lemma entity_block_frame:
  assumes "entity_block kw lg url = Inr (lg', url')"
  shows "frame {kw, ''full_text''} lg lg'"
proof -
  from entity_block_cases [OF assms] obtain E1 lg1 lg2 u2 E6 where
    a: "jupdate lg kw E1 = Inr lg1" and b: "media_block kw lg1 url = Inr (lg2, u2)"
    and c: "jupdate lg2 kw E6 = Inr lg'" by blast
  have "frame {kw, ''full_text''} lg lg2"
    using jupdate_frame [OF a] media_block_frame [OF b] by (rule frame_comp) auto
  then show ?thesis
    using jupdate_frame [OF c] by (rule frame_comp) auto
qed

lemma kc_loop_frame:
  "kc_loop kw kcs lg url = Inr (lg', url') \<Longrightarrow> frame {kw, ''full_text''} lg lg'"
proof (induction kcs arbitrary: lg url)
  case (Cons kc kcs)
  show ?case
  proof (cases "\<exists>E. jget lg kw = Inr E \<and> jin kc E = Inr True")
    case True
    with Cons.prems obtain lg1 u1 where a: "entity_block kw lg url = Inr (lg1, u1)"
      and b: "kc_loop kw kcs lg1 u1 = Inr (lg', url')"
      by (auto elim!: res_elims split: prod.split_asm)
    show ?thesis
      using entity_block_frame [OF a] Cons.IH [OF b] by (rule frame_comp) auto
  next
    case False
    with Cons.prems have "kc_loop kw kcs lg url = Inr (lg', url')"
      by (auto elim!: res_elims split: if_split_asm)
    then show ?thesis by (rule Cons.IH)
  qed
qed simp

text \<open>C4. Sanitizing an entity block of a tweet changes nothing but the tweet's
  \<open>legacy\<close> value, and inside \<open>legacy\<close> only the block itself and \<open>full_text\<close>:
  every other legacy field reads the same afterwards.\<close>

theorem removeallentites_frame:
  "removeallentites kw datas = Inr r \<Longrightarrow>
   \<exists>lg lg'. jget datas ''legacy'' = Inr lg \<and> jupdate datas ''legacy'' lg' = Inr r \<and>
           (\<forall>k. k \<noteq> kw \<and> k \<noteq> ''full_text'' \<longrightarrow> jget lg' k = jget lg k)"
proof -
  assume a: "removeallentites kw datas = Inr r"
  then obtain lg where lg: "jget datas ''legacy'' = Inr lg"
    by (auto simp: removeallentites_def elim!: res_elims split: json.split_asm)
  show ?thesis
  proof (cases "jin kw lg = Inr True")
    case True
    with a lg obtain lg' u where "kc_loop kw key_check lg None = Inr (lg', u)"
      and "jupdate datas ''legacy'' lg' = Inr r"
      by (auto simp: removeallentites_def elim!: res_elims split: json.split_asm prod.split_asm)
    with lg show ?thesis
      by (auto dest!: kc_loop_frame simp: frame_def)
  next
    case False
    with a lg have "r = datas"
      by (auto simp: removeallentites_def elim!: res_elims split: json.split_asm if_split_asm)
    with lg show ?thesis
      by (auto intro!: exI [of _ lg] jupdate_same)
  qed
qed

theorem removeallentites_frame_witness:
  "removeallentites ''entities'' demo_tweet = Inr demo_tweet_clean \<and>
   (\<exists>lg lg'. jget demo_tweet ''legacy'' = Inr lg \<and> jupdate demo_tweet ''legacy'' lg' = Inr demo_tweet_clean \<and>
           (\<forall>k. k \<noteq> ''entities'' \<and> k \<noteq> ''full_text'' \<longrightarrow> jget lg' k = jget lg k))"
proof -
  have e: "removeallentites ''entities'' demo_tweet = Inr demo_tweet_clean" by code_simp
  show ?thesis using removeallentites_frame [OF e] e by simp
qed

text \<open>The specification's example: the media element loses its noise keys and
  \<open>video_info.aspect_ratio\<close>, its short link is cut from the end of \<open>full_text\<close>
  (\<open>"hello world https://t.co/abc123"\<close> becomes \<open>"hello world"\<close>), hashtags become
  their texts, and user mentions keep \<open>id_str\<close>.\<close>

theorem removeallentites_spec_example:
  "removeallentites ''entities'' demo_tweet = Inr demo_tweet_clean"
  by code_simp

lemma media_key_loop_keys:
  "media_key_loop e ks url = Inr (e', u') \<Longrightarrow> e = JObj d \<Longrightarrow>
     \<exists>d'. e' = JObj d' \<and> set (map fst d') = set (map fst d) - set ks"
proof (induction e ks url arbitrary: d rule: media_key_loop.induct)
  case (1 e url)
  then show ?case by auto
next
  case (2 e k ks url)
  from "2.prems" obtain e1 has e2 u where
    e1: "jdel e k = Inr e1" and h: "jin ''video_info'' e1 = Inr has"
    and e2: "(if has then bindr (jget e1 ''video_info'') (\<lambda>vi. bindr (jin ''aspect_ratio'' vi) (\<lambda>has_ar.
               if has_ar then bindr (jdel vi ''aspect_ratio'') (\<lambda>vi'. jupdate e1 ''video_info'' vi') else Inr e1))
             else Inr e1) = Inr e2"
    and u: "jget e2 ''url'' = Inr u" and r: "media_key_loop e2 ks (Some u) = Inr (e', u')"
    by (auto elim!: res_elims)
  from e1 "2.prems"(2) have e1d: "e1 = JObj (adel d k)" by (simp split: if_split_asm)
  have vi: "has \<Longrightarrow> ''video_info'' \<in> set (map fst (adel d k))" using h e1d by simp
  have "e2 = e1 \<or> (has \<and> (\<exists>v. e2 = JObj (aset (adel d k) ''video_info'' v)))"
    using e2 e1d by (cases has) (fastforce elim!: res_elims split: if_split_asm)+
  then obtain d2 where d2: "e2 = JObj d2" and ks: "set (map fst d2) = set (map fst d) - {k}"
  proof
    assume "e2 = e1"
    show ?thesis
    proof (rule that)
      show "e2 = JObj (adel d k)" using \<open>e2 = e1\<close> e1d by simp
      show "set (map fst (adel d k)) = set (map fst d) - {k}" by (rule set_keys_adel)
    qed
  next
    assume "has \<and> (\<exists>v. e2 = JObj (aset (adel d k) ''video_info'' v))"
    then obtain v where "has" and "e2 = JObj (aset (adel d k) ''video_info'' v)" by blast
    show ?thesis
    proof (rule that)
      show "e2 = JObj (aset (adel d k) ''video_info'' v)" by fact
      have "set (map fst (aset (adel d k) ''video_info'' v)) = set (map fst (adel d k))"
        using vi \<open>has\<close> by (simp only: set_keys_aset insert_absorb)
      then show "set (map fst (aset (adel d k) ''video_info'' v)) = set (map fst d) - {k}"
        by (simp only: set_keys_adel)
    qed
  qed
  show ?case
    using "2.IH" [OF e1 h e2 u r d2] ks by auto
qed

lemma strip_media_elem_clean:
  assumes "strip_media_elem e url = Inr (e', u')"
  shows "generatekey e' keys_remove = Inr []"
proof -
  from assms obtain ks where g: "generatekey e keys_remove = Inr ks" and l: "media_key_loop e ks url = Inr (e', u')"
    by (auto simp: strip_media_elem_def elim!: res_elims)
  show ?thesis
  proof (cases "\<exists>d. e = JObj d")
    case True
    then obtain d where d: "e = JObj d" by blast
    with g have ks: "ks = filter (\<lambda>k. k \<in> set keys_remove) (map fst d)"
      by (simp add: generatekey_def str_keys_in_strs)
    obtain d' where "e' = JObj d'" and "set (map fst d') = set (map fst d) - set ks"
      using media_key_loop_keys [OF l d] by blast
    then show ?thesis using ks
      by (auto simp: generatekey_def str_keys_in_strs filter_empty_conv)
  next
    case False
    have "ks = []"
    proof (rule ccontr)
      assume "ks \<noteq> []"
      then obtain k ks' where "ks = k # ks'" by (cases ks) auto
      with l False show False by (cases e) (auto elim!: res_elims)
    qed
    with l g show ?thesis by simp
  qed
qed

text \<open>C28. Sanitizing is not idempotent. A media element that a first pass has cleaned
  keeps none of the noise keys, so a second pass deletes nothing from it and never
  binds \<open>url\<close>; when \<open>url\<close> was not bound before (as at the start of
  \<open>__removeallentites\<close>), reading it for \<open>full_text\<close> raises \<open>UnboundLocalError\<close>.\<close>

theorem removeallentites_second_pass:
  assumes "strip_media_elem e url = Inr (e', u')"
    and "map_of d kw = Some (JObj m)" and "map_of m ''media'' = Some (JList (e' # es))"
    and "map_of d ''full_text'' = Some (JStr t)"
  shows "media_block kw (JObj d) None = Inl (UnboundLocalError ''url'')"
proof -
  have "strip_media_elem e' None = Inr (e', None)"
    using strip_media_elem_clean [OF assms(1)] by (simp add: strip_media_elem_def)
  moreover have "''media'' \<in> fst ` set m"
    using assms(3) by (metis fst_conv image_eqI map_of_SomeD)
  ultimately show ?thesis
    using assms(2-4) by (simp add: media_block_def replace_full_text_def)
qed

theorem removeallentites_second_pass_witness:
  "strip_media_elem (JObj [(''id_str'', JStr ''9''), (''url'', JStr ''u'')]) None = Inr (JObj [(''url'', JStr ''u'')], Some (JStr ''u'')) \<and>
   media_block ''entities'' (JObj [(''full_text'', JStr ''hi u''), (''entities'', JObj [(''media'', JList [JObj [(''url'', JStr ''u'')]])])]) None
     = Inl (UnboundLocalError ''url'')"
proof -
  have s: "strip_media_elem (JObj [(''id_str'', JStr ''9''), (''url'', JStr ''u'')]) None = Inr (JObj [(''url'', JStr ''u'')], Some (JStr ''u''))"
    by code_simp
  show ?thesis
    using s removeallentites_second_pass [OF s, of "[(''full_text'', JStr ''hi u''), (''entities'', JObj [(''media'', JList [JObj [(''url'', JStr ''u'')]])])]"
        "''entities''" "[(''media'', JList [JObj [(''url'', JStr ''u'')]])]" "[]" "''hi u''"]
    by simp
qed

end
