(* ===== verification/Timestamp.thy ===== *)
theory Timestamp
  imports Prelude
begin

text \<open>
  The canonicalisation of \<open>created_at\<close> that the sanitizer applies to users and tweets
  (src/controller/x/xcrawl.py lines 449-454, 545-551, 624-632, 919-926):
  \<^verbatim>\<open>datetime.strptime(v, "%a %b %d %H:%M:%S +0000 %Y").strftime("%Y-%m-%dT%H:%M:%S")\<close>.
  The parser follows the regular expression CPython's \<open>_strptime\<close> builds for this
  format (C locale, case-insensitive): \<open>%a\<close> and \<open>%b\<close> are the English
  abbreviations, each run of blanks in the format is \<open>\s+\<close>, \<open>%d\<close>, \<open>%H\<close>,
  \<open>%M\<close>, \<open>%S\<close> take one or two digits within their ranges
  (\<open>3[01]|[12]\d|0[1-9]|[1-9]\<close>, \<open>2[0-3]|[01]\d|\d\<close>, \<open>[0-5]\d|\d\<close>,
  \<open>6[01]|[0-5]\d|\d\<close>), \<open>%Y\<close> exactly four, and the match must reach the end of the
  string. The weekday is parsed and then ignored; \<open>datetime\<close> rejects year 0, a day
  past the end of its month and the seconds 60 and 61. \<open>strftime\<close> on glibc prints
  \<open>%Y\<close> without padding. Digits are the ASCII ones (the Unicode decimal digits that
  \<open>\d\<close> also accepts are outside the model).
\<close>

section \<open>Lexical pieces\<close>

definition is_digit :: "char \<Rightarrow> bool" where
  "is_digit c = (48 \<le> (of_char c :: nat) \<and> (of_char c :: nat) \<le> 57)"

definition digit_val :: "char \<Rightarrow> nat" where
  "digit_val c = of_char c - 48"

definition digval :: "string \<Rightarrow> nat" where
  "digval ds = foldl (\<lambda>n c. 10 * n + digit_val c) 0 ds"

definition ascii_lower :: "char \<Rightarrow> char" where
  "ascii_lower c = (if 65 \<le> (of_char c :: nat) \<and> (of_char c :: nat) \<le> 90 then char_of (of_char c + (32 :: nat)) else c)"

definition wday_abbr :: "string list" where
  "wday_abbr = [''mon'', ''tue'', ''wed'', ''thu'', ''fri'', ''sat'', ''sun'']"

definition month_abbr :: "string list" where
  "month_abbr = [''jan'', ''feb'', ''mar'', ''apr'', ''may'', ''jun'', ''jul'', ''aug'', ''sep'', ''oct'', ''nov'', ''dec'']"

text \<open>A name of the table at the front of the string, case-insensitively: its index.\<close>

fun match_name_from :: "nat \<Rightarrow> string list \<Rightarrow> string \<Rightarrow> (nat \<times> string) option" where
  "match_name_from i [] s = None"
| "match_name_from i (n # ns) s =
     (if map ascii_lower (take 3 s) = n then Some (i, drop 3 s) else match_name_from (Suc i) ns s)"

definition match_name :: "string list \<Rightarrow> string \<Rightarrow> (nat \<times> string) option" where
  "match_name names s = match_name_from 0 names s"

text \<open>\<open>\s+\<close>: at least one whitespace code point, all of them consumed (the next
  token never starts with whitespace, so the greedy match is the only one).\<close>

function skip_ws :: "string \<Rightarrow> string" where
  "skip_ws s = (case find (\<lambda>w. take (length w) s = w) py_ws of
                  Some w \<Rightarrow> skip_ws (drop (length w) s)
                | None \<Rightarrow> s)"
  by pat_completeness auto
termination
proof (relation "measure length")
  fix s w
  assume "find (\<lambda>w. take (length w) s = w) py_ws = Some w"
  then have "w \<in> set py_ws" and "take (length w) s = w"
    by (auto simp: find_Some_iff)
  moreover from \<open>w \<in> set py_ws\<close> have "0 < length w"
    using py_ws_nonempty by blast
  moreover have "length w \<le> length s"
    by (metis \<open>take (length w) s = w\<close> length_take min.cobounded1)
  ultimately have "length (drop (length w) s) < length s"
    by (simp only: length_drop)
  then show "(drop (length w) s, s) \<in> measure length" by simp
qed simp

declare skip_ws.simps [simp del]

definition ws1 :: "string \<Rightarrow> string option" where
  "ws1 s = (if find (\<lambda>w. take (length w) s = w) py_ws = None then None else Some (skip_ws s))"

text \<open>A one- or two-digit field with value in \<open>[lo, hi]\<close>, ending at a non-digit.\<close>

definition num_field :: "nat \<Rightarrow> nat \<Rightarrow> string \<Rightarrow> (nat \<times> string) option" where
  "num_field lo hi s =
     (let ds = takeWhile is_digit s; n = digval ds
      in if (length ds = 1 \<or> length ds = 2) \<and> lo \<le> n \<and> n \<le> hi then Some (n, drop (length ds) s) else None)"

definition lit :: "string \<Rightarrow> string \<Rightarrow> string option" where
  "lit p s = (if take (length p) s = p then Some (drop (length p) s) else None)"

section \<open>\<open>strptime\<close> and \<open>strftime\<close>\<close>

type_synonym dtime = "nat \<times> nat \<times> nat \<times> nat \<times> nat \<times> nat"

text \<open>The regular-expression match: year, month, day, hour, minute, second.\<close>

definition match_twitter :: "string \<Rightarrow> dtime option" where
  "match_twitter s =
     Option.bind (match_name wday_abbr s) (\<lambda>(_, s).
     Option.bind (ws1 s) (\<lambda>s.
     Option.bind (match_name month_abbr s) (\<lambda>(mo, s).
     Option.bind (ws1 s) (\<lambda>s.
     Option.bind (num_field 1 31 s) (\<lambda>(d, s).
     Option.bind (ws1 s) (\<lambda>s.
     Option.bind (num_field 0 23 s) (\<lambda>(h, s).
     Option.bind (lit '':'' s) (\<lambda>s.
     Option.bind (num_field 0 59 s) (\<lambda>(mi, s).
     Option.bind (lit '':'' s) (\<lambda>s.
     Option.bind (num_field 0 61 s) (\<lambda>(se, s).
     Option.bind (ws1 s) (\<lambda>s.
     Option.bind (lit ''+0000'' s) (\<lambda>s.
     Option.bind (ws1 s) (\<lambda>s.
       if length s = 4 \<and> list_all is_digit s then Some (digval s, Suc mo, d, h, mi, se) else None))))))))))))))"

definition leap :: "nat \<Rightarrow> bool" where
  "leap y = (y mod 4 = 0 \<and> (y mod 100 \<noteq> 0 \<or> y mod 400 = 0))"

definition days_in_month :: "nat \<Rightarrow> nat \<Rightarrow> nat" where
  "days_in_month y m = [31, if leap y then 29 else 28, 31, 30, 31, 30, 31, 31, 30, 31, 30, 31] ! (m - 1)"

text \<open>\<open>datetime.strptime\<close>: the match, then the checks of \<open>datetime(...)\<close>.\<close>

definition strptime_twitter :: "string \<Rightarrow> dtime res" where
  "strptime_twitter s =
     (case match_twitter s of
        None \<Rightarrow> Inl (ValueError ''time data does not match format'')
      | Some (y, mo, d, h, mi, se) \<Rightarrow>
          if y = 0 then Inl (ValueError ''year 0 is out of range'')
          else if days_in_month y mo < d then Inl (ValueError ''day is out of range for month'')
          else if 60 \<le> se then Inl (ValueError ''second must be in 0..59'')
          else Inr (y, mo, d, h, mi, se))"

definition pad2 :: "nat \<Rightarrow> string" where
  "pad2 n = (if n < 10 then CHR ''0'' # digits_nat n else digits_nat n)"

definition strftime_iso :: "dtime \<Rightarrow> string" where
  "strftime_iso t = (case t of (y, mo, d, h, mi, se) \<Rightarrow>
     digits_nat y @ ''-'' @ pad2 mo @ ''-'' @ pad2 d @ ''T'' @ pad2 h @ '':'' @ pad2 mi @ '':'' @ pad2 se)"

text \<open>The statement pair the sanitizer runs on a \<open>created_at\<close> string.\<close>

definition convert_created_at :: "string \<Rightarrow> string res" where
  "convert_created_at v = bindr (strptime_twitter v) (\<lambda>t. Inr (strftime_iso t))"

section \<open>The platform's rendering\<close>

text \<open>How the platform writes \<open>created_at\<close> (the format string read in the other
  direction, year padded to four digits): the input side of the round trip below.\<close>

definition wday_name :: "string list" where
  "wday_name = [''Mon'', ''Tue'', ''Wed'', ''Thu'', ''Fri'', ''Sat'', ''Sun'']"

definition month_name :: "string list" where
  "month_name = [''Jan'', ''Feb'', ''Mar'', ''Apr'', ''May'', ''Jun'', ''Jul'', ''Aug'', ''Sep'', ''Oct'', ''Nov'', ''Dec'']"

definition pad4 :: "nat \<Rightarrow> string" where
  "pad4 n = replicate (4 - length (digits_nat n)) CHR ''0'' @ digits_nat n"

definition strftime_twitter :: "nat \<Rightarrow> dtime \<Rightarrow> string" where
  "strftime_twitter wd t = (case t of (y, mo, d, h, mi, se) \<Rightarrow>
     wday_name ! wd @ '' '' @ month_name ! (mo - 1) @ '' '' @ pad2 d @ '' '' @ pad2 h @ '':'' @ pad2 mi
       @ '':'' @ pad2 se @ '' +0000 '' @ pad4 y)"

definition valid_dtime :: "dtime \<Rightarrow> bool" where
  "valid_dtime t = (case t of (y, mo, d, h, mi, se) \<Rightarrow>
     1 \<le> y \<and> y \<le> 9999 \<and> 1 \<le> mo \<and> mo \<le> 12 \<and> 1 \<le> d \<and> d \<le> days_in_month y mo \<and> h < 24 \<and> mi < 60 \<and> se < 60)"

section \<open>Lemmas\<close>

subsection \<open>Decimal digits\<close>

definition printable :: "char \<Rightarrow> bool" where
  "printable c = (32 < (of_char c :: nat) \<and> (of_char c :: nat) < 128)"

lemma digit_char [simp]: "k < 10 \<Longrightarrow> is_digit (char_of (48 + k))"
  and digit_val_char [simp]: "k < 10 \<Longrightarrow> digit_val (char_of (48 + k)) = k"
  by (simp_all add: is_digit_def digit_val_def of_char_of)

lemma digval_snoc [simp]: "digval (xs @ [c]) = 10 * digval xs + digit_val c"
  by (simp add: digval_def)

lemma digval_zero_Cons: "digit_val c = 0 \<Longrightarrow> digval (c # xs) = digval xs"
proof -
  have "foldl (\<lambda>n c. 10 * n + digit_val c) 0 xs = foldl (\<lambda>n c. 10 * n + digit_val c) (10 * 0) xs"
    by simp
  then show "digit_val c = 0 \<Longrightarrow> digval (c # xs) = digval xs" by (simp add: digval_def)
qed

lemma digits_nat_props: "list_all is_digit (digits_nat n) \<and> digval (digits_nat n) = n"
proof (induction n rule: digits_nat.induct)
  case (1 n)
  show ?case
  proof (cases "n < 10")
    case True
    then have "digits_nat n = [char_of (48 + n)]" by (subst digits_nat.simps) simp
    with True show ?thesis by (simp add: digval_def)
  next
    case False
    then have "digits_nat n = digits_nat (n div 10) @ [char_of (48 + n mod 10)]"
      by (subst digits_nat.simps) simp
    with False "1.IH" show ?thesis by simp
  qed
qed

lemma length_digits_nat:
  "length (digits_nat n) = (if n < 10 then 1 else if n < 100 then 2 else if n < 1000 then 3 else if n < 10000 then 4 else length (digits_nat n))"
proof -
  have a: "n < 10 \<Longrightarrow> length (digits_nat n) = 1" for n by (subst digits_nat.simps) simp
  have b: "10 \<le> n \<Longrightarrow> length (digits_nat n) = Suc (length (digits_nat (n div 10)))" for n
    by (subst digits_nat.simps) simp
  show ?thesis
    by (auto simp: a b)
qed

subsection \<open>The lexical pieces on rendered fields\<close>

lemma py_ws_hd: "w \<in> set py_ws \<Longrightarrow> \<not> printable (hd w)"
  by (auto simp: py_ws_def py_ws_multi_def ascii_ws_def printable_def)

lemma skip_ws_printable: "printable c \<Longrightarrow> skip_ws (c # r) = c # r"
proof -
  assume p: "printable c"
  have "find (\<lambda>w. take (length w) (c # r) = w) py_ws = None"
  proof (rule ccontr)
    assume "find (\<lambda>w. take (length w) (c # r) = w) py_ws \<noteq> None"
    then obtain w where "w \<in> set py_ws" and t: "take (length w) (c # r) = w"
      by (auto simp: find_None_iff)
    from \<open>w \<in> set py_ws\<close> have "w \<noteq> []" by (rule py_ws_nonempty)
    with t have "hd w = c" by (cases w) simp_all
    with py_ws_hd [OF \<open>w \<in> set py_ws\<close>] p show False by simp
  qed
  then show ?thesis by (simp add: skip_ws.simps [of "c # r"])
qed

lemma ws1_space_Cons: "printable c \<Longrightarrow> ws1 (CHR '' '' # c # r) = Some (c # r)"
proof -
  assume p: "printable c"
  have sp: "[CHR '' ''] \<in> set py_ws" by (simp add: py_ws_def py_ws_multi_def ascii_ws_def)
  then have "find (\<lambda>w. take (length w) (CHR '' '' # c # r) = w) py_ws \<noteq> None"
    by (auto simp: find_None_iff)
  moreover have "skip_ws (CHR '' '' # c # r) = c # r"
  proof -
    have "find (\<lambda>w. take (length w) (CHR '' '' # c # r) = w) py_ws = Some [CHR '' '']"
      by (simp add: py_ws_def py_ws_multi_def ascii_ws_def)
    then show ?thesis using skip_ws_printable [OF p] by (simp add: skip_ws.simps [of "CHR '' '' # c # r"])
  qed
  ultimately show ?thesis by (simp add: ws1_def)
qed

lemma ws1_space: "s \<noteq> [] \<Longrightarrow> printable (hd s) \<Longrightarrow> ws1 (CHR '' '' # s) = Some s"
  by (cases s) (simp_all add: ws1_space_Cons)

lemma digit_printable: "is_digit c \<Longrightarrow> printable c"
  by (simp add: is_digit_def printable_def)

lemma digval_zeros [simp]: "digval (replicate k (CHR ''0'') @ ds) = digval ds"
  by (induction k) (simp_all add: digval_zero_Cons digit_val_def)

lemma pad2_props:
  "n < 100 \<Longrightarrow> length (pad2 n) = 2 \<and> list_all is_digit (pad2 n) \<and> digval (pad2 n) = n"
  using digits_nat_props [of n] length_digits_nat [of n]
  by (auto simp: pad2_def digval_zero_Cons digit_val_def is_digit_def)

lemma pad4_props:
  "1 \<le> n \<Longrightarrow> n \<le> 9999 \<Longrightarrow> length (pad4 n) = 4 \<and> list_all is_digit (pad4 n) \<and> digval (pad4 n) = n"
proof -
  assume "1 \<le> n" "n \<le> 9999"
  then have "length (digits_nat n) \<le> 4" using length_digits_nat [of n] by (auto split: if_splits)
  moreover have "is_digit CHR ''0''" by (simp add: is_digit_def)
  ultimately show ?thesis using digits_nat_props [of n] by (auto simp: pad4_def list_all_iff)
qed

lemma pad2_front: "n < 100 \<Longrightarrow> pad2 n @ r \<noteq> [] \<and> printable (hd (pad2 n @ r))"
proof -
  assume "n < 100"
  then have "length (pad2 n) = 2" and "list_all is_digit (pad2 n)" using pad2_props by blast+
  then show ?thesis by (cases "pad2 n") (auto intro: digit_printable)
qed

lemma pad4_front: "1 \<le> n \<Longrightarrow> n \<le> 9999 \<Longrightarrow> pad4 n \<noteq> [] \<and> printable (hd (pad4 n))"
proof -
  assume "1 \<le> n" "n \<le> 9999"
  then have "length (pad4 n) = 4" and "list_all is_digit (pad4 n)" using pad4_props by blast+
  then show ?thesis by (cases "pad4 n") (auto intro: digit_printable)
qed

lemma num_field_pad2:
  "n < 100 \<Longrightarrow> lo \<le> n \<Longrightarrow> n \<le> hi \<Longrightarrow> \<not> is_digit c \<Longrightarrow> num_field lo hi (pad2 n @ c # r) = Some (n, c # r)"
proof -
  assume n: "n < 100" "lo \<le> n" "n \<le> hi" "\<not> is_digit c"
  then have p: "length (pad2 n) = 2" "list_all is_digit (pad2 n)" "digval (pad2 n) = n"
    using pad2_props by blast+
  then have "takeWhile is_digit (pad2 n @ c # r) = pad2 n"
    using n(4) by (simp add: takeWhile_append2 list_all_iff)
  with p n show ?thesis by (simp add: num_field_def)
qed

subsection \<open>The name tables\<close>

lemma match_name_from_nth:
  "distinct names \<Longrightarrow> k < length names \<Longrightarrow> map ascii_lower (take 3 s) = names ! k \<Longrightarrow>
   match_name_from i names s = Some (i + k, drop 3 s)"
proof (induction names arbitrary: i k)
  case Nil
  then show ?case by simp
next
  case (Cons n ns)
  show ?case
  proof (cases k)
    case 0
    with Cons.prems show ?thesis by simp
  next
    case (Suc k')
    with Cons.prems have "map ascii_lower (take 3 s) \<noteq> n"
      by (auto simp: in_set_conv_nth)
    with Cons.prems Cons.IH [of k' "Suc i"] Suc show ?thesis by simp
  qed
qed

lemma lower_names:
  "map (map ascii_lower) wday_name = wday_abbr" "map (map ascii_lower) month_name = month_abbr"
  by (simp_all add: wday_name_def wday_abbr_def month_name_def month_abbr_def ascii_lower_def py_simps)

lemma names_shape:
  "distinct wday_abbr" "distinct month_abbr" "length wday_name = 7" "length month_name = 12"
  "\<forall>n \<in> set wday_name. length n = 3" "\<forall>n \<in> set month_name. length n = 3"
  by (simp_all add: wday_name_def wday_abbr_def month_name_def month_abbr_def)

lemma match_name_table:
  assumes "map (map ascii_lower) tbl = names" and "distinct names" and "\<forall>n \<in> set tbl. length n = 3"
    and "k < length tbl"
  shows "match_name names (tbl ! k @ r) = Some (k, r)"
proof -
  have "length (tbl ! k) = 3" using assms(3,4) by simp
  then have "take 3 (tbl ! k @ r) = tbl ! k" and "drop 3 (tbl ! k @ r) = r" by simp_all
  moreover have "map ascii_lower (tbl ! k) = names ! k" using assms(1,4) by auto
  moreover have "k < length names" using assms(1,4) by auto
  ultimately show ?thesis
    using match_name_from_nth [of names k "tbl ! k @ r" 0] assms by (simp add: match_name_def)
qed

lemma match_wday: "wd < 7 \<Longrightarrow> match_name wday_abbr (wday_name ! wd @ r) = Some (wd, r)"
  using names_shape lower_names by (intro match_name_table) simp_all

lemma match_month: "i < 12 \<Longrightarrow> match_name month_abbr (month_name ! i @ r) = Some (i, r)"
  using names_shape lower_names by (intro match_name_table) simp_all

lemma month_front: "i < 12 \<Longrightarrow> month_name ! i @ r \<noteq> [] \<and> printable (hd (month_name ! i @ r))"
proof -
  assume "i < 12"
  then have "i < length month_name" by (simp add: month_name_def)
  then have "month_name ! i \<in> set month_name" by (rule nth_mem)
  moreover have "\<forall>n \<in> set month_name. n \<noteq> [] \<and> printable (hd n)"
    by (simp add: month_name_def printable_def)
  ultimately show ?thesis by simp
qed

lemma days_in_month_le: "1 \<le> m \<Longrightarrow> m \<le> 12 \<Longrightarrow> days_in_month y m \<le> 31"
proof -
  let ?ds = "[31, if leap y then 29 else 28, 31, 30, 31, 30, 31, 31, 30, 31, 30, 31] :: nat list"
  assume "1 \<le> m" "m \<le> 12"
  then have "m - 1 < length ?ds" by simp
  then have "?ds ! (m - 1) \<in> set ?ds" by (rule nth_mem)
  then show ?thesis by (auto simp: days_in_month_def)
qed

lemma colon_not_digit [simp]: "\<not> is_digit CHR '':''" and space_not_digit [simp]: "\<not> is_digit CHR '' ''"
  by (simp_all add: is_digit_def)

lemma plus_printable: "printable CHR ''+''"
  by (simp add: printable_def)

lemma match_twitter_render:
  assumes "valid_dtime (y, mo, d, h, mi, se)" and "wd < 7"
  shows "match_twitter (strftime_twitter wd (y, mo, d, h, mi, se)) = Some (y, mo, d, h, mi, se)"
proof -
  from assms(1) have v: "1 \<le> y" "y \<le> 9999" "1 \<le> mo" "mo \<le> 12" "1 \<le> d" "d \<le> days_in_month y mo"
      "h < 24" "mi < 60" "se < 60"
    by (auto simp: valid_dtime_def)
  have d31: "d \<le> 31" using days_in_month_le [of mo y] v(3,4,6) by linarith
  from v(3,4) have m: "mo - 1 < 12" by simp
  define R7 where "R7 = '' '' @ pad4 y"
  define R6 where "R6 = '' '' @ ''+0000'' @ R7"
  define R5 where "R5 = '':'' @ pad2 se @ R6"
  define R4 where "R4 = '':'' @ pad2 mi @ R5"
  define R3 where "R3 = '' '' @ pad2 h @ R4"
  define R2 where "R2 = '' '' @ pad2 d @ R3"
  define R1 where "R1 = '' '' @ month_name ! (mo - 1) @ R2"
  have s: "strftime_twitter wd (y, mo, d, h, mi, se) = wday_name ! wd @ R1"
    by (simp add: strftime_twitter_def R1_def R2_def R3_def R4_def R5_def R6_def R7_def)
  have f1: "match_name wday_abbr (wday_name ! wd @ R1) = Some (wd, R1)"
    using assms(2) by (rule match_wday)
  have f2: "ws1 R1 = Some (month_name ! (mo - 1) @ R2)"
    unfolding R1_def using month_front [OF m] by (simp add: ws1_space)
  have f3: "match_name month_abbr (month_name ! (mo - 1) @ R2) = Some (mo - 1, R2)"
    using m by (rule match_month)
  have f4: "ws1 R2 = Some (pad2 d @ R3)"
    unfolding R2_def using pad2_front [of d] d31 by (simp add: ws1_space)
  have f5: "num_field 1 31 (pad2 d @ R3) = Some (d, R3)"
    unfolding R3_def using d31 v(5) by (simp add: num_field_pad2)
  have f6: "ws1 R3 = Some (pad2 h @ R4)"
    unfolding R3_def using pad2_front [of h] v(7) by (simp add: ws1_space)
  have f7: "num_field 0 23 (pad2 h @ R4) = Some (h, R4)"
    unfolding R4_def using v(7) by (simp add: num_field_pad2)
  have f8: "lit '':'' R4 = Some (pad2 mi @ R5)"
    unfolding R4_def by (simp add: lit_def)
  have f9: "num_field 0 59 (pad2 mi @ R5) = Some (mi, R5)"
    unfolding R5_def using v(8) by (simp add: num_field_pad2)
  have f10: "lit '':'' R5 = Some (pad2 se @ R6)"
    unfolding R5_def by (simp add: lit_def)
  have f11: "num_field 0 61 (pad2 se @ R6) = Some (se, R6)"
    unfolding R6_def using v(9) by (simp add: num_field_pad2)
  have f12: "ws1 R6 = Some (''+0000'' @ R7)"
    unfolding R6_def by (simp add: ws1_space plus_printable)
  have f13: "lit ''+0000'' (''+0000'' @ R7) = Some R7"
    by (simp add: lit_def)
  have f14: "ws1 R7 = Some (pad4 y)"
    unfolding R7_def using pad4_front [OF v(1,2)] by (simp add: ws1_space)
  have f15: "length (pad4 y) = 4 \<and> list_all is_digit (pad4 y) \<and> digval (pad4 y) = y"
    using v(1,2) by (rule pad4_props)
  show ?thesis
    unfolding match_twitter_def s
    using v(3)
    by (simp only: f1 f2 f3 f4 f5 f6 f7 f8 f9 f10 f11 f12 f13 f14 bind.simps prod.case)
       (simp add: f15)
qed

lemma lower_digit: "is_digit c \<Longrightarrow> ascii_lower c = c"
  by (simp add: is_digit_def ascii_lower_def)

lemma match_name_from_digit:
  "\<forall>n \<in> set names. n \<noteq> [] \<and> \<not> is_digit (hd n) \<Longrightarrow> s \<noteq> [] \<Longrightarrow> is_digit (hd s) \<Longrightarrow>
   match_name_from i names s = None"
  by (induction names arbitrary: i) (auto simp: lower_digit neq_Nil_conv)

lemma wday_abbr_letters: "\<forall>n \<in> set wday_abbr. n \<noteq> [] \<and> \<not> is_digit (hd n)"
  by (simp add: wday_abbr_def is_digit_def)

lemma strftime_iso_front: "strftime_iso t \<noteq> [] \<and> is_digit (hd (strftime_iso t))"
proof -
  obtain y mo d h mi se where t: "t = (y, mo, d, h, mi, se)" by (cases t) auto
  have "list_all is_digit (digits_nat y)" by (rule digits_nat_props [THEN conjunct1])
  then show ?thesis using digits_nat_nonempty [of y]
    by (cases "digits_nat y") (simp_all add: t strftime_iso_def)
qed

section \<open>Properties of the timestamp conversion\<close>

text \<open>C7. Round trip: for every valid UTC time and weekday, converting the platform's
  \<open>"%a %b %d %H:%M:%S +0000 %Y"\<close> rendering yields the \<open>"%Y-%m-%dT%H:%M:%S"\<close>
  rendering of the same time; the weekday is not checked against the date.\<close>

theorem convert_created_at_roundtrip:
  "valid_dtime t \<Longrightarrow> wd < 7 \<Longrightarrow> convert_created_at (strftime_twitter wd t) = Inr (strftime_iso t)"
proof -
  assume v: "valid_dtime t" and w: "wd < 7"
  obtain y mo d h mi se where t: "t = (y, mo, d, h, mi, se)" by (cases t) auto
  have m: "match_twitter (strftime_twitter wd t) = Some t"
    using match_twitter_render v w t by simp
  from v t have "y \<noteq> 0" "d \<le> days_in_month y mo" "se < 60" by (auto simp: valid_dtime_def)
  with m t show ?thesis
    by (simp add: convert_created_at_def strptime_twitter_def)
qed

theorem convert_created_at_roundtrip_witness:
  "convert_created_at ''Wed Oct 10 20:19:24 +0000 2018'' = Inr ''2018-10-10T20:19:24''"
proof -
  have v: "valid_dtime (2018, 10, 10, 20, 19, 24)"
    by (simp add: valid_dtime_def days_in_month_def leap_def)
  have r: "strftime_twitter 2 (2018, 10, 10, 20, 19, 24) = ''Wed Oct 10 20:19:24 +0000 2018''"
    by (simp add: strftime_twitter_def wday_name_def month_name_def pad2_def pad4_def digits_nat.simps py_simps)
  have i: "strftime_iso (2018, 10, 10, 20, 19, 24) = ''2018-10-10T20:19:24''"
    by (simp add: strftime_iso_def pad2_def digits_nat.simps py_simps)
  show ?thesis
    using convert_created_at_roundtrip [OF v, of 2] r i by simp
qed

text \<open>C29. The conversion is not idempotent: applied to its own output (a value that
  has already been sanitized) it raises \<open>ValueError\<close>, for every time.\<close>

theorem convert_created_at_twice:
  "convert_created_at (strftime_iso t) = Inl (ValueError ''time data does not match format'')"
proof -
  have "match_name wday_abbr (strftime_iso t) = None"
    unfolding match_name_def
    using wday_abbr_letters strftime_iso_front by (intro match_name_from_digit) simp_all
  then show ?thesis
    by (simp add: convert_created_at_def strptime_twitter_def match_twitter_def)
qed

end
