(* ===== verification/Sanitizer.thy ===== *)
theory Sanitizer
  imports Entities Timestamp
begin

text \<open>
  The entity sanitizer of src/controller/x/xcrawl.py: \<open>__replacechar\<close> (lines 356-374),
  \<open>__processuserresults\<close> (376-493), \<open>__processretweeted\<close> (495-561) and
  \<open>__processmedia\<close> (563-652). Each Python function mutates the fragment it is given
  and returns a new dict; the model returns that dict and, for \<open>__processmedia\<close>, also
  the mutated entry, which the Media branch of the dispatcher may iterate again. The
  returned dicts share their \<open>core\<close> and \<open>legacy\<close> objects with the entry; a second
  pass over an entry whose \<open>legacy\<close> was processed always raises before it returns
  (see \<open>Dispatcher\<close>), so the sharing is never observed and values suffice.
\<close>

section \<open>\<open>__replacechar\<close>: the profile image size\<close>

text \<open>The group of \<open>(.*?)\.jpg\<close> at the front of a string: the shortest run of
  characters other than a newline that is followed by \<open>.jpg\<close>.\<close>

fun lazy_jpg :: "string \<Rightarrow> string option" where
  "lazy_jpg [] = None"
| "lazy_jpg (c # cs) =
     (if starts_with ''.jpg'' (c # cs) then Some []
      else if c = CHR 0x0A then None
      else map_option (Cons c) (lazy_jpg cs))"

text \<open>\<open>re.search(r'_(.*?)\.jpg', s)\<close>: the leftmost \<open>_\<close> where the rest matches.\<close>

fun search_us :: "string \<Rightarrow> string option" where
  "search_us [] = None"
| "search_us (c # cs) =
     (if c = CHR ''_'' then (case lazy_jpg cs of Some g \<Rightarrow> Some g | None \<Rightarrow> search_us cs)
      else search_us cs)"

text \<open>\<open>text.split("/")[-1]\<close>.\<close>

definition last_segment :: "string \<Rightarrow> string" where
  "last_segment s = rev (takeWhile (\<lambda>c. c \<noteq> CHR ''/'') (rev s))"

text \<open>The group found in the last path segment is replaced everywhere in the whole
  text (\<open>text.replace(replace, replacement)\<close>).\<close>

definition replacechar :: "json \<Rightarrow> string \<Rightarrow> json res" where
  "replacechar text repl =
     (case text of
        JStr t \<Rightarrow> (case search_us (last_segment t) of
                     Some g \<Rightarrow> Inr (JStr (py_replace g repl t))
                   | None \<Rightarrow> Inr text)
      | _ \<Rightarrow> Inl (TypeError ''__replacechar''))"

section \<open>Shared pieces\<close>

text \<open>\<open>datetime.strptime(value, ...)\<close> on a JSON value: only a str is accepted.\<close>

definition convert_date_value :: "json \<Rightarrow> json res" where
  "convert_date_value v =
     (case v of JStr s \<Rightarrow> bindr (convert_created_at s) (\<lambda>s'. Inr (JStr s')) | _ \<Rightarrow> Inl (TypeError ''strptime''))"

text \<open>\<open>for key, value in legacy.items(): if key == "created_at": ...\<close> on a tweet.\<close>

definition tweet_dates :: "json \<Rightarrow> json res" where
  "tweet_dates lg =
     (case lg of
        JObj d \<Rightarrow> (case map_of d ''created_at'' of
                     None \<Rightarrow> Inr lg
                   | Some v \<Rightarrow> bindr (convert_date_value v) (\<lambda>v'. Inr (JObj (aset d ''created_at'' v'))))
      | _ \<Rightarrow> Inl (AttributeError ''items''))"

text \<open>\<open>data["rest_id"] if "rest_id" in data else ""\<close>.\<close>

definition id_of :: "json \<Rightarrow> json res" where
  "id_of data = bindr (jin ''rest_id'' data) (\<lambda>h. if h then jget data ''rest_id'' else Inr (JStr ''''))"

text \<open>\<open>{key: value for key, value in data["views"].items() if key != "state"}
  if "views" in data else dict()\<close>.\<close>

definition views_of :: "json \<Rightarrow> json res" where
  "views_of data =
     bindr (jin ''views'' data) (\<lambda>h.
       if h then bindr (jget data ''views'') (\<lambda>v.
                   case v of JObj d \<Rightarrow> Inr (JObj (filter (\<lambda>p. fst p \<noteq> ''state'') d))
                           | _ \<Rightarrow> Inl (AttributeError ''items''))
       else Inr (JObj []))"

section \<open>\<open>__processuserresults\<close>\<close>

definition keys_result_remove :: "string list" where
  "keys_result_remove =
     [''affiliates_highlighted_label'', ''has_graduated_access'', ''profile_image_shape'', ''smart_blocked_by'',
      ''smart_blocking'', ''legacy_extended_profile'', ''is_profile_translatable'', ''has_hidden_likes_on_profile'',
      ''has_hidden_subscriptions_on_profile'', ''verification_info'', ''highlights_info'',
      ''creator_subscriptions_count'']"

definition keys_legacy_remove :: "string list" where
  "keys_legacy_remove =
     [''can_dm'', ''can_media_tag'', ''created_at'', ''default_profile'', ''default_profile_image'',
      ''fast_followers_count'', ''favourites_count'', ''followers_count'', ''friends_count'',
      ''has_custom_timelines'', ''is_translator'', ''listed_count'', ''media_count'', ''normal_followers_count'',
      ''pinned_tweet_ids_str'', ''possibly_sensitive'', ''statuses_count'', ''translator_type'', ''want_retweets'',
      ''withheld_in_countries'']"

definition user_fields :: "string list" where
  "user_fields =
     [''name'', ''screen_name'', ''verified'', ''description'', ''entities'', ''location'', ''profile_banner_url'',
      ''profile_image_url_https'', ''profile_interstitial_type'', ''url'']"

text \<open>\<open>for item in X["urls"]: del item["indices"]\<close>.\<close>

fun del_indices :: "json list \<Rightarrow> json list res" where
  "del_indices [] = Inr []"
| "del_indices (i # is) = bindr (jdel i ''indices'') (\<lambda>i'. bindr (del_indices is) (\<lambda>is'. Inr (i' # is')))"

text \<open>\<open>for entities_key in entities: if "urls" in entities[entities_key]: ...\<close>; the
  iterated values are read once (a dict element of a list is never a valid index, so a
  mutated element is never iterated successfully).\<close>

fun ent_keys_loop :: "json \<Rightarrow> json list \<Rightarrow> json res" where
  "ent_keys_loop ents [] = Inr ents"
| "ent_keys_loop ents (ek # eks) =
     bindr (jsub ents ek) (\<lambda>X.
     bindr (jin ''urls'' X) (\<lambda>has.
       if \<not> has then ent_keys_loop ents eks
       else bindr (jget X ''urls'') (\<lambda>us.
         if \<not> truthy us then ent_keys_loop ents eks
         else bindr (jiter us) (\<lambda>items.
              bindr (del_indices items) (\<lambda>items'.
              bindr (case us of
                       JList _ \<Rightarrow> bindr (jupdate X ''urls'' (JList items')) (\<lambda>X'. jsub_set ents ek X')
                     | _ \<Rightarrow> Inr ents) (\<lambda>ents'.
              ent_keys_loop ents' eks))))))"

text \<open>The \<open>profile_image_url_https\<close> and \<open>created_at\<close> cases of one key of the
  legacy loop; the People branch of \<open>search\<close> runs the same two cases.\<close>

definition image_date_step :: "json \<Rightarrow> string \<Rightarrow> json res" where
  "image_date_step lg k =
     bindr (if k = ''profile_image_url_https''
            then bindr (jget lg k) (\<lambda>v. bindr (replacechar v ''400x400'') (\<lambda>v'. jupdate lg k v'))
            else Inr lg) (\<lambda>lg1.
     if k = ''created_at''
     then bindr (jget lg1 k) (\<lambda>v. bindr (convert_date_value v) (\<lambda>v'. jupdate lg1 k v'))
     else Inr lg1)"

text \<open>One key of \<open>for key, value in datas["legacy"].items()\<close> in
  \<open>__processuserresults\<close>: the \<open>entities\<close> case first.\<close>

definition user_legacy_step :: "json \<Rightarrow> string \<Rightarrow> json res" where
  "user_legacy_step lg k =
     bindr (if k = ''entities''
            then bindr (jget lg k) (\<lambda>ents. bindr (jiter ents) (\<lambda>eks.
                 bindr (ent_keys_loop ents eks) (\<lambda>ents'. jupdate lg k ents')))
            else Inr lg) (\<lambda>lg1.
     image_date_step lg1 k)"

text \<open>\<open>for key, value in legacy.items(): step\<close>: the keys are read when the loop
  starts (updates keep them).\<close>

fun legacy_loop :: "(json \<Rightarrow> string \<Rightarrow> json res) \<Rightarrow> json \<Rightarrow> string list \<Rightarrow> json res" where
  "legacy_loop step lg [] = Inr lg"
| "legacy_loop step lg (k # ks) = bindr (step lg k) (\<lambda>lg'. legacy_loop step lg' ks)"

text \<open>The new \<open>legacy\<close>: the allow-listed fields, \<open>""\<close> for a missing one.\<close>

definition reduced_legacy :: "json \<Rightarrow> json res" where
  "reduced_legacy lg =
     (case lg of
        JObj d \<Rightarrow> Inr (JObj (map (\<lambda>f. (f, case map_of d f of Some v \<Rightarrow> v | None \<Rightarrow> JStr [])) user_fields))
      | _ \<Rightarrow> Inl (AttributeError ''get''))"

definition processuserresults :: "json \<Rightarrow> json res" where
  "processuserresults data =
     (case data of
        JObj _ \<Rightarrow>
          bindr (jpath data [''user_results'', ''result'']) (\<lambda>datas.
          bindr (strip_keys datas keys_result_remove) (\<lambda>datas1.
          bindr (jget datas1 ''legacy'') (\<lambda>lg.
          bindr (strip_keys lg keys_legacy_remove) (\<lambda>lg1.
          bindr (case lg1 of JObj d \<Rightarrow> legacy_loop user_legacy_step lg1 (map fst d) | _ \<Rightarrow> Inl (AttributeError ''items'')) (\<lambda>lg2.
          bindr (jupdate datas1 ''legacy'' lg2) (\<lambda>datas2.
          bindr (reduced_legacy lg2) (\<lambda>nl.
          bindr (jupdate datas2 ''legacy'' nl) (\<lambda>datas3.
          bindr (jin ''professional'' datas3) (\<lambda>hp.
            if hp then Inr datas3 else jupdate datas3 ''professional'' (JObj []))))))))))
      | _ \<Rightarrow> Inl (TypeError ''__processuserresults''))"

section \<open>\<open>__processretweeted\<close> and \<open>__processmedia\<close>\<close>

definition keys_tweet_remove :: "string list" where
  "keys_tweet_remove =
     [''conversation_id_str'', ''display_text_range'', ''is_quote_status'', ''possibly_sensitive'',
      ''possibly_sensitive_editable'', ''quoted_status_id_str'', ''quoted_status_permalink'', ''favorited'',
      ''retweeted'', ''user_id_str'', ''id_str'', ''place'']"

text \<open>The part both tweet functions share once \<open>legacy\<close> is known to be there: both
  entity blocks, the noise keys, \<open>created_at\<close>. Result: the new legacy and the tweet.\<close>

definition clean_tweet_legacy :: "json \<Rightarrow> (json \<times> json) res" where
  "clean_tweet_legacy data =
     bindr (removeallentites ''entities'' data) (\<lambda>d1.
     bindr (removeallentites ''extended_entities'' d1) (\<lambda>d2.
     bindr (jget d2 ''legacy'') (\<lambda>lg.
     bindr (strip_keys lg keys_tweet_remove) (\<lambda>lg1.
     bindr (tweet_dates lg1) (\<lambda>lg2.
     bindr (jupdate d2 ''legacy'' lg2) (\<lambda>d3. Inr (lg2, d3)))))))"

definition tweet_record :: "json \<Rightarrow> json \<Rightarrow> json \<Rightarrow> json \<Rightarrow> json" where
  "tweet_record i v c l = JObj [(''id'', i), (''views'', v), (''core'', c), (''legacy'', l)]"

definition processretweeted :: "json \<Rightarrow> json res" where
  "processretweeted data =
     (case data of
        JObj _ \<Rightarrow>
          bindr (id_of data) (\<lambda>i.
          bindr (views_of data) (\<lambda>v.
          bindr (jin ''core'' data) (\<lambda>hc.
          bindr (if hc then bindr (jget data ''core'') processuserresults else Inr (JObj [])) (\<lambda>c.
          bindr (clean_tweet_legacy data) (\<lambda>(lg, _).
            Inr (tweet_record i v c lg))))))
      | _ \<Rightarrow> Inl (TypeError ''__processretweeted''))"

text \<open>The retweet step of \<open>__processmedia\<close>: the nested result is replaced by its
  sanitized form (\<open>clear\<close> then \<open>update\<close>), or the key is set to \<open>{}\<close>.\<close>

definition retweet_step :: "json \<Rightarrow> json res" where
  "retweet_step lg =
     bindr (jin ''retweeted_status_result'' lg) (\<lambda>h.
       if h then bindr (jpath lg [''retweeted_status_result'', ''result'']) (\<lambda>rr.
                 bindr (processretweeted rr) (\<lambda>rw.
                   jput lg [''retweeted_status_result'', ''result''] rw))
       else jupdate lg ''retweeted_status_result'' (JObj []))"

text \<open>\<open>core = __processuserresults(data=deeper["core"])\<close>, with the mutated user
  written back into the tweet.\<close>

definition media_core :: "json \<Rightarrow> (json \<times> json) res" where
  "media_core deeper =
     bindr (jin ''core'' deeper) (\<lambda>hc.
       if hc then bindr (jget deeper ''core'') (\<lambda>c.
                  bindr (processuserresults c) (\<lambda>u.
                  bindr (jput c [''user_results'', ''result''] u) (\<lambda>c'.
                  bindr (jupdate deeper ''core'' c') (\<lambda>deeper'. Inr (u, deeper')))))
       else Inr (JObj [], deeper))"

definition media_legacy :: "json \<Rightarrow> (json \<times> json) res" where
  "media_legacy deeper =
     bindr (jin ''legacy'' deeper) (\<lambda>hl.
       if hl then bindr (clean_tweet_legacy deeper) (\<lambda>(lg, d1).
                  bindr (retweet_step lg) (\<lambda>lg'.
                  bindr (jupdate d1 ''legacy'' lg') (\<lambda>d2. Inr (lg', d2))))
       else Inr (JObj [], deeper))"

text \<open>Where the tweet sits in the entry, and how it is written back.\<close>

definition deeper_path :: "json \<Rightarrow> string list res" where
  "deeper_path entry =
     bindr (jin ''content'' entry) (\<lambda>hc.
       if hc then Inr [''content'', ''itemContent'', ''tweet_results'', ''result'']
       else bindr (jin ''rest_id'' entry) (\<lambda>hr. if hr then Inr [] else Inr [''tweet'']))"

definition processmedia :: "json \<Rightarrow> (json \<times> json) res" where
  "processmedia entry =
     (case entry of
        JObj _ \<Rightarrow>
          bindr (deeper_path entry) (\<lambda>p.
          bindr (jpath entry p) (\<lambda>deeper.
          bindr (id_of deeper) (\<lambda>i.
          bindr (views_of deeper) (\<lambda>v.
          bindr (media_core deeper) (\<lambda>(c, deeper1).
          bindr (media_legacy deeper1) (\<lambda>(lg, deeper2).
          bindr (jput entry p deeper2) (\<lambda>entry'.
            Inr (tweet_record i v c lg, entry'))))))))
      | _ \<Rightarrow> Inl (TypeError ''__processmedia''))"

section \<open>A sample user\<close>

definition demo_user :: json where
  "demo_user = JObj [(''user_results'', JObj [(''result'', JObj [
     (''rest_id'', JStr ''7''), (''smart_blocking'', JBool False),
     (''legacy'', JObj [(''can_dm'', JBool True), (''created_at'', JStr ''Wed Oct 10 20:19:24 +0000 2018''),
        (''name'', JStr ''N''),
        (''entities'', JObj [(''url'', JObj [(''urls'', JList [JObj [(''indices'', JList []), (''url'', JStr ''z'')]])])]),
        (''profile_image_url_https'', JStr ''https://p/abc_normal.jpg'')])])])]"

definition demo_user_clean :: json where
  "demo_user_clean = JObj [(''rest_id'', JStr ''7''),
     (''legacy'', JObj [(''name'', JStr ''N''), (''screen_name'', JStr []), (''verified'', JStr []),
        (''description'', JStr []),
        (''entities'', JObj [(''url'', JObj [(''urls'', JList [JObj [(''url'', JStr ''z'')]])])]),
        (''location'', JStr []), (''profile_banner_url'', JStr []),
        (''profile_image_url_https'', JStr ''https://p/abc_400x400.jpg''),
        (''profile_interstitial_type'', JStr []), (''url'', JStr [])]),
     (''professional'', JObj [])]"

section \<open>Lemmas\<close>

subsection \<open>\<open>__replacechar\<close>\<close>

lemma last_segment_append:
  assumes "CHR ''/'' \<notin> set t"
  shows "last_segment (s @ CHR ''/'' # t) = t"
proof -
  have "takeWhile (\<lambda>c. c \<noteq> CHR ''/'') (rev t @ CHR ''/'' # rev s) = rev t"
    by (subst takeWhile_append2) (use assms in auto)
  then show ?thesis by (simp add: last_segment_def)
qed

lemma search_us_skip: "CHR ''_'' \<notin> set n \<Longrightarrow> search_us (n @ s) = search_us s"
  by (induction n) auto

text \<open>On a profile image URL whose last segment is \<open>name_normal.jpg\<close> (no \<open>_\<close>
  or \<open>/\<close> in \<open>name\<close>, no \<open>normal\<close> before it), \<open>__replacechar\<close> swaps the size
  \<open>normal\<close> for \<open>400x400\<close> and changes nothing else.\<close>

theorem replacechar_profile_image:
  assumes "CHR ''_'' \<notin> set n" and "CHR ''/'' \<notin> set n" and "\<not> is_substr ''normal'' (p @ ''/'' @ n)"
  shows "replacechar (JStr (p @ ''/'' @ n @ ''_normal.jpg'')) ''400x400'' = Inr (JStr (p @ ''/'' @ n @ ''_400x400.jpg''))"
proof -
  have seg: "last_segment (p @ ''/'' @ n @ ''_normal.jpg'') = n @ ''_normal.jpg''"
    using last_segment_append [of "n @ ''_normal.jpg''" p] assms(1,2) by simp
  have grp: "search_us (n @ ''_normal.jpg'') = Some ''normal''"
    using assms(1) by (simp add: search_us_skip starts_with_def)
  have "replace_ne ''normal'' ''400x400'' ((p @ ''/'' @ n) @ CHR ''_'' # ''normal.jpg'')
      = (p @ ''/'' @ n) @ CHR ''_'' # replace_ne ''normal'' ''400x400'' ''normal.jpg''"
    using assms(3) by (intro replace_ne_append_sep) auto
  also have "replace_ne ''normal'' ''400x400'' ''normal.jpg'' = ''400x400.jpg''"
    by (subst replace_ne.simps) (simp add: replace_ne_no_occ starts_with_def)
  finally show ?thesis
    using seg grp by (simp add: replacechar_def py_replace_def)
qed

theorem replacechar_profile_image_witness:
  "replacechar (JStr ''https://pbs.twimg.com/profile_images/1/abc_normal.jpg'') ''400x400''
     = Inr (JStr ''https://pbs.twimg.com/profile_images/1/abc_400x400.jpg'')"
  using replacechar_profile_image [of "''abc''" "''https://pbs.twimg.com/profile_images/1''"]
  by (simp add: starts_with_def)

text \<open>C30. The size found in the last path segment is replaced in the whole URL: for
  every URL whose last directory is called \<open>normal\<close> above a \<open>name_normal.jpg\<close> image,
  the directory is renamed too.\<close>

theorem replacechar_whole_url:
  assumes "CHR ''_'' \<notin> set n" and "CHR ''/'' \<notin> set n"
    and "\<not> is_substr ''normal'' a" and "\<not> is_substr ''normal'' n"
  shows "replacechar (JStr (a @ ''/normal/'' @ n @ ''_normal.jpg'')) r =
           Inr (JStr (a @ ''/'' @ r @ ''/'' @ n @ ''_'' @ r @ ''.jpg''))"
proof -
  have seg: "last_segment (a @ ''/normal/'' @ n @ ''_normal.jpg'') = n @ ''_normal.jpg''"
    using last_segment_append [of "n @ ''_normal.jpg''" "a @ ''/normal''"] assms(1,2) by simp
  have grp: "search_us (n @ ''_normal.jpg'') = Some ''normal''"
    using assms(1) by (simp add: search_us_skip starts_with_def)
  have nn: "''normal'' \<noteq> []" and sl: "CHR ''/'' \<notin> set ''normal''" and us: "CHR ''_'' \<notin> set ''normal''" by simp_all
  have "replace_ne ''normal'' r ''normal.jpg'' = r @ ''.jpg''"
    using replace_ne_prefix [OF nn, of r "''.jpg''"] by (simp add: replace_ne_no_occ starts_with_def)
  then have tail: "replace_ne ''normal'' r (n @ CHR ''_'' # ''normal.jpg'') = n @ ''_'' @ r @ ''.jpg''"
    using replace_ne_append_sep [OF assms(4) us] by simp
  have "replace_ne ''normal'' r (CHR ''/'' # n @ ''_normal.jpg'') = ''/'' @ n @ ''_'' @ r @ ''.jpg''"
    using replace_ne_append_sep [of "''normal''" "[]" "CHR ''/''" r "n @ ''_normal.jpg''"] tail by simp
  then have "replace_ne ''normal'' r (''normal'' @ CHR ''/'' # n @ ''_normal.jpg'') = r @ ''/'' @ n @ ''_'' @ r @ ''.jpg''"
    using replace_ne_prefix [OF nn] by simp
  then have "replace_ne ''normal'' r (a @ CHR ''/'' # ''normal'' @ CHR ''/'' # n @ ''_normal.jpg'') =
      a @ ''/'' @ r @ ''/'' @ n @ ''_'' @ r @ ''.jpg''"
    using replace_ne_append_sep [OF assms(3) sl] by simp
  then show ?thesis using seg grp by (simp add: replacechar_def py_replace_def)
qed

theorem replacechar_whole_url_witness:
  "CHR ''_'' \<notin> set ''abc'' \<and> CHR ''/'' \<notin> set ''abc'' \<and> \<not> is_substr ''normal'' ''https://x'' \<and> \<not> is_substr ''normal'' ''abc'' \<and>
   replacechar (JStr (''https://x'' @ ''/normal/'' @ ''abc'' @ ''_normal.jpg'')) ''400x400'' =
     Inr (JStr ''https://x/400x400/abc_400x400.jpg'')"
proof -
  have h: "CHR ''_'' \<notin> set ''abc''" "CHR ''/'' \<notin> set ''abc''"
    "\<not> is_substr ''normal'' ''https://x''" "\<not> is_substr ''normal'' ''abc''"
    by (simp_all add: starts_with_def)
  show ?thesis using h replacechar_whole_url [OF h, of "''400x400''"] by simp
qed

text \<open>When the last segment has \<open>_.jpg\<close>, the group is empty and
  \<open>str.replace("", r)\<close> inserts the replacement between every two characters.\<close>

theorem replacechar_empty_group:
  "replacechar (JStr ''a/b_.jpg'') ''Z'' = Inr (JStr ''ZaZ/ZbZ_Z.ZjZpZgZ'')"
  by code_simp

lemma strip_keys_dictE:
  assumes "strip_keys x ks = Inr y" and "wf_json x" and "jget y k = Inr v"
  obtains d where "x = JObj d" and "y = JObj (filter (\<lambda>p. fst p \<notin> set ks) d)"
proof (cases x)
  case (JObj d)
  with assms(1,2) strip_keys_cases [OF assms(1)] show ?thesis by (intro that) auto
qed (use assms strip_keys_cases [OF assms(1)] in auto)

lemma reduced_legacy_keys:
  "reduced_legacy lg = Inr nl \<Longrightarrow> \<exists>l. nl = JObj l \<and> map fst l = user_fields"
  by (cases lg) (auto simp: reduced_legacy_def comp_def)

lemma processuserresults_steps:
  assumes "processuserresults data = Inr r"
  obtains datas datas1 lg lg2 datas2 nl datas3 hp where
    "jpath data [''user_results'', ''result''] = Inr datas"
    "strip_keys datas keys_result_remove = Inr datas1" "jget datas1 ''legacy'' = Inr lg"
    "jupdate datas1 ''legacy'' lg2 = Inr datas2" "reduced_legacy lg2 = Inr nl"
    "jupdate datas2 ''legacy'' nl = Inr datas3" "jin ''professional'' datas3 = Inr hp"
    "(if hp then Inr datas3 else jupdate datas3 ''professional'' (JObj [])) = Inr r"
  using assms by (auto simp: processuserresults_def elim!: res_elims split: json.split_asm)

subsection \<open>\<open>__processuserresults\<close>\<close>

text \<open>C5. A user record that \<open>__processuserresults\<close> returns is a dict with distinct
  keys, without any of the twelve noise keys, with a \<open>professional\<close> entry, and whose
  \<open>legacy\<close> holds exactly the ten allow-listed fields in the source's order.\<close>

theorem processuserresults_shape:
  assumes wf: "wf_json data" and ok: "processuserresults data = Inr r"
  shows "\<exists>d l. r = JObj d \<and> distinct (map fst d) \<and> map_of d ''legacy'' = Some (JObj l) \<and>
           map fst l = user_fields \<and> ''professional'' \<in> set (map fst d) \<and>
           (\<forall>k \<in> set keys_result_remove. k \<notin> set (map fst d))"
proof -
  from ok obtain datas datas1 lg lg2 datas2 nl datas3 hp where
    p: "jpath data [''user_results'', ''result''] = Inr datas" and
    s: "strip_keys datas keys_result_remove = Inr datas1" and g: "jget datas1 ''legacy'' = Inr lg" and
    u2: "jupdate datas1 ''legacy'' lg2 = Inr datas2" and rl: "reduced_legacy lg2 = Inr nl" and
    u3: "jupdate datas2 ''legacy'' nl = Inr datas3" and h: "jin ''professional'' datas3 = Inr hp" and
    fin: "(if hp then Inr datas3 else jupdate datas3 ''professional'' (JObj [])) = Inr r"
    by (rule processuserresults_steps)
  have "wf_json datas" using jpath_wf [OF p wf] .
  with s g obtain d0 where d0: "datas = JObj d0"
    and d1: "datas1 = JObj (filter (\<lambda>p. fst p \<notin> set keys_result_remove) d0)"
    by (blast elim: strip_keys_dictE)
  define D1 where "D1 = filter (\<lambda>p. fst p \<notin> set keys_result_remove) d0"
  define D3 where "D3 = aset (aset D1 ''legacy'' lg2) ''legacy'' nl"
  from rl obtain l where l: "nl = JObj l" "map fst l = user_fields" by (blast dest: reduced_legacy_keys)
  have d3: "datas3 = JObj D3" using u2 u3 d1 by (auto simp: D1_def D3_def)
  have dist: "distinct (map fst D3)"
    using \<open>wf_json datas\<close> d0 by (simp add: D3_def D1_def distinct_map_filter)
  have keys: "set (map fst D3) = insert ''legacy'' (set (map fst D1))" by (simp add: D3_def)
  have clean: "\<forall>k \<in> set keys_result_remove. k \<notin> set (map fst D1)" by (auto simp: D1_def)
  have new: "''legacy'' \<notin> set keys_result_remove" "''professional'' \<notin> set keys_result_remove"
    by (simp_all add: keys_result_remove_def)
  have leg: "map_of D3 ''legacy'' = Some nl" by (simp add: D3_def)
  show ?thesis
  proof (cases hp)
    case True
    with fin d3 h have "r = JObj D3" "''professional'' \<in> set (map fst D3)" by auto
    with dist keys clean new leg l show ?thesis by auto
  next
    case False
    with fin d3 have "r = JObj (aset D3 ''professional'' (JObj []))" by auto
    with dist keys clean new leg l show ?thesis by auto
  qed
qed

theorem processuserresults_shape_witness:
  "wf_json demo_user \<and> processuserresults demo_user = Inr demo_user_clean \<and>
   (\<exists>d l. demo_user_clean = JObj d \<and> distinct (map fst d) \<and> map_of d ''legacy'' = Some (JObj l) \<and>
           map fst l = user_fields \<and> ''professional'' \<in> set (map fst d) \<and>
           (\<forall>k \<in> set keys_result_remove. k \<notin> set (map fst d)))"
proof -
  have w: "wf_json demo_user" by code_simp
  have e: "processuserresults demo_user = Inr demo_user_clean" by code_simp
  show ?thesis using processuserresults_shape [OF w e] w e by simp
qed

end
