(* ===== verification/Dispatcher.thy ===== *)
theory Dispatcher
  imports Auth Sanitizer
begin

text \<open>
  The response walk of \<open>XCrawl.search\<close> (src/controller/x/xcrawl.py, lines 859-1004):
  the instructions of a 200 answer are read in order; \<open>TimelineAddEntries\<close> resets the
  local \<open>cursor_value\<close> to \<open>""\<close> and turns every entry into records according to the
  product (People, Media, Top or Latest), adding the value of every Bottom cursor entry;
  \<open>TimelineAddToModule\<close> turns module items into tweet records; \<open>TimelineReplaceEntry\<close>
  supplies the Bottom cursor when none was found. The locals of the walk are the record
  \<open>walk\<close>: the records so far, \<open>cursor_value\<close> and \<open>user_results\<close>, both \<open>None\<close> while
  unbound (Python raises \<open>UnboundLocalError\<close> when it reads them then).

  A Media entry may send the same tweet through \<open>__processmedia\<close> once per key of its
  content that contains \<open>items\<close>; the records of the earlier passes share the user object
  and the legacy dict with the tweet, so when the entry is done each of its records is
  read again from the final tweet (\<open>media_fixup\<close>). Records of other entries are never
  touched again: a decoded JSON value shares no object between two entries.
\<close>

section \<open>The locals of the walk\<close>

record walk =
  datas :: "json list"
  cursor_value :: "string option"
  user_results :: "json option"

definition walk0 :: walk where
  "walk0 = \<lparr>datas = [], cursor_value = None, user_results = None\<rparr>"

text \<open>\<open>if entry["content"].get("cursorType", "") == "Bottom":
  cursor_value += entry["content"].get("value", "")\<close>; \<open>str + x\<close> needs a str.\<close>

definition bottom_cursor :: "json \<Rightarrow> string \<Rightarrow> string res" where
  "bottom_cursor c cur =
     bindr (jget_or c ''cursorType'' (JStr [])) (\<lambda>t.
       if t = JStr ''Bottom''
       then bindr (jget_or c ''value'' (JStr [])) (\<lambda>v.
              case v of JStr s \<Rightarrow> Inr (cur @ s) | _ \<Rightarrow> Inl (TypeError ''can only concatenate str''))
       else Inr cur)"

section \<open>People\<close>

definition people_result_remove :: "string list" where
  "people_result_remove = [''affiliates_highlighted_label'', ''has_graduated_access'', ''profile_image_shape'']"

definition people_legacy_remove :: "string list" where
  "people_legacy_remove =
     [''can_dm'', ''can_media_tag'', ''fast_followers_count'', ''has_custom_timelines'', ''is_translator'',
      ''possibly_sensitive'', ''translator_type'', ''want_retweets'', ''withheld_in_countries'']"

text \<open>The user of a People entry whose content has \<open>itemContent\<close>: noise keys, then the
  profile image and \<open>created_at\<close> cases of the legacy loop.\<close>

definition people_user :: "json \<Rightarrow> json res" where
  "people_user c =
     bindr (jpath c [''itemContent'', ''user_results'', ''result'']) (\<lambda>u.
     bindr (strip_keys u people_result_remove) (\<lambda>u1.
     bindr (jget u1 ''legacy'') (\<lambda>lg.
     bindr (strip_keys lg people_legacy_remove) (\<lambda>lg1.
     bindr (case lg1 of JObj d \<Rightarrow> legacy_loop image_date_step lg1 (map fst d)
                      | _ \<Rightarrow> Inl (AttributeError ''items'')) (\<lambda>lg2.
     jupdate u1 ''legacy'' lg2)))))"

text \<open>A People entry: the record appended is the local \<open>user_results\<close>, which keeps the
  user of an earlier entry when this one has no \<open>itemContent\<close>.\<close>

definition people_entry :: "json \<Rightarrow> walk \<Rightarrow> string \<Rightarrow> walk res" where
  "people_entry entry w cur =
     bindr (jget entry ''content'') (\<lambda>c.
     bindr (jin ''itemContent'' c) (\<lambda>h.
     bindr (if h then bindr (people_user c) (\<lambda>u. Inr (Some u)) else Inr (user_results w)) (\<lambda>us.
     bindr (bottom_cursor c cur) (\<lambda>cur'.
       case us of
         None \<Rightarrow> Inl (UnboundLocalError ''user_results'')
       | Some u \<Rightarrow> Inr (w\<lparr>datas := datas w @ [u], cursor_value := Some cur', user_results := us\<rparr>)))))"

section \<open>Media\<close>

text \<open>One element of \<open>entry["content"]["items"]\<close>: the tweet is processed and written
  back; the record comes with nothing else, its position is added by the caller.\<close>

definition media_item :: "json \<Rightarrow> (json \<times> json option) res" where
  "media_item item =
     bindr (jin ''item'' item) (\<lambda>h1.
       if \<not> h1 then Inr (item, None)
       else bindr (jget item ''item'') (\<lambda>ii.
            bindr (jin ''itemContent'' ii) (\<lambda>h2.
              if \<not> h2 then Inr (item, None)
              else bindr (jpath item [''item'', ''itemContent'', ''tweet_results'', ''result'']) (\<lambda>deeper.
                   bindr (processmedia deeper) (\<lambda>(r, deeper').
                   bindr (jput item [''item'', ''itemContent'', ''tweet_results'', ''result''] deeper') (\<lambda>item'.
                     Inr (item', Some r)))))))"

fun media_items :: "nat \<Rightarrow> json list \<Rightarrow> (json list \<times> (nat \<times> json) list) res" where
  "media_items i [] = Inr ([], [])"
| "media_items i (x # xs) =
     bindr (media_item x) (\<lambda>(x', ro).
     bindr (media_items (Suc i) xs) (\<lambda>(xs', rs).
       Inr (x' # xs', (case ro of None \<Rightarrow> [] | Some r \<Rightarrow> [(i, r)]) @ rs)))"

text \<open>\<open>for key_content in entry["content"]: if "items" in key_content: ...\<close>.\<close>

fun media_keys :: "json \<Rightarrow> json list \<Rightarrow> (json \<times> (nat \<times> json) list) res" where
  "media_keys c [] = Inr (c, [])"
| "media_keys c (kc # kcs) =
     bindr (jin ''items'' kc) (\<lambda>h.
       if \<not> h then media_keys c kcs
       else bindr (jget c ''items'') (\<lambda>its.
            bindr (jiter its) (\<lambda>xs.
            bindr (media_items 0 xs) (\<lambda>(xs', rs).
            bindr (case its of JList _ \<Rightarrow> jupdate c ''items'' (JList xs') | _ \<Rightarrow> Inr c) (\<lambda>c'.
            bindr (media_keys c' kcs) (\<lambda>(c'', rs'). Inr (c'', rs @ rs')))))))"

text \<open>A record of \<open>__processmedia\<close> read again from the final tweet: its \<open>core\<close> is the
  user object \<open>core.user_results.result\<close> and its \<open>legacy\<close> the tweet's legacy dict.\<close>

definition media_fixup :: "json \<Rightarrow> json \<Rightarrow> json res" where
  "media_fixup deeper r =
     bindr (deeper_path deeper) (\<lambda>p.
     bindr (jpath deeper p) (\<lambda>tw.
     bindr (jin ''core'' tw) (\<lambda>hc.
     bindr (if hc then bindr (jpath tw [''core'', ''user_results'', ''result'']) (\<lambda>u. jupdate r ''core'' u)
            else Inr r) (\<lambda>r1.
     bindr (jin ''legacy'' tw) (\<lambda>hl.
       if hl then bindr (jget tw ''legacy'') (\<lambda>l. jupdate r1 ''legacy'' l) else Inr r1)))))"

fun media_fixups :: "json \<Rightarrow> (nat \<times> json) list \<Rightarrow> json list res" where
  "media_fixups c [] = Inr []"
| "media_fixups c ((i, r) # rs) =
     bindr (jget c ''items'') (\<lambda>its.
     bindr (case its of
              JList xs \<Rightarrow> if i < length xs
                          then bindr (jpath (xs ! i) [''item'', ''itemContent'', ''tweet_results'', ''result''])
                                 (\<lambda>d. media_fixup d r)
                          else Inr r
            | _ \<Rightarrow> Inr r) (\<lambda>r'.
     bindr (media_fixups c rs) (\<lambda>rs'. Inr (r' # rs'))))"

definition media_entry :: "json \<Rightarrow> walk \<Rightarrow> string \<Rightarrow> walk res" where
  "media_entry entry w cur =
     bindr (jget entry ''content'') (\<lambda>c.
     bindr (jiter c) (\<lambda>kcs.
     bindr (media_keys c kcs) (\<lambda>(c', rs).
     bindr (media_fixups c' rs) (\<lambda>recs.
     bindr (bottom_cursor c' cur) (\<lambda>cur'.
       Inr (w\<lparr>datas := datas w @ recs, cursor_value := Some cur'\<rparr>))))))"

section \<open>Top and Latest\<close>

definition tweet_entry :: "json \<Rightarrow> walk \<Rightarrow> string \<Rightarrow> walk res" where
  "tweet_entry entry w cur =
     bindr (jget entry ''content'') (\<lambda>c.
     bindr (jin ''itemContent'' c) (\<lambda>h.
     bindr (if h then bindr (jget_or c ''itemContent'' (JObj [])) (\<lambda>a.
                      bindr (jget_or a ''tweet_results'' (JObj [])) (\<lambda>b.
                      bindr (jget_or b ''result'' (JObj [])) (\<lambda>deeper.
                        if truthy deeper then bindr (processmedia deeper) (\<lambda>(r, _). Inr [r]) else Inr [])))
            else Inr []) (\<lambda>recs.
     bindr (bottom_cursor c cur) (\<lambda>cur'.
       Inr (w\<lparr>datas := datas w @ recs, cursor_value := Some cur'\<rparr>)))))"

section \<open>Instructions\<close>

text \<open>\<open>match product\<close>: a product other than the four matches no case.\<close>

definition entry_step :: "string \<Rightarrow> json \<Rightarrow> walk \<Rightarrow> walk res" where
  "entry_step product entry w =
     (case cursor_value w of
        None \<Rightarrow> Inr w
      | Some cur \<Rightarrow>
          if product = ''People'' then people_entry entry w cur
          else if product = ''Media'' then media_entry entry w cur
          else if product = ''Top'' \<or> product = ''Latest'' then tweet_entry entry w cur
          else Inr w)"

fun add_entries :: "string \<Rightarrow> json list \<Rightarrow> walk \<Rightarrow> walk res" where
  "add_entries product [] w = Inr w"
| "add_entries product (e # es) w = bindr (entry_step product e w) (add_entries product es)"

definition module_item :: "json \<Rightarrow> walk \<Rightarrow> walk res" where
  "module_item entry w =
     bindr (jin ''item'' entry) (\<lambda>h.
       if \<not> h then Inr w
       else bindr (jpath entry [''item'', ''itemContent'', ''tweet_results'', ''result'']) (\<lambda>deeper.
            bindr (processmedia deeper) (\<lambda>(r, _). Inr (w\<lparr>datas := datas w @ [r]\<rparr>))))"

fun add_to_module :: "json list \<Rightarrow> walk \<Rightarrow> walk res" where
  "add_to_module [] w = Inr w"
| "add_to_module (e # es) w = bindr (module_item e w) (add_to_module es)"

definition replace_entry :: "json \<Rightarrow> walk \<Rightarrow> walk res" where
  "replace_entry ins w =
     (case cursor_value w of
        None \<Rightarrow> Inl (UnboundLocalError ''cursor_value'')
      | Some cur \<Rightarrow>
          if cur \<noteq> [] then Inr w
          else bindr (jpath ins [''entry'', ''content'']) (\<lambda>c.
               bindr (bottom_cursor c cur) (\<lambda>cur'. Inr (w\<lparr>cursor_value := Some cur'\<rparr>))))"

text \<open>The three \<open>if isinstance(intruction, dict) and intruction["type"] == ...\<close> tests
  of one instruction; the walk never changes \<open>type\<close>, so it is read once.\<close>

definition instr_step :: "string \<Rightarrow> json \<Rightarrow> walk \<Rightarrow> walk res" where
  "instr_step product ins w =
     (case ins of
        JObj _ \<Rightarrow>
          bindr (jget ins ''type'') (\<lambda>t.
          bindr (if t = JStr ''TimelineAddEntries''
                 then bindr (jget ins ''entries'') (\<lambda>es. bindr (jiter es) (\<lambda>xs.
                      add_entries product xs (w\<lparr>cursor_value := Some []\<rparr>)))
                 else Inr w) (\<lambda>w1.
          bindr (if t = JStr ''TimelineAddToModule''
                 then bindr (jget ins ''moduleItems'') (\<lambda>ms. bindr (jiter ms) (\<lambda>xs. add_to_module xs w1))
                 else Inr w1) (\<lambda>w2.
          if t = JStr ''TimelineReplaceEntry'' then replace_entry ins w2 else Inr w2)))
      | _ \<Rightarrow> Inr w)"

fun walk_instrs :: "string \<Rightarrow> json list \<Rightarrow> walk \<Rightarrow> walk res" where
  "walk_instrs product [] w = Inr w"
| "walk_instrs product (i # is) w = bindr (instr_step product i w) (walk_instrs product is)"

section \<open>The answer of \<open>search\<close>\<close>

definition not_found_msg :: string where
  "not_found_msg = ''Error! status code 404 : Not Found''"

definition search_result :: "string \<Rightarrow> json \<Rightarrow> json res" where
  "search_result product data =
     bindr (jpath data [''data'', ''search_by_raw_query'', ''search_timeline'', ''timeline'', ''instructions'']) (\<lambda>ins.
     bindr (jiter ins) (\<lambda>xs.
     bindr (walk_instrs product xs walk0) (\<lambda>w.
       if datas w = [] then Inl (HTTPErrorException not_found_msg)
       else case cursor_value w of
              None \<Rightarrow> Inl (UnboundLocalError ''cursor_value'')
            | Some c \<Rightarrow> Inr (JObj [(''result'', JList (datas w)), (''cursor_value'', JStr c)]))))"

definition search_response :: "string \<Rightarrow> http_resp \<Rightarrow> json res" where
  "search_response product r =
     (if status r = 200
      then (case body r of None \<Rightarrow> Inl (ValueError ''JSONDecodeError'') | Some data \<Rightarrow> search_result product data)
      else Inl (HTTPErrorException (http_error_msg r)))"

section \<open>Specification-side readings and sample answers\<close>

text \<open>The Bottom cursor value an entry contributes, read from its content.\<close>

definition bottom_of :: "json \<Rightarrow> string" where
  "bottom_of c =
     (case c of
        JObj d \<Rightarrow> if map_of d ''cursorType'' = Some (JStr ''Bottom'')
                  then (case map_of d ''value'' of Some (JStr s) \<Rightarrow> s | _ \<Rightarrow> []) else []
      | _ \<Rightarrow> [])"

definition bottom_value :: "json \<Rightarrow> string" where
  "bottom_value e = (case e of JObj d \<Rightarrow> (case map_of d ''content'' of Some c \<Rightarrow> bottom_of c | None \<Rightarrow> []) | _ \<Rightarrow> [])"

text \<open>The instruction kinds the walk acts on.\<close>

definition known_instr :: "json \<Rightarrow> bool" where
  "known_instr t = (t \<in> {JStr ''TimelineAddEntries'', JStr ''TimelineAddToModule'', JStr ''TimelineReplaceEntry''})"

definition search_products :: "string set" where
  "search_products = {''People'', ''Media'', ''Top'', ''Latest''}"

text \<open>Sample answers: the instruction list wrapped in the path the walk reads.\<close>

definition answer :: "json list \<Rightarrow> json" where
  "answer ins = JObj [(''data'', JObj [(''search_by_raw_query'', JObj [(''search_timeline'', JObj [(''timeline'',
     JObj [(''instructions'', JList ins)])])])])]"

definition cursor_entry :: "string \<Rightarrow> string \<Rightarrow> json" where
  "cursor_entry t v = JObj [(''content'', JObj [(''cursorType'', JStr t), (''value'', JStr v)])]"

definition add_entries_instr :: "json list \<Rightarrow> json" where
  "add_entries_instr es = JObj [(''type'', JStr ''TimelineAddEntries''), (''entries'', JList es)]"

definition replace_instr :: "string \<Rightarrow> json" where
  "replace_instr v = JObj [(''type'', JStr ''TimelineReplaceEntry''), (''entry'', cursor_entry ''Bottom'' v)]"

definition demo_media_tweet :: json where
  "demo_media_tweet = JObj [(''rest_id'', JStr ''11''), (''legacy'', JObj [(''full_text'', JStr ''hi'')])]"

definition tweet_entry_of :: "json \<Rightarrow> json" where
  "tweet_entry_of t = JObj [(''content'', JObj [(''itemContent'', JObj [(''tweet_results'', JObj [(''result'', t)])])])]"

definition user_entry_of :: "json \<Rightarrow> json" where
  "user_entry_of u = JObj [(''content'', JObj [(''itemContent'', JObj [(''user_results'', JObj [(''result'', u)])])])]"

definition demo_people_user :: json where
  "demo_people_user = JObj [(''rest_id'', JStr ''7''), (''legacy'', JObj [(''name'', JStr ''N'')])]"

section \<open>Lemmas\<close>

subsection \<open>Records are only appended\<close>

lemma people_entry_appends:
  "people_entry e w cur = Inr w' \<Longrightarrow> \<exists>u. user_results w' = Some u \<and> datas w' = datas w @ [u]"
  unfolding people_entry_def
  by (auto elim!: res_elims split: option.split_asm)

lemma people_entry_one:
  "people_entry e w cur = Inr w' \<Longrightarrow> \<exists>u cur'. datas w' = datas w @ [u] \<and> cursor_value w' = Some cur'"
  unfolding people_entry_def
  by (auto elim!: res_elims split: option.split_asm)

lemma people_add_entries_count:
  "add_entries ''People'' es w = Inr w' \<Longrightarrow> cursor_value w \<noteq> None \<Longrightarrow>
     \<exists>new. datas w' = datas w @ new \<and> length new = length es"
proof (induction es arbitrary: w)
  case (Cons e es)
  then obtain cur where cv: "cursor_value w = Some cur" by auto
  from Cons.prems(1) obtain w1 where a: "people_entry e w cur = Inr w1" and b: "add_entries ''People'' es w1 = Inr w'"
    by (auto simp: entry_step_def cv elim!: res_elims)
  from people_entry_one [OF a] obtain u cur' where "datas w1 = datas w @ [u]" and "cursor_value w1 = Some cur'" by blast
  with Cons.IH [OF b] show ?case by force
qed simp

lemma media_entry_appends:
  "media_entry e w cur = Inr w' \<Longrightarrow> \<exists>new. datas w' = datas w @ new"
  unfolding media_entry_def
  by (auto elim!: res_elims split: prod.split_asm)

lemma tweet_entry_appends:
  "tweet_entry e w cur = Inr w' \<Longrightarrow> \<exists>new. datas w' = datas w @ new"
  unfolding tweet_entry_def
  by (auto elim!: res_elims)

lemma entry_step_appends:
  "entry_step p e w = Inr w' \<Longrightarrow> \<exists>new. datas w' = datas w @ new"
  unfolding entry_step_def
  by (auto split: option.split_asm if_split_asm dest: people_entry_appends media_entry_appends tweet_entry_appends)

lemma add_entries_appends:
  "add_entries p es w = Inr w' \<Longrightarrow> \<exists>new. datas w' = datas w @ new"
proof (induction es arbitrary: w)
  case (Cons e es)
  then obtain w1 where a: "entry_step p e w = Inr w1" and b: "add_entries p es w1 = Inr w'"
    by (auto elim!: res_elims)
  from entry_step_appends [OF a] Cons.IH [OF b] show ?case by auto
qed simp

lemma module_item_appends:
  "module_item e w = Inr w' \<Longrightarrow> \<exists>new. datas w' = datas w @ new"
  unfolding module_item_def
  by (auto elim!: res_elims split: if_split_asm)

lemma add_to_module_appends:
  "add_to_module es w = Inr w' \<Longrightarrow> \<exists>new. datas w' = datas w @ new"
proof (induction es arbitrary: w)
  case (Cons e es)
  then obtain w1 where a: "module_item e w = Inr w1" and b: "add_to_module es w1 = Inr w'"
    by (auto elim!: res_elims)
  from module_item_appends [OF a] Cons.IH [OF b] show ?case by auto
qed simp

lemma replace_entry_datas: "replace_entry ins w = Inr w' \<Longrightarrow> datas w' = datas w"
  unfolding replace_entry_def
  by (auto elim!: res_elims split: option.split_asm if_split_asm)

lemma instr_step_appends:
  "instr_step p ins w = Inr w' \<Longrightarrow> \<exists>new. datas w' = datas w @ new"
proof -
  assume a: "instr_step p ins w = Inr w'"
  show ?thesis
  proof (cases ins)
    case (JObj d)
    with a obtain t w1 w2 where
      s1: "(if t = JStr ''TimelineAddEntries''
            then bindr (jget ins ''entries'') (\<lambda>es. bindr (jiter es) (\<lambda>xs.
                 add_entries p xs (w\<lparr>cursor_value := Some []\<rparr>)))
            else Inr w) = Inr w1" and
      s2: "(if t = JStr ''TimelineAddToModule''
            then bindr (jget ins ''moduleItems'') (\<lambda>ms. bindr (jiter ms) (\<lambda>xs. add_to_module xs w1))
            else Inr w1) = Inr w2" and
      s3: "(if t = JStr ''TimelineReplaceEntry'' then replace_entry ins w2 else Inr w2) = Inr w'"
      unfolding instr_step_def by (auto elim!: res_elims)
    from s1 have "\<exists>new. datas w1 = datas w @ new"
      by (auto elim!: res_elims split: if_split_asm dest!: add_entries_appends)
    moreover from s2 have "\<exists>new. datas w2 = datas w1 @ new"
      by (auto elim!: res_elims split: if_split_asm dest!: add_to_module_appends)
    moreover from s3 have "datas w' = datas w2"
      by (auto split: if_split_asm dest!: replace_entry_datas)
    ultimately show ?thesis by auto
  qed (use a in \<open>auto simp: instr_step_def\<close>)
qed

text \<open>C6. The walk only appends: the records before an instruction list are a prefix
  of the records after it.\<close>

theorem walk_instrs_appends:
  "walk_instrs p xs w = Inr w' \<Longrightarrow> \<exists>new. datas w' = datas w @ new"
proof (induction xs arbitrary: w)
  case (Cons x xs)
  then obtain w1 where a: "instr_step p x w = Inr w1" and b: "walk_instrs p xs w1 = Inr w'"
    by (auto elim!: res_elims)
  from instr_step_appends [OF a] Cons.IH [OF b] show ?case by auto
qed simp

subsection \<open>Unknown instructions\<close>

lemma instr_step_unknown:
  "map_of d ''type'' = Some t \<Longrightarrow> \<not> known_instr t \<Longrightarrow> instr_step p (JObj d) w = Inr w"
  by (simp add: instr_step_def known_instr_def)

lemma walk_instrs_append:
  "walk_instrs p (xs @ ys) w = bindr (walk_instrs p xs w) (walk_instrs p ys)"
  by (induction xs arbitrary: w) (auto simp: bindr_def split: sum.split)

text \<open>C3. An instruction of a kind the walk does not know (a dict whose \<open>type\<close> is
  none of the three) is skipped: removing it from the list changes nothing.\<close>

theorem walk_skips_unknown:
  assumes "map_of d ''type'' = Some t" and "\<not> known_instr t"
  shows "walk_instrs p (xs @ JObj d # ys) w = walk_instrs p (xs @ ys) w"
proof -
  have "walk_instrs p (JObj d # ys) = walk_instrs p ys"
    using assms by (intro ext) (simp add: instr_step_unknown)
  then show ?thesis by (simp add: walk_instrs_append)
qed

subsection \<open>The cursor\<close>

lemma bottom_cursor_Inr: "bottom_cursor c cur = Inr cur' \<Longrightarrow> cur' = cur @ bottom_of c"
  by (cases c) (auto simp: bottom_cursor_def bottom_of_def elim!: res_elims split: if_split_asm option.split_asm json.split_asm)

lemma jget_InrD: "jget e k = Inr c \<Longrightarrow> \<exists>d. e = JObj d \<and> map_of d k = Some c"
  by (cases e) (auto split: option.split_asm)

lemma bottom_value_content: "jget e ''content'' = Inr c \<Longrightarrow> bottom_value e = bottom_of c"
  by (auto simp: bottom_value_def dest!: jget_InrD)

lemma frame_bottom_of:
  assumes "frame K c c'" and "''cursorType'' \<notin> K" and "''value'' \<notin> K"
  shows "bottom_of c' = bottom_of c"
proof -
  have t: "jget c' ''cursorType'' = jget c ''cursorType''" and v: "jget c' ''value'' = jget c ''value''"
    using assms by (auto simp: frame_def)
  show ?thesis
    using t v by (cases c; cases c') (auto simp: bottom_of_def split: option.splits)
qed

lemma media_keys_Cons_InrE:
  assumes "media_keys c (kc # kcs) = Inr (c', rs)"
  obtains rs1 where "media_keys c kcs = Inr (c', rs1)"
    | v c1 rs1 where "jupdate c ''items'' v = Inr c1" and "media_keys c1 kcs = Inr (c', rs1)"
  using assms by (auto elim!: res_elims split: if_split_asm prod.split_asm json.split_asm)

lemma media_keys_frame: "media_keys c kcs = Inr (c', rs) \<Longrightarrow> frame {''items''} c c'"
proof (induction kcs arbitrary: c rs)
  case (Cons kc kcs)
  from Cons.prems show ?case
  proof (cases rule: media_keys_Cons_InrE)
    case (1 rs1)
    then show ?thesis by (rule Cons.IH)
  next
    case (2 v c1 rs1)
    from frame_trans [OF jupdate_frame [OF 2(1)] Cons.IH [OF 2(2)]] show ?thesis by simp
  qed
qed simp

lemma people_entry_cursor:
  "people_entry e w cur = Inr w' \<Longrightarrow> cursor_value w' = Some (cur @ bottom_value e)"
  unfolding people_entry_def
  by (auto elim!: res_elims split: option.split_asm dest!: bottom_cursor_Inr simp: bottom_value_content)

lemma media_entry_cursor:
  "media_entry e w cur = Inr w' \<Longrightarrow> cursor_value w' = Some (cur @ bottom_value e)"
proof -
  assume "media_entry e w cur = Inr w'"
  then obtain c kcs c' rs recs cur' where c: "jget e ''content'' = Inr c"
    and k: "media_keys c kcs = Inr (c', rs)" and b: "bottom_cursor c' cur = Inr cur'"
    and w': "w' = w\<lparr>datas := datas w @ recs, cursor_value := Some cur'\<rparr>"
    unfolding media_entry_def by (auto elim!: res_elims split: prod.split_asm)
  have "bottom_of c' = bottom_of c"
    using media_keys_frame [OF k] by (rule frame_bottom_of) simp_all
  with c w' show ?thesis using bottom_cursor_Inr [OF b] by (simp add: bottom_value_content)
qed

lemma tweet_entry_cursor:
  "tweet_entry e w cur = Inr w' \<Longrightarrow> cursor_value w' = Some (cur @ bottom_value e)"
  unfolding tweet_entry_def
  by (auto elim!: res_elims dest!: bottom_cursor_Inr simp: bottom_value_content)

lemma entry_step_cursor:
  "p \<in> search_products \<Longrightarrow> entry_step p e w = Inr w' \<Longrightarrow> cursor_value w = Some cur \<Longrightarrow>
   cursor_value w' = Some (cur @ bottom_value e)"
  by (auto simp: entry_step_def search_products_def
      dest: people_entry_cursor media_entry_cursor tweet_entry_cursor)

lemma add_entries_cursor:
  "p \<in> search_products \<Longrightarrow> add_entries p es w = Inr w' \<Longrightarrow> cursor_value w = Some cur \<Longrightarrow>
   cursor_value w' = Some (cur @ concat (map bottom_value es))"
proof (induction es arbitrary: w cur)
  case (Cons e es)
  then obtain w1 where a: "entry_step p e w = Inr w1" and b: "add_entries p es w1 = Inr w'"
    by (auto elim!: res_elims)
  from entry_step_cursor [OF Cons.prems(1) a Cons.prems(3)] Cons.IH [OF Cons.prems(1) b]
  show ?case by simp
qed simp

text \<open>C2. For the four products, after a \<open>TimelineAddEntries\<close> instruction the cursor is
  the concatenation of the values of its Bottom cursor entries, whatever the cursor was
  before: each such instruction resets \<open>cursor_value\<close>.\<close>

theorem add_entries_instr_cursor:
  assumes "p \<in> search_products" and "map_of d ''type'' = Some (JStr ''TimelineAddEntries'')"
    and "map_of d ''entries'' = Some (JList es)" and "instr_step p (JObj d) w = Inr w'"
  shows "cursor_value w' = Some (concat (map bottom_value es))"
proof -
  from assms(2-4) have "add_entries p es (w\<lparr>cursor_value := Some []\<rparr>) = Inr w'"
    by (simp add: instr_step_def)
  from add_entries_cursor [OF assms(1) this] show ?thesis by simp
qed

subsection \<open>The answer\<close>

text \<open>A successful search answer is \<open>{"result": records, "cursor_value": c}\<close>
  with at least one record.\<close>

theorem search_result_shape:
  "search_result p data = Inr r \<Longrightarrow>
   \<exists>ds c. r = JObj [(''result'', JList ds), (''cursor_value'', JStr c)] \<and> ds \<noteq> []"
  unfolding search_result_def by (auto elim!: res_elims split: if_split_asm option.split_asm)

theorem search_result_shape_witness:
  "search_result ''Latest'' (answer [add_entries_instr [tweet_entry_of demo_media_tweet, cursor_entry ''Bottom'' ''B'']])
     = Inr (JObj [(''result'', JList [tweet_record (JStr ''11'') (JObj []) (JObj [])
                    (JObj [(''full_text'', JStr ''hi''), (''retweeted_status_result'', JObj [])])]),
                  (''cursor_value'', JStr ''B'')]) \<and>
   (\<exists>ds c. JObj [(''result'', JList [tweet_record (JStr ''11'') (JObj []) (JObj [])
                    (JObj [(''full_text'', JStr ''hi''), (''retweeted_status_result'', JObj [])])]),
                  (''cursor_value'', JStr ''B'')] = JObj [(''result'', JList ds), (''cursor_value'', JStr c)] \<and> ds \<noteq> [])"
proof -
  have e: "search_result ''Latest'' (answer [add_entries_instr [tweet_entry_of demo_media_tweet, cursor_entry ''Bottom'' ''B'']])
     = Inr (JObj [(''result'', JList [tweet_record (JStr ''11'') (JObj []) (JObj [])
                    (JObj [(''full_text'', JStr ''hi''), (''retweeted_status_result'', JObj [])])]),
                  (''cursor_value'', JStr ''B'')])" by code_simp
  show ?thesis using search_result_shape [OF e] e by simp
qed

text \<open>C1. A 200 answer whose walk yields no record is reported as
  \<open>HTTPErrorException("Error! status code 404 : Not Found")\<close>.\<close>

theorem search_result_empty:
  assumes "jpath data [''data'', ''search_by_raw_query'', ''search_timeline'', ''timeline'', ''instructions''] = Inr ins"
    and "jiter ins = Inr xs" and "walk_instrs p xs walk0 = Inr w" and "datas w = []"
  shows "search_result p data = Inl (HTTPErrorException not_found_msg)"
  using assms by (simp add: search_result_def)

text \<open>C24. In a People search every entry of a \<open>TimelineAddEntries\<close> instruction appends
  one record, cursor entries included: an entry without a user appends the last
  \<open>user_results\<close> again, so the records outnumber the users.\<close>

theorem people_cursor_duplicates_user:
  assumes "map_of d ''type'' = Some (JStr ''TimelineAddEntries'')" and "map_of d ''entries'' = Some (JList es)"
    and "instr_step ''People'' (JObj d) w = Inr w'"
  shows "\<exists>new. datas w' = datas w @ new \<and> length new = length es"
proof -
  have "add_entries ''People'' es (w\<lparr>cursor_value := Some []\<rparr>) = Inr w'"
    using assms by (simp add: instr_step_def)
  from people_add_entries_count [OF this] show ?thesis by simp
qed

text \<open>C26. In a People search, an entry without \<open>itemContent\<close> (a cursor entry) that
  comes before any user makes the append read the unbound local \<open>user_results\<close>:
  the instruction raises \<open>UnboundLocalError\<close>.\<close>

theorem people_first_entry_unbound:
  assumes "map_of d ''type'' = Some (JStr ''TimelineAddEntries'')" and "map_of d ''entries'' = Some (JList (e # es))"
    and "jget e ''content'' = Inr c" and "jin ''itemContent'' c = Inr False" and "bottom_cursor c [] = Inr cur"
    and "user_results w = None"
  shows "instr_step ''People'' (JObj d) w = Inl (UnboundLocalError ''user_results'')"
  using assms by (simp add: instr_step_def entry_step_def people_entry_def)

text \<open>C25. A \<open>TimelineReplaceEntry\<close> instruction met while \<open>cursor_value\<close> is unbound (no
  \<open>TimelineAddEntries\<close> instruction came before it, as in the initial walk) raises
  \<open>UnboundLocalError\<close>, and the walk stops there.\<close>

theorem replace_entry_before_add_unbound:
  assumes "cursor_value w = None" and "map_of d ''type'' = Some (JStr ''TimelineReplaceEntry'')"
  shows "walk_instrs p (JObj d # rest) w = Inl (UnboundLocalError ''cursor_value'')"
  using assms by (simp add: instr_step_def replace_entry_def)

theorem people_cursor_duplicates_user_witness:
  "map_of [(''type'', JStr ''TimelineAddEntries''), (''entries'', JList [user_entry_of demo_people_user, cursor_entry ''Bottom'' ''B''])] ''type''
     = Some (JStr ''TimelineAddEntries'') \<and>
   map_of [(''type'', JStr ''TimelineAddEntries''), (''entries'', JList [user_entry_of demo_people_user, cursor_entry ''Bottom'' ''B''])] ''entries''
     = Some (JList [user_entry_of demo_people_user, cursor_entry ''Bottom'' ''B'']) \<and>
   instr_step ''People'' (add_entries_instr [user_entry_of demo_people_user, cursor_entry ''Bottom'' ''B'']) walk0 =
     Inr \<lparr>datas = [demo_people_user, demo_people_user], cursor_value = Some ''B'', user_results = Some demo_people_user\<rparr> \<and>
   (\<exists>new. [demo_people_user, demo_people_user] = datas walk0 @ new \<and> length new = length [user_entry_of demo_people_user, cursor_entry ''Bottom'' ''B''])"
proof -
  have i: "instr_step ''People'' (JObj [(''type'', JStr ''TimelineAddEntries''), (''entries'', JList [user_entry_of demo_people_user, cursor_entry ''Bottom'' ''B''])]) walk0 =
     Inr \<lparr>datas = [demo_people_user, demo_people_user], cursor_value = Some ''B'', user_results = Some demo_people_user\<rparr>"
    by code_simp
  show ?thesis
    using i people_cursor_duplicates_user [OF _ _ i] by (simp add: add_entries_instr_def)
qed

theorem people_first_entry_unbound_witness:
  "map_of [(''type'', JStr ''TimelineAddEntries''), (''entries'', JList [cursor_entry ''Top'' ''T'', user_entry_of demo_people_user])] ''type''
     = Some (JStr ''TimelineAddEntries'') \<and>
   jget (cursor_entry ''Top'' ''T'') ''content'' = Inr (JObj [(''cursorType'', JStr ''Top''), (''value'', JStr ''T'')]) \<and>
   jin ''itemContent'' (JObj [(''cursorType'', JStr ''Top''), (''value'', JStr ''T'')]) = Inr False \<and>
   bottom_cursor (JObj [(''cursorType'', JStr ''Top''), (''value'', JStr ''T'')]) [] = Inr [] \<and>
   instr_step ''People'' (add_entries_instr [cursor_entry ''Top'' ''T'', user_entry_of demo_people_user]) walk0
     = Inl (UnboundLocalError ''user_results'')"
proof -
  have c: "jget (cursor_entry ''Top'' ''T'') ''content'' = Inr (JObj [(''cursorType'', JStr ''Top''), (''value'', JStr ''T'')])"
    and h: "jin ''itemContent'' (JObj [(''cursorType'', JStr ''Top''), (''value'', JStr ''T'')]) = Inr False"
    and b: "bottom_cursor (JObj [(''cursorType'', JStr ''Top''), (''value'', JStr ''T'')]) [] = Inr []"
    by code_simp+
  have "user_results walk0 = None" by (simp add: walk0_def)
  with people_first_entry_unbound [OF _ _ c h b, of "[(''type'', JStr ''TimelineAddEntries''), (''entries'', JList [cursor_entry ''Top'' ''T'', user_entry_of demo_people_user])]"
      "[user_entry_of demo_people_user]" walk0]
  show ?thesis using c h b by (simp add: add_entries_instr_def)
qed

theorem replace_entry_before_add_unbound_witness:
  "cursor_value walk0 = None \<and>
   map_of [(''type'', JStr ''TimelineReplaceEntry''), (''entry'', cursor_entry ''Bottom'' ''B'')] ''type'' = Some (JStr ''TimelineReplaceEntry'') \<and>
   walk_instrs ''Latest'' [replace_instr ''B'', add_entries_instr [tweet_entry_of demo_media_tweet]] walk0
     = Inl (UnboundLocalError ''cursor_value'')"
proof -
  have "cursor_value walk0 = None" by (simp add: walk0_def)
  with replace_entry_before_add_unbound [of walk0 "[(''type'', JStr ''TimelineReplaceEntry''), (''entry'', cursor_entry ''Bottom'' ''B'')]"
      "''Latest''" "[add_entries_instr [tweet_entry_of demo_media_tweet]]"]
  show ?thesis by (simp add: replace_instr_def)
qed

theorem walk_instrs_appends_witness:
  "walk_instrs ''Latest'' [add_entries_instr [tweet_entry_of demo_media_tweet]] walk0 =
     Inr \<lparr>datas = [tweet_record (JStr ''11'') (JObj []) (JObj [])
                    (JObj [(''full_text'', JStr ''hi''), (''retweeted_status_result'', JObj [])])],
          cursor_value = Some [], user_results = None\<rparr> \<and>
   (\<exists>new. [tweet_record (JStr ''11'') (JObj []) (JObj [])
                    (JObj [(''full_text'', JStr ''hi''), (''retweeted_status_result'', JObj [])])] = datas walk0 @ new)"
proof -
  have e: "walk_instrs ''Latest'' [add_entries_instr [tweet_entry_of demo_media_tweet]] walk0 =
     Inr \<lparr>datas = [tweet_record (JStr ''11'') (JObj []) (JObj [])
                    (JObj [(''full_text'', JStr ''hi''), (''retweeted_status_result'', JObj [])])],
          cursor_value = Some [], user_results = None\<rparr>" by code_simp
  show ?thesis using walk_instrs_appends [OF e] e by simp
qed

theorem walk_skips_unknown_witness:
  "map_of [(''type'', JStr ''TimelineTerminateTimeline'')] ''type'' = Some (JStr ''TimelineTerminateTimeline'') \<and>
   \<not> known_instr (JStr ''TimelineTerminateTimeline'') \<and>
   walk_instrs ''Top'' ([add_entries_instr [cursor_entry ''Bottom'' ''B'']] @ JObj [(''type'', JStr ''TimelineTerminateTimeline'')] # []) walk0
     = walk_instrs ''Top'' ([add_entries_instr [cursor_entry ''Bottom'' ''B'']] @ []) walk0"
  using walk_skips_unknown [of "[(''type'', JStr ''TimelineTerminateTimeline'')]" "JStr ''TimelineTerminateTimeline''"
      "''Top''" "[add_entries_instr [cursor_entry ''Bottom'' ''B'']]" "[]" walk0]
  by (simp add: known_instr_def)

theorem add_entries_instr_cursor_witness:
  "''Latest'' \<in> search_products \<and>
   instr_step ''Latest'' (add_entries_instr [cursor_entry ''Bottom'' ''B1'', cursor_entry ''Top'' ''T'',
       cursor_entry ''Bottom'' ''B2'']) (walk0\<lparr>cursor_value := Some ''old''\<rparr>)
     = Inr \<lparr>datas = [], cursor_value = Some ''B1B2'', user_results = None\<rparr> \<and>
   cursor_value \<lparr>datas = [], cursor_value = Some ''B1B2'', user_results = None\<rparr> = Some ''B1B2''"
proof -
  have e: "instr_step ''Latest'' (JObj [(''type'', JStr ''TimelineAddEntries''), (''entries'', JList
       [cursor_entry ''Bottom'' ''B1'', cursor_entry ''Top'' ''T'', cursor_entry ''Bottom'' ''B2''])])
       (walk0\<lparr>cursor_value := Some ''old''\<rparr>)
     = Inr \<lparr>datas = [], cursor_value = Some ''B1B2'', user_results = None\<rparr>" by code_simp
  have "cursor_value \<lparr>datas = [], cursor_value = Some ''B1B2'', user_results = None\<rparr>
      = Some (concat (map bottom_value [cursor_entry ''Bottom'' ''B1'', cursor_entry ''Top'' ''T'',
       cursor_entry ''Bottom'' ''B2'']))"
    by (rule add_entries_instr_cursor [OF _ _ _ e]) (simp_all add: search_products_def)
  with e show ?thesis by (simp add: search_products_def add_entries_instr_def)
qed

theorem search_result_empty_witness:
  "jpath (answer [add_entries_instr [cursor_entry ''Bottom'' ''B'']])
      [''data'', ''search_by_raw_query'', ''search_timeline'', ''timeline'', ''instructions'']
      = Inr (JList [add_entries_instr [cursor_entry ''Bottom'' ''B'']]) \<and>
   walk_instrs ''Latest'' [add_entries_instr [cursor_entry ''Bottom'' ''B'']] walk0
      = Inr \<lparr>datas = [], cursor_value = Some ''B'', user_results = None\<rparr> \<and>
   search_result ''Latest'' (answer [add_entries_instr [cursor_entry ''Bottom'' ''B'']])
      = Inl (HTTPErrorException not_found_msg)"
proof -
  have p: "jpath (answer [add_entries_instr [cursor_entry ''Bottom'' ''B'']])
      [''data'', ''search_by_raw_query'', ''search_timeline'', ''timeline'', ''instructions'']
      = Inr (JList [add_entries_instr [cursor_entry ''Bottom'' ''B'']])" by (simp add: answer_def)
  have w: "walk_instrs ''Latest'' [add_entries_instr [cursor_entry ''Bottom'' ''B'']] walk0
      = Inr \<lparr>datas = [], cursor_value = Some ''B'', user_results = None\<rparr>" by code_simp
  show ?thesis using search_result_empty [OF p _ w] p w by simp
qed

text \<open>C27. A dict instruction without \<open>type\<close> raises \<open>KeyError\<close>: an instruction of
  unknown kind is skipped only when it names its kind.\<close>

theorem instr_without_type:
  "map_of d ''type'' = None \<Longrightarrow> instr_step p (JObj d) w = Inl (KeyError ''type'')"
  by (simp add: instr_step_def)

theorem instr_without_type_witness:
  "map_of [(''entries'', JList [])] ''type'' = None \<and>
   instr_step ''Top'' (JObj [(''entries'', JList [])]) walk0 = Inl (KeyError ''type'')"
  using instr_without_type [of "[(''entries'', JList [])]" "''Top''" walk0] by simp

end
