(* ===== verification/QueryBuilder.thy ===== *)
theory QueryBuilder
  imports Prelude
begin

text \<open>
  The query side of \<open>XCrawl.search\<close> (src/controller/x/xcrawl.py): the argument checks
  (lines 783-803), \<open>__buildparams\<close> (220-266), \<open>Utility.convertws\<close> (142-149), the
  encoding loop over the parameters with its \<open>rawQuery\<close> repair (817-834) and the URL
  (836-841). The library functions the code calls are modelled from their CPython
  definitions on UTF-8 byte strings: \<open>urllib.parse.quote\<close> (\<open>quote\<close>),
  \<open>urllib.parse.unquote\<close> (\<open>unquote\<close>, with \<open>utf8_fix\<close> for \<open>decode('utf-8', 'replace')\<close>),
  \<open>json.dumps\<close> with its default separators and \<open>ensure_ascii\<close> (\<open>json_dumps\<close>), and the
  \<open>int(str)\<close> conversion of \<open>count\<close> for ASCII digits (\<open>py_int\<close>).
\<close>

section \<open>UTF-8\<close>

text \<open>The lead bytes of CPython's decoder: the length of the sequence and the range of
  its second byte.\<close>

definition seq_info :: "nat \<Rightarrow> (nat \<times> nat \<times> nat) option" where
  "seq_info b =
     (if 0xC2 \<le> b \<and> b \<le> 0xDF then Some (2, 0x80, 0xBF)
      else if b = 0xE0 then Some (3, 0xA0, 0xBF)
      else if 0xE1 \<le> b \<and> b \<le> 0xEC then Some (3, 0x80, 0xBF)
      else if b = 0xED then Some (3, 0x80, 0x9F)
      else if 0xEE \<le> b \<and> b \<le> 0xEF then Some (3, 0x80, 0xBF)
      else if b = 0xF0 then Some (4, 0x90, 0xBF)
      else if 0xF1 \<le> b \<and> b \<le> 0xF3 then Some (4, 0x80, 0xBF)
      else if b = 0xF4 then Some (4, 0x80, 0x8F)
      else None)"

definition is_cont :: "char \<Rightarrow> bool" where
  "is_cont c = (0x80 \<le> (of_char c :: nat) \<and> (of_char c :: nat) \<le> 0xBF)"

text \<open>The bytes the decoder consumes at the front of a non-empty string, and whether
  they form a character (otherwise they are one maximal invalid subpart).\<close>

definition utf8_head :: "string \<Rightarrow> nat \<times> bool" where
  "utf8_head s =
     (case s of
        [] \<Rightarrow> (0, True)
      | c # cs \<Rightarrow>
          (let b = (of_char c :: nat) in
           if b < 0x80 then (1, True)
           else case seq_info b of
                  None \<Rightarrow> (1, False)
                | Some (n, lo, hi) \<Rightarrow>
                    (case cs of
                       [] \<Rightarrow> (1, False)
                     | d # ds \<Rightarrow>
                         if lo \<le> (of_char d :: nat) \<and> (of_char d :: nat) \<le> hi
                         then (let k = length (takeWhile is_cont (take (n - 2) ds)) in
                               if k = n - 2 then (n, True) else (k + 2, False))
                         else (1, False))))"

definition replacement_char :: string where
  "replacement_char = [CHR 0xEF, CHR 0xBF, CHR 0xBD]"

function utf8_fix :: "string \<Rightarrow> string" where
  "utf8_fix s =
     (if s = [] then []
      else (case utf8_head s of (k, ok) \<Rightarrow>
              (if ok then take k s else replacement_char) @ utf8_fix (drop (max k 1) s)))"
  by pat_completeness auto
termination
  by (relation "measure length") auto

function utf8_valid :: "string \<Rightarrow> bool" where
  "utf8_valid s =
     (if s = [] then True
      else (case utf8_head s of (k, ok) \<Rightarrow> ok \<and> utf8_valid (drop (max k 1) s)))"
  by pat_completeness auto
termination
  by (relation "measure length") auto

declare utf8_fix.simps [simp del] utf8_valid.simps [simp del]

text \<open>The code point at the front of a string (the replacement character for an
  invalid subpart).\<close>

definition utf8_cp :: "string \<Rightarrow> nat" where
  "utf8_cp s =
     (case utf8_head s of (k, ok) \<Rightarrow>
        if \<not> ok then 0xFFFD
        else let bs = map (\<lambda>c. of_char c :: nat) (take k s) in
             if k = 1 then hd bs
             else if k = 2 then (bs ! 0 - 0xC0) * 64 + (bs ! 1 - 0x80)
             else if k = 3 then (bs ! 0 - 0xE0) * 4096 + (bs ! 1 - 0x80) * 64 + (bs ! 2 - 0x80)
             else (bs ! 0 - 0xF0) * 262144 + (bs ! 1 - 0x80) * 4096 + (bs ! 2 - 0x80) * 64 + (bs ! 3 - 0x80))"

function utf8_cps :: "string \<Rightarrow> nat list" where
  "utf8_cps s =
     (if s = [] then []
      else (case utf8_head s of (k, ok) \<Rightarrow> utf8_cp s # utf8_cps (drop (max k 1) s)))"
  by pat_completeness auto
termination
  by (relation "measure length") auto

declare utf8_cps.simps [simp del]

section \<open>\<open>urllib.parse.quote\<close> and \<open>unquote\<close>\<close>

text \<open>\<open>quote(s)\<close> with the default \<open>safe='/'\<close>: the unreserved bytes and \<open>/\<close> stay,
  every other byte becomes \<open>%XX\<close> in upper-case hex.\<close>

definition is_safe_byte :: "char \<Rightarrow> bool" where
  "is_safe_byte c = (let b = (of_char c :: nat) in
     (48 \<le> b \<and> b \<le> 57) \<or> (65 \<le> b \<and> b \<le> 90) \<or> (97 \<le> b \<and> b \<le> 122) \<or>
     c \<in> set ''_.-~/'')"

definition hex_upper :: "nat \<Rightarrow> char" where
  "hex_upper n = ''0123456789ABCDEF'' ! n"

definition quote_byte :: "char \<Rightarrow> string" where
  "quote_byte c =
     (if is_safe_byte c then [c]
      else [CHR ''%'', hex_upper ((of_char c :: nat) div 16), hex_upper ((of_char c :: nat) mod 16)])"

definition quote :: "string \<Rightarrow> string" where
  "quote s = concat (map quote_byte s)"

definition hex_val :: "char \<Rightarrow> nat option" where
  "hex_val c = (let b = (of_char c :: nat) in
     if 48 \<le> b \<and> b \<le> 57 then Some (b - 48)
     else if 65 \<le> b \<and> b \<le> 70 then Some (b - 55)
     else if 97 \<le> b \<and> b \<le> 102 then Some (b - 87)
     else None)"

text \<open>\<open>unquote_to_bytes\<close>: a \<open>%\<close> followed by two hex digits is a byte, any other
  \<open>%\<close> stays.\<close>

fun pct_decode :: "string \<Rightarrow> string" where
  "pct_decode [] = []"
| "pct_decode (c # cs) =
     (if c = CHR ''%''
      then (case cs of
              a # b # rest \<Rightarrow>
                (case (hex_val a, hex_val b) of
                   (Some x, Some y) \<Rightarrow> char_of (16 * x + y) # pct_decode rest
                 | _ \<Rightarrow> c # pct_decode cs)
            | _ \<Rightarrow> c # pct_decode cs)
      else c # pct_decode cs)"

definition is_ascii :: "char \<Rightarrow> bool" where
  "is_ascii c = ((of_char c :: nat) < 128)"

text \<open>\<open>unquote\<close>: each maximal ASCII run is percent-decoded and decoded as UTF-8 with
  replacement; the other characters are kept.\<close>

function unq_runs :: "string \<Rightarrow> string" where
  "unq_runs s =
     (if s = [] then []
      else if is_ascii (hd s)
      then utf8_fix (pct_decode (takeWhile is_ascii s)) @ unq_runs (dropWhile is_ascii s)
      else hd s # unq_runs (tl s))"
  by pat_completeness auto
termination
proof (relation "measure length")
  fix s :: string
  assume "s \<noteq> []" and "is_ascii (hd s)"
  then show "(dropWhile is_ascii s, s) \<in> measure length"
    by (cases s) (auto simp: length_dropWhile_le le_imp_less_Suc)
qed auto

declare unq_runs.simps [simp del]

definition unquote :: "string \<Rightarrow> string" where
  "unquote s = (if CHR ''%'' \<notin> set s then s else unq_runs s)"

section \<open>\<open>json.dumps\<close> and \<open>Utility.convertws\<close>\<close>

definition hex_lower :: "nat \<Rightarrow> char" where
  "hex_lower n = ''0123456789abcdef'' ! n"

definition u_escape :: "nat \<Rightarrow> string" where
  "u_escape n = [CHR 0x5C, CHR ''u''] @ map (\<lambda>i. hex_lower ((n div 16 ^ i) mod 16)) [3, 2, 1, 0]"

text \<open>One code point of a str under \<open>ensure_ascii\<close> (\<open>0x5C\<close> is the backslash,
  \<open>0x22\<close> the double quote).\<close>

definition json_escape_cp :: "nat \<Rightarrow> string" where
  "json_escape_cp n =
     (if n = 0x22 then [CHR 0x5C, CHR 0x22] else if n = 0x5C then [CHR 0x5C, CHR 0x5C]
      else if n = 0x0A then [CHR 0x5C, CHR ''n''] else if n = 0x0D then [CHR 0x5C, CHR ''r'']
      else if n = 0x09 then [CHR 0x5C, CHR ''t''] else if n = 0x08 then [CHR 0x5C, CHR ''b'']
      else if n = 0x0C then [CHR 0x5C, CHR ''f'']
      else if 0x20 \<le> n \<and> n \<le> 0x7E then [char_of n]
      else if n < 0x10000 then u_escape n
      else u_escape (0xD800 + (n - 0x10000) div 1024) @ u_escape (0xDC00 + (n - 0x10000) mod 1024))"

definition json_str :: "string \<Rightarrow> string" where
  "json_str s = [CHR 0x22] @ concat (map json_escape_cp (utf8_cps s)) @ [CHR 0x22]"

text \<open>\<open>", ".join(parts)\<close>, the default item separator.\<close>

fun join_sep :: "string list \<Rightarrow> string" where
  "join_sep [] = []"
| "join_sep [x] = x"
| "join_sep (x # y # xs) = x @ '', '' @ join_sep (y # xs)"

fun json_dumps :: "json \<Rightarrow> string" where
  "json_dumps JNull = ''null''"
| "json_dumps (JBool b) = (if b then ''true'' else ''false'')"
| "json_dumps (JInt i) = str_int i"
| "json_dumps (JStr s) = json_str s"
| "json_dumps (JList xs) = ''['' @ join_sep (map json_dumps xs) @ '']''"
| "json_dumps (JObj d) = ''{'' @ join_sep (map (\<lambda>p. json_str (fst p) @ '': '' @ json_dumps (snd p)) d) @ ''}''"

text \<open>\<open>re.sub(r'\s+', '', s)\<close>: every whitespace character goes.\<close>

function strip_ws :: "string \<Rightarrow> string" where
  "strip_ws s =
     (if s = [] then []
      else case find (\<lambda>w. starts_with w s) py_ws of
             Some w \<Rightarrow> strip_ws (drop (length w) s)
           | None \<Rightarrow> hd s # strip_ws (tl s))"
  by pat_completeness auto
termination
proof (relation "measure length")
  fix s w
  assume "s \<noteq> []" and "find (\<lambda>w. starts_with w s) py_ws = Some w"
  then have "w \<noteq> []" by (auto simp: find_Some_iff dest: nth_mem py_ws_nonempty)
  with \<open>s \<noteq> []\<close> show "(drop (length w) s, s) \<in> measure length" by simp
qed auto

declare strip_ws.simps [simp del]

definition convertws :: "json \<Rightarrow> string" where
  "convertws v = strip_ws (json_dumps v)"

section \<open>The arguments of \<open>search\<close>\<close>

text \<open>\<open>int(s)\<close> on a str of ASCII characters: surrounding whitespace, an optional sign,
  digits with single underscores between them.\<close>

fun digits_ok :: "string \<Rightarrow> bool" where
  "digits_ok [] = False"
| "digits_ok [c] = (c \<in> set ''0123456789'')"
| "digits_ok (c # d # cs) = (c \<in> set ''0123456789'' \<and>
     (if d = CHR ''_'' then cs \<noteq> [] \<and> hd cs \<in> set ''0123456789'' \<and> digits_ok cs else digits_ok (d # cs)))"

definition dec_value :: "string \<Rightarrow> int" where
  "dec_value s = foldl (\<lambda>n c. 10 * n + (of_char c - 48)) 0 (filter (\<lambda>c. c \<noteq> CHR ''_'') s)"

definition trim_ws :: "string \<Rightarrow> string" where
  "trim_ws s = rev (dropWhile (\<lambda>c. c \<in> set ascii_ws) (rev (dropWhile (\<lambda>c. c \<in> set ascii_ws) s)))"

definition py_int :: "string \<Rightarrow> int res" where
  "py_int s =
     (let t = trim_ws s in
      if t \<noteq> [] \<and> hd t = CHR ''-'' then
        (if digits_ok (tl t) then Inr (- dec_value (tl t)) else Inl (ValueError ''invalid literal for int()''))
      else if t \<noteq> [] \<and> hd t = CHR ''+'' then
        (if digits_ok (tl t) then Inr (dec_value (tl t)) else Inl (ValueError ''invalid literal for int()''))
      else if digits_ok t then Inr (dec_value t) else Inl (ValueError ''invalid literal for int()''))"

text \<open>Lines 783-803: \<open>rawquery\<close> is quoted, \<open>count\<close> converted from a str (a bool passes
  the \<open>int\<close> check and stays a bool), \<open>cursor\<close> may be \<open>None\<close>. The result holds the
  quoted query, the product, \<open>count\<close> as the JSON value it is dumped as, the cursor.\<close>

definition search_args :: "pyval \<Rightarrow> pyval \<Rightarrow> pyval \<Rightarrow> pyval \<Rightarrow> (string \<times> string \<times> json \<times> string option) res" where
  "search_args rawquery product count cursor =
     (case rawquery of
        PStr r \<Rightarrow>
          (case product of
             PStr p \<Rightarrow>
               bindr (case count of
                        PStr c \<Rightarrow> bindr (py_int c) (\<lambda>n. Inr (JInt n))
                      | PInt n \<Rightarrow> Inr (JInt n)
                      | PBool b \<Rightarrow> Inr (JBool b)
                      | _ \<Rightarrow> Inl (TypeError ''search count'')) (\<lambda>n.
               case cursor of
                 PNone \<Rightarrow> Inr (quote r, p, n, None)
               | PStr c \<Rightarrow> Inr (quote r, p, n, Some c)
               | _ \<Rightarrow> Inl (TypeError ''search cursor''))
           | _ \<Rightarrow> Inl (TypeError ''search product''))
      | _ \<Rightarrow> Inl (TypeError ''search rawquery''))"

section \<open>\<open>__buildparams\<close>\<close>

text \<open>The \<open>variables\<close> dict: \<open>cursor\<close> only when it is truthy (not \<open>None\<close>, not \<open>""\<close>).\<close>

definition build_variables :: "string \<Rightarrow> json \<Rightarrow> string option \<Rightarrow> string \<Rightarrow> json" where
  "build_variables rq count cursor product =
     (case cursor of
        Some c \<Rightarrow> if c \<noteq> []
                  then JObj [(''rawQuery'', JStr rq), (''count'', count), (''cursor'', JStr c),
                             (''querySource'', JStr ''typed_query''), (''product'', JStr product)]
                  else JObj [(''rawQuery'', JStr rq), (''count'', count),
                             (''querySource'', JStr ''typed_query''), (''product'', JStr product)]
      | None \<Rightarrow> JObj [(''rawQuery'', JStr rq), (''count'', count),
                       (''querySource'', JStr ''typed_query''), (''product'', JStr product)])"

definition feature_flags :: "(string \<times> bool) list" where
  "feature_flags =
     [(''responsive_web_graphql_exclude_directive_enabled'', True),
      (''verified_phone_label_enabled'', False),
      (''creator_subscriptions_tweet_preview_api_enabled'', True),
      (''responsive_web_graphql_timeline_navigation_enabled'', True),
      (''responsive_web_graphql_skip_user_profile_image_extensions_enabled'', False),
      (''c9s_tweet_anatomy_moderator_badge_enabled'', True),
      (''tweetypie_unmention_optimization_enabled'', True),
      (''responsive_web_edit_tweet_api_enabled'', True),
      (''graphql_is_translatable_rweb_tweet_is_translatable_enabled'', True),
      (''view_counts_everywhere_api_enabled'', True),
      (''longform_notetweets_consumption_enabled'', True),
      (''responsive_web_twitter_article_tweet_consumption_enabled'', False),
      (''tweet_awards_web_tipping_enabled'', False),
      (''freedom_of_speech_not_reach_fetch_enabled'', True),
      (''standardized_nudges_misinfo'', True),
      (''tweet_with_visibility_results_prefer_gql_limited_actions_policy_enabled'', True),
      (''rweb_video_timestamps_enabled'', True),
      (''longform_notetweets_rich_text_read_enabled'', True),
      (''longform_notetweets_inline_media_enabled'', True),
      (''responsive_web_media_download_video_enabled'', False),
      (''responsive_web_enhance_cards_enabled'', False)]"

definition features_json :: json where
  "features_json = JObj (map (\<lambda>(k, b). (k, JBool b)) feature_flags)"

definition buildparams :: "string \<Rightarrow> json \<Rightarrow> string option \<Rightarrow> string \<Rightarrow> (string \<times> json) list" where
  "buildparams rq count cursor product =
     [(''variables'', build_variables rq count cursor product), (''features'', features_json)]"

section \<open>The encoding loop and the URL\<close>

definition rq_prefix :: string where
  "rq_prefix = [CHR 0x22] @ ''rawQuery'' @ [CHR 0x22, CHR '':'', CHR 0x22]"

text \<open>\<open>re.search(r'"rawQuery":"([^"]+)"', s).group(1)\<close>.\<close>

fun rq_search :: "string \<Rightarrow> string option" where
  "rq_search [] = None"
| "rq_search (c # cs) =
     (let r = drop (length rq_prefix) (c # cs); g = takeWhile (\<lambda>x. x \<noteq> CHR 0x22) r in
      if starts_with rq_prefix (c # cs) \<and> g \<noteq> [] \<and> dropWhile (\<lambda>x. x \<noteq> CHR 0x22) r \<noteq> []
      then Some g else rq_search cs)"

definition fix_rawquery :: "string \<Rightarrow> string" where
  "fix_rawquery s = (case rq_search s of Some g \<Rightarrow> py_replace g (unquote g) s | None \<Rightarrow> s)"

text \<open>\<open>for key in params: params.update({key: convertws(params[key])}); if key ==
  "variables": ...\<close>.\<close>

definition encode_param :: "string \<times> json \<Rightarrow> string \<times> string" where
  "encode_param p =
     (case p of (k, v) \<Rightarrow> (k, if k = ''variables'' then fix_rawquery (convertws v) else convertws v))"

definition search_base :: string where
  "search_base = ''https://twitter.com/i/api/graphql/Aj1nGkALq99Xg3XI0OZBtw/SearchTimeline''"

definition search_url :: "(string \<times> string) list \<Rightarrow> string res" where
  "search_url ps =
     (case (map_of ps ''variables'', map_of ps ''features'') of
        (Some v, Some f) \<Rightarrow> Inr (search_base @ ''?variables='' @ quote v @ ''&features='' @ quote f)
      | (None, _) \<Rightarrow> Inl (KeyError ''variables'')
      | (_, None) \<Rightarrow> Inl (KeyError ''features''))"

text \<open>From the arguments of \<open>search\<close> to the encoded parameters and the URL.\<close>

definition search_query :: "pyval \<Rightarrow> pyval \<Rightarrow> pyval \<Rightarrow> pyval \<Rightarrow> ((string \<times> string) list \<times> string) res" where
  "search_query rawquery product count cursor =
     bindr (search_args rawquery product count cursor) (\<lambda>(rq, p, n, c).
       let ps = map encode_param (buildparams rq n c p) in
       bindr (search_url ps) (\<lambda>url. Inr (ps, url)))"

section \<open>Compact JSON text\<close>

text \<open>The text the specification asks for: the mappings written without whitespace, with
  \<open>,\<close> and \<open>:\<close> as separators. Strings are written verbatim between double quotes
  (\<open>jq\<close>), which is JSON text exactly when they hold no double quote, backslash or
  control character; \<open>plain_json\<close> says that every key and string of a value is
  such a string and holds no whitespace.\<close>

definition json_plain :: "char \<Rightarrow> bool" where
  "json_plain x = (let n = (of_char x :: nat) in 32 \<le> n \<and> n \<le> 126 \<and> n \<noteq> 0x22 \<and> n \<noteq> 0x5C)"

definition jq :: "string \<Rightarrow> string" where
  "jq s = [CHR 0x22] @ s @ [CHR 0x22]"

definition compact_char :: "char \<Rightarrow> bool" where
  "compact_char x = (json_plain x \<and> x \<notin> set ascii_ws)"

definition bare_text :: "string \<Rightarrow> bool" where
  "bare_text s = (\<forall>x \<in> set s. compact_char x \<and> x \<noteq> CHR ''%'')"

fun join_comma :: "string list \<Rightarrow> string" where
  "join_comma [] = []"
| "join_comma [x] = x"
| "join_comma (x # y # xs) = x @ '','' @ join_comma (y # xs)"

fun compact_json :: "json \<Rightarrow> string" where
  "compact_json JNull = ''null''"
| "compact_json (JBool b) = (if b then ''true'' else ''false'')"
| "compact_json (JInt i) = str_int i"
| "compact_json (JStr s) = jq s"
| "compact_json (JList xs) = ''['' @ join_comma (map compact_json xs) @ '']''"
| "compact_json (JObj d) = ''{'' @ join_comma (map (\<lambda>p. jq (fst p) @ '':'' @ compact_json (snd p)) d) @ ''}''"

fun plain_json :: "json \<Rightarrow> bool" where
  "plain_json (JStr s) = (\<forall>x \<in> set s. compact_char x)"
| "plain_json (JList xs) = (\<forall>x \<in> set xs. plain_json x)"
| "plain_json (JObj d) = (\<forall>p \<in> set d. (\<forall>x \<in> set (fst p). compact_char x) \<and> plain_json (snd p))"
| "plain_json _ = True"

text \<open>What \<open>convertws\<close> does to the strings of a value: \<open>text_json\<close> holds when every key
  and string is printable ASCII (no escape needed), \<open>strip_strings\<close> deletes the
  whitespace inside every key and string.\<close>

fun text_json :: "json \<Rightarrow> bool" where
  "text_json (JStr s) = (\<forall>x \<in> set s. json_plain x)"
| "text_json (JList xs) = (\<forall>x \<in> set xs. text_json x)"
| "text_json (JObj d) = (\<forall>p \<in> set d. (\<forall>x \<in> set (fst p). json_plain x) \<and> text_json (snd p))"
| "text_json _ = True"

fun strip_strings :: "json \<Rightarrow> json" where
  "strip_strings (JStr s) = JStr (filter (\<lambda>x. x \<notin> set ascii_ws) s)"
| "strip_strings (JList xs) = JList (map strip_strings xs)"
| "strip_strings (JObj d) = JObj (map (\<lambda>p. (filter (\<lambda>x. x \<notin> set ascii_ws) (fst p), strip_strings (snd p))) d)"
| "strip_strings v = v"

section \<open>Lemmas\<close>

lemma hex_upper_val: "n < 16 \<Longrightarrow> hex_val (hex_upper n) = Some n"
proof -
  assume "n < 16"
  then have "n \<in> {0..<16}" by simp
  also have "{0..<16} = set [0..<16::nat]" by simp
  finally have "n \<in> set [0..<16]" .
  then show ?thesis
    by (simp add: hex_upper_def hex_val_def upt_rec del: upt_Suc) (auto simp: Let_def)
qed

lemma pct_not_safe: "\<not> is_safe_byte CHR ''%''"
  by (simp add: is_safe_byte_def)

lemma pct_decode_quote_byte: "pct_decode (quote_byte c @ t) = c # pct_decode t"
proof (cases "is_safe_byte c")
  case True
  then have "c \<noteq> CHR ''%''" using pct_not_safe by auto
  with True show ?thesis by (simp add: quote_byte_def)
next
  case False
  let ?b = "of_char c :: nat"
  have "?b < 16 * 16" using nat_of_char_less_256 [of c] by simp
  then have lt: "?b div 16 < 16" "?b mod 16 < 16" by (simp_all add: less_mult_imp_div_less)
  have "16 * (?b div 16) + ?b mod 16 = ?b" by simp
  with False lt show ?thesis by (simp add: quote_byte_def hex_upper_val)
qed

lemma pct_decode_quote: "pct_decode (quote s) = s"
  by (induction s) (simp_all add: quote_def pct_decode_quote_byte [of _ "concat _", simplified])

lemma seq_info_len: "seq_info b = Some (n, lo, hi) \<Longrightarrow> 2 \<le> n"
  by (simp add: seq_info_def split: if_splits)

lemma utf8_head_bounds:
  assumes "s \<noteq> []" and "utf8_head s = (k, ok)"
  shows "1 \<le> k \<and> (ok \<longrightarrow> k \<le> length s)"
proof -
  obtain c cs where s: "s = c # cs" using assms(1) by (cases s) auto
  show ?thesis
  proof (cases "(of_char c :: nat) < 0x80")
    case True
    with assms(2) s show ?thesis by (simp add: utf8_head_def)
  next
    case False
    show ?thesis
    proof (cases "seq_info (of_char c)")
      case None
      with False assms(2) s show ?thesis by (simp add: utf8_head_def)
    next
      case (Some t)
      then obtain n lo hi where t: "seq_info (of_char c) = Some (n, lo, hi)" by (cases t) auto
      have n2: "2 \<le> n" using seq_info_len [OF t] .
      have len: "length (takeWhile is_cont (take (n - 2) ds)) \<le> length ds" for ds :: string
        using length_takeWhile_le [of is_cont "take (n - 2) ds"] by simp
      have eq: "length (takeWhile is_cont (take (n - 2) ds)) = n - 2 \<Longrightarrow> n \<le> Suc (Suc (length ds))"
        for ds :: string using len [of ds] n2 by linarith
      from False t assms(2) s n2 eq show ?thesis
        by (auto simp: utf8_head_def Let_def split: list.splits if_splits)
    qed
  qed
qed

lemma utf8_fix_valid: "utf8_valid s \<Longrightarrow> utf8_fix s = s"
proof (induction s rule: utf8_valid.induct)
  case (1 s)
  show ?case
  proof (cases "s = []")
    case True
    then show ?thesis by (simp add: utf8_fix.simps)
  next
    case False
    obtain k ok where h: "utf8_head s = (k, ok)" by (cases "utf8_head s")
    from "1.prems" False h have ok: "ok" and v: "utf8_valid (drop (max k 1) s)"
      by (subst (asm) utf8_valid.simps; simp)+
    from utf8_head_bounds [OF False h] ok have k: "max k 1 = k" by simp
    from "1.IH" [OF False h [symmetric]] v ok have "utf8_fix (drop (max k 1) s) = drop (max k 1) s"
      by simp
    with False h ok k show ?thesis by (subst utf8_fix.simps) simp
  qed
qed

lemma hex_upper_mem: "n < 16 \<Longrightarrow> hex_upper n \<in> set ''0123456789ABCDEF''"
  unfolding hex_upper_def by (rule nth_mem) simp

lemma hex_upper_ascii: "n < 16 \<Longrightarrow> is_ascii (hex_upper n)"
  using hex_upper_mem [of n] by (auto simp: is_ascii_def)

lemma safe_ascii: "is_safe_byte c \<Longrightarrow> is_ascii c"
  by (auto simp: is_safe_byte_def is_ascii_def Let_def)

lemma quote_byte_ascii: "x \<in> set (quote_byte c) \<Longrightarrow> is_ascii x"
proof -
  assume x: "x \<in> set (quote_byte c)"
  have "(of_char c :: nat) < 16 * 16" using nat_of_char_less_256 [of c] by simp
  then have lt: "(of_char c :: nat) div 16 < 16" "(of_char c :: nat) mod 16 < 16"
    by (simp_all add: less_mult_imp_div_less)
  from x lt show ?thesis
    by (auto simp: quote_byte_def safe_ascii hex_upper_ascii split: if_splits) (simp add: is_ascii_def)
qed

lemma quote_ascii: "\<forall>x \<in> set (quote s). is_ascii x"
  by (auto simp: quote_def dest: quote_byte_ascii)

lemma unq_runs_ascii: "\<forall>x \<in> set t. is_ascii x \<Longrightarrow> unq_runs t = utf8_fix (pct_decode t)"
proof (cases "t = []")
  case True
  then show ?thesis by (simp add: unq_runs.simps utf8_fix.simps)
next
  case False
  assume a: "\<forall>x \<in> set t. is_ascii x"
  then have tw: "takeWhile is_ascii t = t" and dw: "dropWhile is_ascii t = []"
    by (simp_all add: takeWhile_eq_all_conv dropWhile_eq_Nil_conv)
  have h: "is_ascii (hd t)" using False a by simp
  have "unq_runs t = utf8_fix (pct_decode (takeWhile is_ascii t)) @ unq_runs (dropWhile is_ascii t)"
    using False h by (subst unq_runs.simps) simp
  also have "\<dots> = utf8_fix (pct_decode t)" by (simp add: tw dw unq_runs.simps)
  finally show ?thesis .
qed

lemma quote_no_pct: "CHR ''%'' \<notin> set (quote s) \<Longrightarrow> quote s = s"
  by (induction s) (auto simp: quote_def quote_byte_def split: if_splits)

theorem unquote_quote: "utf8_valid s \<Longrightarrow> unquote (quote s) = s"
proof (cases "CHR ''%'' \<in> set (quote s)")
  case True
  assume "utf8_valid s"
  with True show ?thesis
    by (simp add: unquote_def unq_runs_ascii [OF quote_ascii] pct_decode_quote utf8_fix_valid)
next
  case False
  with quote_no_pct [OF False] show ?thesis by (simp add: unquote_def)
qed

lemma utf8_head_ascii: "is_ascii x \<Longrightarrow> utf8_head (x # xs) = (1, True)"
  by (simp add: utf8_head_def is_ascii_def)

lemma utf8_cps_ascii: "\<forall>x \<in> set s. is_ascii x \<Longrightarrow> utf8_cps s = map (\<lambda>x. of_char x) s"
proof (induction s)
  case Nil
  then show ?case by (simp add: utf8_cps.simps)
next
  case (Cons x xs)
  then have "utf8_head (x # xs) = (1, True)" by (simp add: utf8_head_ascii)
  with Cons show ?case
    by (subst utf8_cps.simps) (simp add: utf8_cp_def is_ascii_def)
qed

lemma utf8_valid_ascii: "\<forall>x \<in> set s. is_ascii x \<Longrightarrow> utf8_valid s"
proof (induction s)
  case Nil
  then show ?case by (simp add: utf8_valid.simps)
next
  case (Cons x xs)
  then show ?case by (subst utf8_valid.simps) (simp add: utf8_head_ascii)
qed

lemma json_escape_plain: "json_plain x \<Longrightarrow> json_escape_cp (of_char x) = [x]"
  unfolding json_plain_def json_escape_cp_def Let_def by simp

lemma plain_ascii: "json_plain x \<Longrightarrow> is_ascii x"
  by (simp add: json_plain_def is_ascii_def Let_def)

lemma concat_escape_plain:
  "\<forall>x \<in> set s. json_plain x \<Longrightarrow> concat (map json_escape_cp (map (\<lambda>x. of_char x) s)) = s"
  by (induction s) (simp_all add: json_escape_plain)

lemma json_str_plain:
  assumes "\<forall>x \<in> set s. json_plain x"
  shows "json_str s = [CHR 0x22] @ s @ [CHR 0x22]"
proof -
  have "\<forall>x \<in> set s. is_ascii x" using assms by (simp add: plain_ascii)
  then have "utf8_cps s = map (\<lambda>x. of_char x) s" by (rule utf8_cps_ascii)
  with concat_escape_plain [OF assms] show ?thesis by (simp add: json_str_def)
qed

lemma find_append_None: "find P xs = None \<Longrightarrow> find P (xs @ ys) = find P ys"
  by (induction xs) (auto split: if_splits)

lemma find_append_Some: "find P xs = Some x \<Longrightarrow> find P (xs @ ys) = Some x"
  by (induction xs) (auto split: if_splits)

lemma find_single:
  "find (\<lambda>w. starts_with w (x # xs)) (map (\<lambda>c. [c]) cs) = (if x \<in> set cs then Some [x] else None)"
  by (induction cs) (auto simp: starts_with_def)

lemma multi_ws_lead: "\<forall>w \<in> set py_ws_multi. w \<noteq> [] \<and> \<not> is_ascii (hd w)"
  by (simp add: py_ws_multi_def is_ascii_def)

lemma find_multi_none:
  assumes "is_ascii x"
  shows "find (\<lambda>w. starts_with w (x # xs)) py_ws_multi = None"
proof -
  have "\<not> starts_with w (x # xs)" if "w \<in> set py_ws_multi" for w
  proof -
    from multi_ws_lead that obtain c cs where "w = c # cs" and "\<not> is_ascii c"
      by (cases w) auto
    with assms show ?thesis by (auto simp: starts_with_def)
  qed
  then show ?thesis by (simp add: find_None_iff)
qed

lemma find_ws_ascii:
  assumes "is_ascii x"
  shows "find (\<lambda>w. starts_with w (x # xs)) py_ws = (if x \<in> set ascii_ws then Some [x] else None)"
proof (cases "x \<in> set ascii_ws")
  case True
  then show ?thesis unfolding py_ws_def by (simp add: find_append_Some find_single)
next
  case False
  then show ?thesis unfolding py_ws_def using find_multi_none [OF assms]
    by (simp add: find_append_None find_single)
qed

lemma strip_ws_ascii: "\<forall>x \<in> set s. is_ascii x \<Longrightarrow> strip_ws s = filter (\<lambda>x. x \<notin> set ascii_ws) s"
proof (induction s)
  case Nil
  then show ?case by (simp add: strip_ws.simps)
next
  case (Cons x xs)
  then show ?case by (subst strip_ws.simps) (simp add: find_ws_ascii)
qed

lemma digit_chars_table: "\<forall>k\<in>set [0..<10]. char_of (48 + k::nat) \<in> set ''0123456789''"
  by code_simp

lemma digit_char_mem: "(k::nat) < 10 \<Longrightarrow> char_of (48 + k) \<in> set ''0123456789''"
  using digit_chars_table by simp

lemma digits_nat_small: "n < 10 \<Longrightarrow> digits_nat n = [char_of (48 + n)]" by (subst digits_nat.simps) simp
lemma digits_nat_large: "\<not> n < 10 \<Longrightarrow> digits_nat n = digits_nat (n div 10) @ [char_of (48 + n mod 10)]" by (subst digits_nat.simps) simp
lemma digits_nat_chars: "set (digits_nat n) \<subseteq> set ''0123456789''"
proof (induction n rule: digits_nat.induct)
  case (1 n)
  show ?case
  proof (cases "n < 10")
    case True
    then show ?thesis using digits_nat_small digit_char_mem [OF True] by simp
  next
    case False
    then show ?thesis using digits_nat_large [OF False] digit_char_mem [of "n mod 10"] "1.IH" [OF False] by simp
  qed
qed
lemma str_int_chars: "set (str_int i) \<subseteq> set ''-0123456789''"
  using digits_nat_chars [of "nat (- i)"] digits_nat_chars [of "nat i"]
  unfolding str_int_def by (simp add: subset_iff)

lemma starts_with_set: "starts_with q s \<Longrightarrow> set q \<subseteq> set s"
  unfolding starts_with_def by (metis set_take_subset)

lemma not_substr_notin: "x \<in> set q \<Longrightarrow> x \<notin> set s \<Longrightarrow> \<not> is_substr q s"
proof (induction s)
  case (Cons a s)
  then show ?case using starts_with_set [of q "a # s"] by auto
qed auto

lemma compact_charI:
  assumes "33 \<le> (of_char x :: nat)" and "(of_char x :: nat) \<le> 126"
    and "(of_char x :: nat) \<noteq> 34" and "(of_char x :: nat) \<noteq> 92"
  shows "compact_char x"
proof -
  have "x \<notin> set ascii_ws" using assms(1) by (auto simp: ascii_ws_def)
  with assms show ?thesis by (simp add: compact_char_def json_plain_def)
qed

lemma quote_byte_chars:
  assumes "x \<in> set (quote_byte c)"
  shows "is_safe_byte x \<or> x = CHR ''%'' \<or> x \<in> set ''0123456789ABCDEF''"
proof (cases "is_safe_byte c")
  case False
  have "(of_char c :: nat) div 16 < 16" and "(of_char c :: nat) mod 16 < 16"
    using nat_of_char_less_256 [of c] by (simp_all add: div_less_iff_less_mult)
  then have "hex_upper (of_char c div 16) \<in> set ''0123456789ABCDEF''"
    and "hex_upper (of_char c mod 16) \<in> set ''0123456789ABCDEF''"
    by (simp_all only: hex_upper_mem)
  moreover note assms
  ultimately show ?thesis using False unfolding quote_byte_def by auto
qed (use assms in \<open>simp add: quote_byte_def\<close>)

lemma safe_compact: "is_safe_byte x \<Longrightarrow> compact_char x"
  by (rule compact_charI) (auto simp: is_safe_byte_def Let_def)

lemma quote_compact: "x \<in> set (quote s) \<Longrightarrow> compact_char x"
proof -
  assume "x \<in> set (quote s)"
  then obtain c where "x \<in> set (quote_byte c)" by (auto simp: quote_def)
  then have "is_safe_byte x \<or> x = CHR ''%'' \<or> x \<in> set ''0123456789ABCDEF''"
    by (rule quote_byte_chars)
  then show ?thesis
  proof (elim disjE)
    assume "is_safe_byte x"
    then show ?thesis by (rule safe_compact)
  qed (auto simp: compact_char_def json_plain_def ascii_ws_def)
qed

lemma dq_not_safe: "\<not> is_safe_byte (CHR 0x22)"
  by (simp add: is_safe_byte_def)

lemma dq_notin_quote: "CHR 0x22 \<notin> set (quote s)"
proof
  assume "CHR 0x22 \<in> set (quote s)"
  then obtain c where "CHR 0x22 \<in> set (quote_byte c)" by (auto simp: quote_def)
  then show False using quote_byte_chars dq_not_safe by fastforce
qed

lemma quote_Nil_iff [simp]: "quote s = [] \<longleftrightarrow> s = []"
  by (cases s) (simp_all add: quote_def quote_byte_def)

lemma rq_search_prefix:
  assumes "q \<noteq> []" and "CHR 0x22 \<notin> set q"
  shows "rq_search (CHR ''{'' # rq_prefix @ q @ CHR 0x22 # B) = Some q"
proof -
  from assms(2) have "\<And>x. x \<in> set q \<Longrightarrow> x \<noteq> CHR 0x22" by auto
  then have tw: "takeWhile (\<lambda>x. x \<noteq> CHR 0x22) (q @ CHR 0x22 # B) = q"
    and dw: "dropWhile (\<lambda>x. x \<noteq> CHR 0x22) (q @ CHR 0x22 # B) = CHR 0x22 # B"
    by (simp_all add: takeWhile_append2 dropWhile_append2)
  have "rq_search (rq_prefix @ q @ CHR 0x22 # B) = Some q"
    using assms(1) tw dw by (simp add: rq_prefix_def starts_with_def)
  then show ?thesis by (simp add: rq_prefix_def starts_with_def)
qed

lemma replace_ne_at: "old \<noteq> [] \<Longrightarrow> replace_ne old new (old @ t) = new @ replace_ne old new t"
  by (subst replace_ne.simps) simp

lemma fix_rawquery_repair:
  assumes "r \<noteq> []" and "utf8_valid r" and "CHR ''%'' \<notin> set B"
  shows "fix_rawquery (CHR ''{'' # rq_prefix @ quote r @ CHR 0x22 # B) = CHR ''{'' # rq_prefix @ r @ CHR 0x22 # B"
proof -
  define q where "q = quote r"
  have q: "q \<noteq> []" "CHR 0x22 \<notin> set q" using assms(1) dq_notin_quote by (simp_all add: q_def)
  then have "rq_search (CHR ''{'' # rq_prefix @ q @ CHR 0x22 # B) = Some q" by (rule rq_search_prefix)
  moreover have "unquote q = r" using assms(2) by (simp add: q_def unquote_quote)
  ultimately have fx: "fix_rawquery (CHR ''{'' # rq_prefix @ q @ CHR 0x22 # B) =
      py_replace q r (CHR ''{'' # rq_prefix @ q @ CHR 0x22 # B)"
    by (simp add: fix_rawquery_def)
  show ?thesis
  proof (cases "CHR ''%'' \<in> set q")
    case True
    define pre where "pre = CHR ''{'' # CHR 0x22 # ''rawQuery'' @ [CHR 0x22, CHR '':'']"
    have split: "CHR ''{'' # rq_prefix @ s = pre @ CHR 0x22 # s" for s
      by (simp add: pre_def rq_prefix_def)
    have "\<not> is_substr q pre" by (rule not_substr_notin [OF True]) (simp add: pre_def)
    moreover have "\<not> is_substr q (CHR 0x22 # B)" by (rule not_substr_notin [OF True]) (simp add: assms(3))
    ultimately have "replace_ne q r (pre @ CHR 0x22 # q @ CHR 0x22 # B) = pre @ CHR 0x22 # r @ CHR 0x22 # B"
      using q by (simp add: replace_ne_append_sep replace_ne_at replace_ne_no_occ)
    with fx q(1) show ?thesis by (simp add: split py_replace_def q_def)
  next
    case False
    then have "q = r" unfolding q_def by (rule quote_no_pct)
    with fx q(1) show ?thesis by (simp add: q_def)
  qed
qed


lemma set_join_sep: "set (join_sep xs) \<subseteq> (\<Union>x \<in> set xs. set x) \<union> set '', ''"
  by (induction xs rule: join_sep.induct) auto

lemma filter_join_sep:
  "filter (\<lambda>x. x \<notin> set ascii_ws) (join_sep xs) = join_comma (map (filter (\<lambda>x. x \<notin> set ascii_ws)) xs)"
  by (induction xs rule: join_sep.induct) (simp_all add: ascii_ws_def)

lemma join_sep_ascii:
  "(\<And>y. y \<in> set ys \<Longrightarrow> \<forall>x \<in> set y. is_ascii x) \<Longrightarrow> \<forall>x \<in> set (join_sep ys). is_ascii x"
  using set_join_sep [of ys] by (fastforce simp: is_ascii_def)

lemma str_int_compact: "x \<in> set (str_int i) \<Longrightarrow> is_ascii x \<and> x \<notin> set ascii_ws"
  using str_int_chars [of i] by (auto simp: is_ascii_def ascii_ws_def)

lemma json_str_text:
  assumes "\<forall>x \<in> set s. json_plain x"
  shows "(\<forall>x \<in> set (json_str s). is_ascii x) \<and>
    filter (\<lambda>x. x \<notin> set ascii_ws) (json_str s) = jq (filter (\<lambda>x. x \<notin> set ascii_ws) s)"
proof -
  have "json_str s = [CHR 0x22] @ s @ [CHR 0x22]" and "\<forall>x \<in> set s. is_ascii x"
    using assms by (simp_all add: json_str_plain plain_ascii)
  then show ?thesis by (auto simp: jq_def is_ascii_def ascii_ws_def)
qed

lemma json_dumps_text:
  "text_json v \<Longrightarrow> (\<forall>x \<in> set (json_dumps v). is_ascii x) \<and>
     filter (\<lambda>x. x \<notin> set ascii_ws) (json_dumps v) = compact_json (strip_strings v)"
proof (induction v rule: json_dumps.induct)
  case (3 i)
  then show ?case using str_int_compact [of _ i] by auto
next
  case (4 s)
  then show ?case by (simp add: json_str_text)
next
  case (5 xs)
  then have "\<And>y. y \<in> set (map json_dumps xs) \<Longrightarrow> \<forall>x \<in> set y. is_ascii x" by auto
  then have "\<forall>x \<in> set (join_sep (map json_dumps xs)). is_ascii x" by (rule join_sep_ascii)
  moreover have m: "map (filter (\<lambda>x. x \<notin> set ascii_ws) \<circ> json_dumps) xs = map (compact_json \<circ> strip_strings) xs"
    using "5" by auto
  moreover have "CHR ''['' \<notin> set ascii_ws" and "CHR '']'' \<notin> set ascii_ws"
    by (simp_all add: ascii_ws_def)
  ultimately show ?case by (simp add: filter_join_sep is_ascii_def m)
next
  case (6 d)
  let ?item = "\<lambda>p. json_str (fst p) @ '': '' @ json_dumps (snd p)"
  let ?out = "\<lambda>p. jq (filter (\<lambda>x. x \<notin> set ascii_ws) (fst p)) @ '':'' @ compact_json (strip_strings (snd p))"
  have item: "(\<forall>x \<in> set (?item p). is_ascii x) \<and> filter (\<lambda>x. x \<notin> set ascii_ws) (?item p) = ?out p"
    if "p \<in> set d" for p
  proof -
    have "text_json (snd p)" and "\<forall>x \<in> set (fst p). json_plain x" using that "6.prems" by auto
    then have "(\<forall>x \<in> set (json_dumps (snd p)). is_ascii x) \<and>
        filter (\<lambda>x. x \<notin> set ascii_ws) (json_dumps (snd p)) = compact_json (strip_strings (snd p))"
      and "(\<forall>x \<in> set (json_str (fst p)). is_ascii x) \<and>
        filter (\<lambda>x. x \<notin> set ascii_ws) (json_str (fst p)) = jq (filter (\<lambda>x. x \<notin> set ascii_ws) (fst p))"
      using "6.IH" [OF that] json_str_text by simp_all
    moreover have "CHR '':'' \<notin> set ascii_ws" and "CHR '' '' \<in> set ascii_ws"
      by (simp_all add: ascii_ws_def)
    ultimately show ?thesis by (auto simp: is_ascii_def)
  qed
  then have "\<And>y. y \<in> set (map ?item d) \<Longrightarrow> \<forall>x \<in> set y. is_ascii x" by auto
  then have "\<forall>x \<in> set (join_sep (map ?item d)). is_ascii x" by (rule join_sep_ascii)
  moreover have m: "map (filter (\<lambda>x. x \<notin> set ascii_ws) \<circ> ?item) d = map ?out d"
    using item by auto
  moreover have "CHR ''{'' \<notin> set ascii_ws" and "CHR ''}'' \<notin> set ascii_ws"
    by (simp_all add: ascii_ws_def)
  moreover have "compact_json (strip_strings (JObj d)) = ''{'' @ join_comma (map ?out d) @ ''}''"
    by (simp add: comp_def)
  ultimately show ?case by (simp only: json_dumps.simps) (simp add: filter_join_sep is_ascii_def m del: append.simps)
qed (simp_all add: is_ascii_def ascii_ws_def)

lemma plain_strip: "plain_json v \<Longrightarrow> text_json v \<and> strip_strings v = v"
proof (induction v rule: plain_json.induct)
  case (1 s)
  then show ?case by (simp add: compact_char_def filter_id_conv)
next
  case (2 xs)
  then show ?case by (auto intro: map_idI)
next
  case (3 d)
  then have "\<forall>p \<in> set d. (\<forall>x \<in> set (fst p). json_plain x) \<and> text_json (snd p)"
    and "map (\<lambda>p. (filter (\<lambda>x. x \<notin> set ascii_ws) (fst p), strip_strings (snd p))) d = d"
    by (auto simp: compact_char_def filter_id_conv intro!: map_idI)
  then show ?case by simp
qed simp_all

lemma json_dumps_compact:
  "plain_json v \<Longrightarrow> (\<forall>x \<in> set (json_dumps v). is_ascii x) \<and>
     filter (\<lambda>x. x \<notin> set ascii_ws) (json_dumps v) = compact_json v"
  using json_dumps_text plain_strip by metis

lemma convertws_strips: "text_json v \<Longrightarrow> convertws v = compact_json (strip_strings v)"
  using json_dumps_text [of v] by (simp add: convertws_def strip_ws_ascii)

lemma convertws_compact: "plain_json v \<Longrightarrow> convertws v = compact_json v"
  using json_dumps_compact [of v] by (simp add: convertws_def strip_ws_ascii)


lemma take_takeWhile_full:
  "length (takeWhile is_cont (take m ds)) = m \<Longrightarrow> take m (ds @ t) = take m ds"
proof -
  assume "length (takeWhile is_cont (take m ds)) = m"
  moreover have "length (takeWhile is_cont (take m ds)) \<le> length (take m ds)"
    by (rule length_takeWhile_le)
  ultimately have "m \<le> length ds" by simp
  then show ?thesis by simp
qed

lemma utf8_head_append:
  assumes "s \<noteq> []" and "utf8_head s = (k, True)"
  shows "utf8_head (s @ t) = (k, True)"
proof -
  obtain c cs where s: "s = c # cs" using assms(1) by (cases s) auto
  show ?thesis
    using assms(2) unfolding s utf8_head_def
    by (auto simp: Let_def take_takeWhile_full simp del: take_append split: option.splits list.splits if_splits)
qed

lemma utf8_valid_append: "utf8_valid s \<Longrightarrow> utf8_valid t \<Longrightarrow> utf8_valid (s @ t)"
proof (induction s rule: utf8_valid.induct)
  case (1 s)
  show ?case
  proof (cases "s = []")
    case False
    obtain k ok where h: "utf8_head s = (k, ok)" by fastforce
    with False "1.prems"(1) have ok: "ok" and v: "utf8_valid (drop (max k 1) s)"
      by (subst (asm) utf8_valid.simps, simp)+
    have b: "1 \<le> k \<and> k \<le> length s" using utf8_head_bounds [OF False h] ok by simp
    have "utf8_head (s @ t) = (k, True)" using utf8_head_append [OF False] h ok by simp
    moreover have "utf8_valid (drop (max k 1) s @ t)" by (rule "1.IH" [OF False h [symmetric] v "1.prems"(2)])
    ultimately show ?thesis using False b by (subst utf8_valid.simps) simp
  qed (use "1.prems" in simp)
qed


lemma vars_keys_compact:
  "\<forall>k \<in> set [''rawQuery'', ''count'', ''cursor'', ''querySource'', ''product'', ''typed_query''].
     \<forall>x \<in> set k. compact_char x"
  by code_simp

lemma features_plain: "plain_json features_json"
  by code_simp

lemma bare_compact: "bare_text s \<Longrightarrow> \<forall>x \<in> set s. compact_char x"
  by (simp add: bare_text_def)

lemma build_variables_plain:
  assumes "\<forall>x \<in> set rq. compact_char x" and "bare_text p" and "pred_option bare_text cur"
  shows "plain_json (build_variables rq (JInt n) cur p)"
  using assms vars_keys_compact bare_compact
  by (auto simp: build_variables_def split: option.splits)

lemma str_int_no_pct: "CHR ''%'' \<notin> set (str_int n)"
  using str_int_chars [of n] by auto


section \<open>The query of \<open>search\<close>\<close>

lemma build_variables_empty_cursor: "build_variables q cnt (Some []) p = build_variables q cnt None p"
  by (simp add: build_variables_def)

lemma build_variables_none_text:
  "compact_json (build_variables q (JInt n) None p) = CHR ''{'' # rq_prefix @ q @ CHR 0x22 #
     ('','' @ jq ''count'' @ '':'' @ str_int n @ '','' @ jq ''querySource'' @ '':'' @ jq ''typed_query'' @
      '','' @ jq ''product'' @ '':'' @ jq p @ ''}'')"
  by (simp add: build_variables_def rq_prefix_def jq_def)

lemma build_variables_cursor_text:
  "c \<noteq> [] \<Longrightarrow> compact_json (build_variables q (JInt n) (Some c) p) = CHR ''{'' # rq_prefix @ q @ CHR 0x22 #
     ('','' @ jq ''count'' @ '':'' @ str_int n @ '','' @ jq ''cursor'' @ '':'' @ jq c @
      '','' @ jq ''querySource'' @ '':'' @ jq ''typed_query'' @ '','' @ jq ''product'' @ '':'' @ jq p @ ''}'')"
  by (simp add: build_variables_def rq_prefix_def jq_def)

lemma build_variables_text:
  assumes "bare_text p" and "pred_option bare_text cur"
  obtains B where "\<And>q. compact_json (build_variables q (JInt n) cur p) = CHR ''{'' # rq_prefix @ q @ CHR 0x22 # B"
    and "CHR ''%'' \<notin> set B"
proof -
  have np: "CHR ''%'' \<notin> set (jq p)" and nn: "CHR ''%'' \<notin> set (str_int n)"
    using assms(1) str_int_no_pct by (auto simp: jq_def bare_text_def)
  show ?thesis
  proof (cases "cur = None \<or> cur = Some []")
    case True
    define B where "B = '','' @ jq ''count'' @ '':'' @ str_int n @ '','' @ jq ''querySource'' @ '':'' @
      jq ''typed_query'' @ '','' @ jq ''product'' @ '':'' @ jq p @ ''}''"
    have "build_variables q (JInt n) cur p = build_variables q (JInt n) None p" for q
      using True build_variables_empty_cursor by auto
    then have "compact_json (build_variables q (JInt n) cur p) = CHR ''{'' # rq_prefix @ q @ CHR 0x22 # B" for q
      by (simp only: B_def build_variables_none_text)
    moreover have "CHR ''%'' \<notin> set B" using np nn by (simp add: B_def jq_def)
    ultimately show ?thesis by (rule that)
  next
    case False
    then obtain c where c: "cur = Some c" "c \<noteq> []" by auto
    with assms(2) have nc: "CHR ''%'' \<notin> set (jq c)" by (auto simp: jq_def bare_text_def)
    define B where "B = '','' @ jq ''count'' @ '':'' @ str_int n @ '','' @ jq ''cursor'' @ '':'' @ jq c @
      '','' @ jq ''querySource'' @ '':'' @ jq ''typed_query'' @ '','' @ jq ''product'' @ '':'' @ jq p @ ''}''"
    have "compact_json (build_variables q (JInt n) cur p) = CHR ''{'' # rq_prefix @ q @ CHR 0x22 # B" for q
      using c(1) build_variables_cursor_text [OF c(2)] by (simp only: B_def)
    moreover have "CHR ''%'' \<notin> set B" using np nn nc by (simp add: B_def jq_def)
    ultimately show ?thesis by (rule that)
  qed
qed


lemma search_args_ok:
  "search_args (PStr r) (PStr p) (PInt n) (case cur of None \<Rightarrow> PNone | Some c \<Rightarrow> PStr c) =
     Inr (quote r, p, JInt n, cur)"
  by (cases cur) (simp_all add: search_args_def)

lemma variables_repaired:
  assumes "utf8_valid r" and "r \<noteq> []" and "bare_text p" and "pred_option bare_text cur"
  shows "fix_rawquery (convertws (build_variables (quote r) (JInt n) cur p)) =
           compact_json (build_variables r (JInt n) cur p)"
proof -
  have "plain_json (build_variables (quote r) (JInt n) cur p)"
    using assms(3,4) by (intro build_variables_plain) (auto dest: quote_compact)
  then have c: "convertws (build_variables (quote r) (JInt n) cur p) =
      compact_json (build_variables (quote r) (JInt n) cur p)"
    by (rule convertws_compact)
  obtain B where B: "\<And>q. compact_json (build_variables q (JInt n) cur p) = CHR ''{'' # rq_prefix @ q @ CHR 0x22 # B"
    and np: "CHR ''%'' \<notin> set B"
    using build_variables_text [OF assms(3,4)] by blast
  show ?thesis unfolding c B using assms(2,1) np by (rule fix_rawquery_repair)
qed

lemma search_query_plain:
  assumes "utf8_valid r" and "r \<noteq> []" and "bare_text p" and "pred_option bare_text cur"
  shows "search_query (PStr r) (PStr p) (PInt n) (case cur of None \<Rightarrow> PNone | Some c \<Rightarrow> PStr c) =
     Inr ([(''variables'', compact_json (build_variables r (JInt n) cur p)),
           (''features'', compact_json features_json)],
          search_base @ ''?variables='' @ quote (compact_json (build_variables r (JInt n) cur p)) @
          ''&features='' @ quote (compact_json features_json))"
  using variables_repaired [OF assms, of n] convertws_compact [OF features_plain]
  by (simp add: search_query_def search_args_ok buildparams_def encode_param_def search_url_def)

lemma compact_json_ascii: "plain_json v \<Longrightarrow> \<forall>x \<in> set (compact_json v). is_ascii x"
  using json_dumps_compact [of v] by (metis filter_is_subset subsetD)

lemma variables_text_valid:
  assumes "utf8_valid r" and "bare_text p" and "pred_option bare_text cur"
  shows "utf8_valid (compact_json (build_variables r (JInt n) cur p))"
proof -
  obtain B where B: "\<And>q. compact_json (build_variables q (JInt n) cur p) = CHR ''{'' # rq_prefix @ q @ CHR 0x22 # B"
    and "CHR ''%'' \<notin> set B"
    using build_variables_text [OF assms(2,3)] by blast
  have "plain_json (build_variables [] (JInt n) cur p)"
    using assms(2,3) by (intro build_variables_plain) auto
  then have "\<forall>x \<in> set (compact_json (build_variables [] (JInt n) cur p)). is_ascii x"
    by (rule compact_json_ascii)
  then have a: "\<forall>x \<in> set (CHR ''{'' # rq_prefix). is_ascii x" and b: "\<forall>x \<in> set (CHR 0x22 # B). is_ascii x"
    unfolding B by auto
  have "utf8_valid ((CHR ''{'' # rq_prefix) @ r @ (CHR 0x22 # B))"
    using utf8_valid_ascii [OF a] utf8_valid_ascii [OF b] assms(1) by (intro utf8_valid_append)
  then show ?thesis unfolding B by simp
qed


text \<open>C8. Refinement of the query builder: for a caller query that is valid UTF-8 and
  non-empty, and a cursor and product made of printable characters without whitespace or
  percent signs, \<open>search\<close> sends as \<open>variables\<close> exactly the compact JSON text of the
  variables dict holding the caller's raw query verbatim, as \<open>features\<close> the compact
  text of the feature table, both percent-encoded in the URL; decoding the URL parameter
  gives the variables text back.\<close>

theorem search_query_refines:
  assumes "utf8_valid r" and "r \<noteq> []" and "bare_text c" and "bare_text p"
  shows "search_query (PStr r) (PStr p) (PInt n) (PStr c) =
       Inr ([(''variables'', compact_json (build_variables r (JInt n) (Some c) p)),
             (''features'', compact_json features_json)],
            search_base @ ''?variables='' @ quote (compact_json (build_variables r (JInt n) (Some c) p)) @
            ''&features='' @ quote (compact_json features_json)) \<and>
     unquote (quote (compact_json (build_variables r (JInt n) (Some c) p))) =
       compact_json (build_variables r (JInt n) (Some c) p)"
proof
  show "search_query (PStr r) (PStr p) (PInt n) (PStr c) = Inr ([(''variables'', compact_json (build_variables r (JInt n) (Some c) p)),
             (''features'', compact_json features_json)],
            search_base @ ''?variables='' @ quote (compact_json (build_variables r (JInt n) (Some c) p)) @
            ''&features='' @ quote (compact_json features_json))"
    using search_query_plain [OF assms(1,2,4), of "Some c"] assms(3) by simp
  show "unquote (quote (compact_json (build_variables r (JInt n) (Some c) p))) =
       compact_json (build_variables r (JInt n) (Some c) p)"
    using variables_text_valid [OF assms(1,4), of "Some c"] assms(3) by (simp add: unquote_quote)
qed

text \<open>A request with \<open>cursor=None\<close> or an empty cursor sends variables without a
  \<open>cursor\<close> key: rawQuery, count, querySource and product, in this order.\<close>

theorem search_query_omits_cursor:
  assumes "utf8_valid r" and "r \<noteq> []" and "bare_text p" and "cursor = PNone \<or> cursor = PStr []"
  shows "\<exists>url. search_query (PStr r) (PStr p) (PInt n) cursor =
     Inr ([(''variables'', compact_json (JObj [(''rawQuery'', JStr r), (''count'', JInt n),
             (''querySource'', JStr ''typed_query''), (''product'', JStr p)])),
           (''features'', compact_json features_json)], url)"
proof -
  have "bare_text []" by (simp add: bare_text_def)
  from assms(4) this obtain cur where cur: "cursor = (case cur of None \<Rightarrow> PNone | Some c \<Rightarrow> PStr c)"
    and "pred_option bare_text cur" and "cur = None \<or> cur = Some []"
    by (metis option.case(1) option.case(2) option.pred_inject(1) option.pred_inject(2))
  with search_query_plain [OF assms(1,2,3), of cur n] show ?thesis
    by (auto simp: build_variables_def)
qed


lemma digits_ok_digits: "s \<noteq> [] \<Longrightarrow> set s \<subseteq> set ''0123456789'' \<Longrightarrow> digits_ok s"
  by (induction s rule: digits_ok.induct) auto

lemma of_char_digit:
  assumes "(k::nat) < 10"
  shows "(of_char (char_of (48 + k)) :: int) = 48 + int k"
proof -
  have "(of_char (char_of (48 + k)) :: nat) = 48 + k" using assms by (simp add: take_bit_eq_mod)
  then have "int (of_char (char_of (48 + k))) = 48 + int k" by simp
  then show ?thesis by (simp only: of_nat_of_char)
qed

lemma dec_value_digits_nat: "dec_value (digits_nat m) = int m"
proof (induction m rule: digits_nat.induct)
  case (1 m)
  have nu: "CHR ''_'' \<notin> set (digits_nat k)" for k using digits_nat_chars [of k] by auto
  show ?case
  proof (cases "m < 10")
    case True
    moreover have "char_of (48 + m) \<noteq> CHR ''_''" using digit_char_mem [OF True] by auto
    ultimately show ?thesis by (simp add: digits_nat_small dec_value_def of_char_digit)
  next
    case False
    have f: "filter (\<lambda>c. c \<noteq> CHR ''_'') (digits_nat (m div 10)) = digits_nat (m div 10)"
      using nu by (simp add: filter_id_conv) blast
    with "1.IH" [OF False] have "foldl (\<lambda>n c. 10 * n + (of_char c - 48)) 0 (digits_nat (m div 10)) = int (m div 10)"
      by (simp add: dec_value_def)
    moreover have "char_of (48 + m mod 10) \<noteq> CHR ''_''" using digit_char_mem [of "m mod 10"] by auto
    moreover have "10 * int (m div 10) + int (m mod 10) = int m"
      by (metis div_mult_mod_eq of_nat_add of_nat_mult of_nat_numeral mult.commute)
    ultimately show ?thesis using False
      by (simp add: digits_nat_large dec_value_def of_char_digit f)
  qed
qed


lemma trim_ws_id: "\<forall>x \<in> set s. x \<notin> set ascii_ws \<Longrightarrow> trim_ws s = s"
proof -
  assume a: "\<forall>x \<in> set s. x \<notin> set ascii_ws"
  have d: "dropWhile (\<lambda>c. c \<in> set ascii_ws) t = t" if "\<forall>x \<in> set t. x \<notin> set ascii_ws" for t
    using that by (cases t) simp_all
  have "dropWhile (\<lambda>c. c \<in> set ascii_ws) (rev s) = rev s" using a by (intro d) simp
  with a d show ?thesis by (simp add: trim_ws_def)
qed

text \<open>Round trip of the count conversion: \<open>int(str(n)) == n\<close> for every integer, so
  a count passed as its decimal string is sent as the same number.\<close>

theorem py_int_str_int: "py_int (str_int n) = Inr n"
proof -
  have t: "trim_ws (str_int n) = str_int n" using str_int_compact by (blast intro: trim_ws_id)
  have ok: "digits_ok (digits_nat m)" for m
    using digits_nat_nonempty digits_nat_chars by (rule digits_ok_digits)
  show ?thesis
  proof (cases "n < 0")
    case True
    then show ?thesis using t ok dec_value_digits_nat [of "nat (- n)"] by (simp add: py_int_def str_int_def)
  next
    case False
    obtain d ds where d: "digits_nat (nat n) = d # ds" using digits_nat_nonempty by (cases "digits_nat (nat n)") auto
    then have "d \<in> set ''0123456789''" using digits_nat_chars [of "nat n"] by auto
    then have "d \<noteq> CHR ''-''" and "d \<noteq> CHR ''+''" by auto
    with False t ok [of "nat n"] dec_value_digits_nat [of "nat n"] d show ?thesis
      by (simp add: py_int_def str_int_def)
  qed
qed


lemma dq_not_plain: "\<not> json_plain (CHR 0x22)"
  by (simp add: json_plain_def)

lemma bare_no_dq: "bare_text q \<Longrightarrow> CHR 0x22 \<notin> set q \<and> CHR ''%'' \<notin> set q"
  unfolding bare_text_def compact_char_def using dq_not_plain by blast

lemma fix_rawquery_bare:
  assumes "q \<noteq> []" and "bare_text q"
  shows "fix_rawquery (CHR ''{'' # rq_prefix @ q @ CHR 0x22 # B) = CHR ''{'' # rq_prefix @ q @ CHR 0x22 # B"
proof -
  have "CHR 0x22 \<notin> set q" and p: "CHR ''%'' \<notin> set q"
    using bare_no_dq [OF assms(2)] by simp_all
  with assms(1) have "rq_search (CHR ''{'' # rq_prefix @ q @ CHR 0x22 # B) = Some q"
    by (intro rq_search_prefix)
  with assms(1) p show ?thesis by (simp add: fix_rawquery_def unquote_def)
qed

lemma search_query_text:
  assumes "search_args rq p cnt cur = Inr (q, p', n, c')"
    and "fix_rawquery (convertws (build_variables q n c' p')) = V"
  shows "search_query rq p cnt cur =
     Inr ([(''variables'', V), (''features'', compact_json features_json)],
          search_base @ ''?variables='' @ quote V @ ''&features='' @ quote (compact_json features_json))"
  using assms convertws_compact [OF features_plain]
  by (simp add: search_query_def buildparams_def encode_param_def search_url_def)

lemma cursor_sample_text: "text_json (build_variables ''x'' (JInt 20) (Some ''DAAC x'') ''Latest'')"
  by code_simp
lemma cursor_sample_strip: "strip_strings (build_variables ''x'' (JInt 20) (Some ''DAAC x'') ''Latest'') = build_variables ''x'' (JInt 20) (Some ''DAACx'') ''Latest''"
  by code_simp


text \<open>A cursor is not sent verbatim: \<open>convertws\<close> deletes the whitespace inside every
  string of the variables, so the cursor \<open>DAAC x\<close> is sent as \<open>DAACx\<close> (the raw query
  alone gets its spaces back from the repair step).\<close>

theorem search_query_cursor_whitespace:
  "search_query (PStr ''x'') (PStr ''Latest'') (PInt 20) (PStr ''DAAC x'') =
     Inr ([(''variables'', compact_json (build_variables ''x'' (JInt 20) (Some ''DAACx'') ''Latest'')),
           (''features'', compact_json features_json)],
          search_base @ ''?variables='' @ quote (compact_json (build_variables ''x'' (JInt 20) (Some ''DAACx'') ''Latest'')) @
          ''&features='' @ quote (compact_json features_json))"
proof (rule search_query_text)
  have q: "quote ''x'' = ''x''" by (simp add: quote_def quote_byte_def is_safe_byte_def)
  then show "search_args (PStr ''x'') (PStr ''Latest'') (PInt 20) (PStr ''DAAC x'') =
      Inr (''x'', ''Latest'', JInt 20, Some ''DAAC x'')"
    by (simp add: search_args_def)
  have cv: "convertws (build_variables ''x'' (JInt 20) (Some ''DAAC x'') ''Latest'') =
      compact_json (build_variables ''x'' (JInt 20) (Some ''DAACx'') ''Latest'')"
    by (simp only: convertws_strips [OF cursor_sample_text] cursor_sample_strip)
  have ne: "''DAACx'' \<noteq> []" by simp
  have fx: "fix_rawquery (compact_json (build_variables ''x'' (JInt 20) (Some ''DAACx'') ''Latest'')) =
      compact_json (build_variables ''x'' (JInt 20) (Some ''DAACx'') ''Latest'')"
    unfolding build_variables_cursor_text [OF ne]
    by (rule fix_rawquery_bare) (simp_all add: bare_text_def compact_char_def json_plain_def ascii_ws_def)
  show "fix_rawquery (convertws (build_variables ''x'' (JInt 20) (Some ''DAAC x'') ''Latest'')) =
      compact_json (build_variables ''x'' (JInt 20) (Some ''DAACx'') ''Latest'')"
    by (simp only: cv fx)
qed



text \<open>C10. Error behaviour of the argument checks, in the order the code makes them: a
  rawquery, product, count or cursor of the wrong type raises \<open>TypeError\<close>, and a count
  string that is not a decimal literal raises \<open>ValueError\<close> from \<open>int()\<close>.\<close>

theorem search_query_type_errors:
  "(rawquery \<notin> range PStr \<longrightarrow> search_query rawquery product count cursor = Inl (TypeError ''search rawquery'')) \<and>
   (product \<notin> range PStr \<longrightarrow> search_query (PStr r) product count cursor = Inl (TypeError ''search product'')) \<and>
   (count \<notin> range PStr \<union> range PInt \<union> range PBool \<longrightarrow>
      search_query (PStr r) (PStr p) count cursor = Inl (TypeError ''search count'')) \<and>
   (cursor \<notin> range PStr \<union> {PNone} \<longrightarrow>
      search_query (PStr r) (PStr p) (PInt n) cursor = Inl (TypeError ''search cursor'')) \<and>
   (\<not> digits_ok (trim_ws s) \<and> (trim_ws s = [] \<or> hd (trim_ws s) \<notin> set ''+-'') \<longrightarrow>
      search_query (PStr r) (PStr p) (PStr s) cursor = Inl (ValueError ''invalid literal for int()''))"
proof (intro conjI impI)
  show "search_query rawquery product count cursor = Inl (TypeError ''search rawquery'')"
    if "rawquery \<notin> range PStr" using that by (cases rawquery) (auto simp: search_query_def search_args_def)
  show "search_query (PStr r) product count cursor = Inl (TypeError ''search product'')"
    if "product \<notin> range PStr" using that by (cases product) (auto simp: search_query_def search_args_def)
  show "search_query (PStr r) (PStr p) count cursor = Inl (TypeError ''search count'')"
    if "count \<notin> range PStr \<union> range PInt \<union> range PBool" using that
    by (cases count) (auto simp: search_query_def search_args_def)
  show "search_query (PStr r) (PStr p) (PInt n) cursor = Inl (TypeError ''search cursor'')"
    if "cursor \<notin> range PStr \<union> {PNone}" using that
    by (cases cursor) (auto simp: search_query_def search_args_def)
  assume "\<not> digits_ok (trim_ws s) \<and> (trim_ws s = [] \<or> hd (trim_ws s) \<notin> set ''+-'')"
  then have "py_int s = Inl (ValueError ''invalid literal for int()'')"
    by (auto simp: py_int_def Let_def)
  then show "search_query (PStr r) (PStr p) (PStr s) cursor = Inl (ValueError ''invalid literal for int()'')"
    by (simp add: search_query_def search_args_def)
qed

lemma str_int_20: "str_int 20 = ''20''"
  by code_simp

lemma bare_Top: "bare_text ''Top''"
  by (simp add: bare_text_def compact_char_def json_plain_def ascii_ws_def)

lemma quote_sample_text:
  "compact_json (build_variables (''say '' @ jq ''hi'') (JInt 20) None ''Top'') =
     ''{'' @ jq ''rawQuery'' @ '':'' @ jq (''say '' @ jq ''hi'') @ '','' @ jq ''count'' @ '':20,'' @
     jq ''querySource'' @ '':'' @ jq ''typed_query'' @ '','' @ jq ''product'' @ '':'' @ jq ''Top'' @ ''}''"
  unfolding build_variables_none_text str_int_20 by (simp add: rq_prefix_def jq_def)

lemma quote_sample_valid: "utf8_valid (''say '' @ jq ''hi'')"
  by (rule utf8_valid_ascii) (simp add: jq_def is_ascii_def)

text \<open>A double quote in the caller's query reaches the variables text unescaped: the query
  \<open>say "hi"\<close> is sent as a rawQuery string that ends early, so the text is not JSON.\<close>

theorem search_query_quote_in_query:
  "\<exists>url. search_query (PStr (''say '' @ jq ''hi'')) (PStr ''Top'') (PInt 20) PNone =
     Inr ([(''variables'', ''{'' @ jq ''rawQuery'' @ '':'' @ jq (''say '' @ jq ''hi'') @ '','' @ jq ''count'' @ '':20,'' @
             jq ''querySource'' @ '':'' @ jq ''typed_query'' @ '','' @ jq ''product'' @ '':'' @ jq ''Top'' @ ''}''),
           (''features'', compact_json features_json)], url)"
proof -
  have ne: "''say '' @ jq ''hi'' \<noteq> []" and pn: "pred_option bare_text None" by simp_all
  show ?thesis
    using search_query_plain [OF quote_sample_valid ne bare_Top pn, of 20]
    unfolding quote_sample_text option.case by blast
qed

lemma search_query_refines_witness:
  "search_query (PStr ''a b'') (PStr ''Top'') (PInt 20) (PStr ''c1'') =
       Inr ([(''variables'', compact_json (build_variables ''a b'' (JInt 20) (Some ''c1'') ''Top'')),
             (''features'', compact_json features_json)],
            search_base @ ''?variables='' @ quote (compact_json (build_variables ''a b'' (JInt 20) (Some ''c1'') ''Top'')) @
            ''&features='' @ quote (compact_json features_json)) \<and>
     unquote (quote (compact_json (build_variables ''a b'' (JInt 20) (Some ''c1'') ''Top''))) =
       compact_json (build_variables ''a b'' (JInt 20) (Some ''c1'') ''Top'')"
proof (rule search_query_refines)
  show "utf8_valid ''a b''" by (rule utf8_valid_ascii) (simp add: is_ascii_def)
  show "bare_text ''c1''" by (simp add: bare_text_def compact_char_def json_plain_def ascii_ws_def)
qed (simp_all add: bare_Top)

lemma search_query_omits_cursor_witness:
  "\<exists>url. search_query (PStr ''a b'') (PStr ''Top'') (PInt 20) PNone =
     Inr ([(''variables'', compact_json (JObj [(''rawQuery'', JStr ''a b''), (''count'', JInt 20),
             (''querySource'', JStr ''typed_query''), (''product'', JStr ''Top'')])),
           (''features'', compact_json features_json)], url)"
proof (rule search_query_omits_cursor)
  show "utf8_valid ''a b''" by (rule utf8_valid_ascii) (simp add: is_ascii_def)
qed (simp_all add: bare_Top)

lemma search_query_type_errors_witness:
  "search_query (PInt 1) PNone PNone (PInt 3) = Inl (TypeError ''search rawquery'') \<and>
   search_query (PStr ''a'') PNone PNone (PInt 3) = Inl (TypeError ''search product'') \<and>
   search_query (PStr ''a'') (PStr ''Top'') PNone (PInt 3) = Inl (TypeError ''search count'') \<and>
   search_query (PStr ''a'') (PStr ''Top'') (PInt 20) (PInt 3) = Inl (TypeError ''search cursor'') \<and>
   search_query (PStr ''a'') (PStr ''Top'') (PStr ''x1'') (PInt 3) = Inl (ValueError ''invalid literal for int()'')"
  using search_query_type_errors [of "PInt 1" PNone PNone "PInt 3" "''a''" "''Top''" 20 "''x1''"]
  by (simp add: trim_ws_def ascii_ws_def image_iff)

lemma search_args_count_string:
  "search_args rq p (PStr (str_int n)) cur = search_args rq p (PInt n) cur"
  by (simp add: search_args_def py_int_str_int split: pyval.split)

text \<open>C9. A count given as the decimal string of a number is converted by \<open>int()\<close>
  and sent exactly as that number: \<open>search\<close> builds the same parameters and URL (or
  raises the same error) for \<open>count=str(n)\<close> as for \<open>count=n\<close>, for every query,
  product and cursor.\<close>

theorem search_count_string:
  "search_query rq p (PStr (str_int n)) cur = search_query rq p (PInt n) cur"
  by (simp add: search_query_def search_args_count_string)

end
