(* ===== verification/Trends.thy ===== *)
theory Trends
  imports Auth QueryBuilder
begin

text \<open>
  \<open>XCrawl.trends\<close> (src/controller/x/xcrawl.py, lines 654-760): the URL of the guide
  endpoint with its fixed query (\<open>urlencode\<close> of the payload dict), the header
  preparation it shares with \<open>search\<close> (\<open>prepare_headers\<close> of \<open>Auth\<close>), and the walk of
  the answer, a chain of \<open>d.get(k, default)\<close> calls that collects one record per trend.
  The HTTP request is an input (\<open>http_resp\<close>).
\<close>

section \<open>The request URL\<close>

definition trends_api :: string where
  "trends_api = ''https://twitter.com/i/api/2/guide.json''"

definition trends_payload :: "(string \<times> pyval) list" where
  "trends_payload =
     [(''include_profile_interstitial_type'', PInt 1), (''include_blocking'', PInt 1),
      (''include_blocked_by'', PInt 1), (''include_followed_by'', PInt 1),
      (''include_want_retweets'', PInt 1), (''include_mute_edge'', PInt 1),
      (''include_can_dm'', PInt 1), (''include_can_media_tag'', PInt 1),
      (''include_ext_has_nft_avatar'', PInt 1), (''include_ext_is_blue_verified'', PInt 1),
      (''include_ext_verified_type'', PInt 1), (''include_ext_profile_image_shape'', PInt 1),
      (''skip_status'', PInt 1), (''cards_platform'', PStr ''Web-12''), (''include_cards'', PInt 1),
      (''include_ext_alt_text'', PBool True), (''include_ext_limited_action_results'', PBool True),
      (''include_quote_count'', PBool True), (''include_reply_count'', PInt 1),
      (''tweet_mode'', PStr ''extended''), (''include_ext_views'', PBool True),
      (''include_entities'', PBool True), (''include_user_entities'', PBool True),
      (''include_ext_media_color'', PBool True), (''include_ext_media_availability'', PBool True),
      (''include_ext_sensitive_media_warning'', PBool True),
      (''include_ext_trusted_friends_metadata'', PBool True), (''send_error_codes'', PBool True),
      (''simple_quoted_tweet'', PBool True), (''count'', PInt 20), (''requestContext'', PStr ''launch''),
      (''candidate_source'', PStr ''trends''), (''include_page_configuration'', PBool False),
      (''entity_tokens'', PBool False),
      (''ext'', PStr ''mediaStats,highlightedLabel,hasNftAvatar,voiceInfo,birdwatchPivot,superFollowMetadata,unmentionInfo,editControl'')]"

text \<open>\<open>str(v)\<close> of a payload value.\<close>

fun py_str_val :: "pyval \<Rightarrow> string" where
  "py_str_val (PStr s) = s"
| "py_str_val (PInt i) = str_int i"
| "py_str_val (PBool b) = (if b then ''True'' else ''False'')"
| "py_str_val PNone = ''None''"
| "py_str_val POther = []"

text \<open>\<open>quote_plus(s)\<close>: \<open>quote(s, safe=' ')\<close> (so \<open>/\<close> is encoded too), then spaces become
  \<open>+\<close>.\<close>

definition quote_plus_byte :: "char \<Rightarrow> string" where
  "quote_plus_byte c =
     (if c = CHR '' '' then ''+''
      else if is_safe_byte c \<and> c \<noteq> CHR ''/'' then [c]
      else [CHR ''%'', hex_upper ((of_char c :: nat) div 16), hex_upper ((of_char c :: nat) mod 16)])"

definition quote_plus :: "string \<Rightarrow> string" where
  "quote_plus s = concat (map quote_plus_byte s)"

fun join_amp :: "string list \<Rightarrow> string" where
  "join_amp [] = []"
| "join_amp [x] = x"
| "join_amp (x # y # xs) = x @ ''&'' @ join_amp (y # xs)"

text \<open>\<open>urlencode(payload)\<close>: \<open>k=v\<close> pairs joined by \<open>&\<close>, both sides through
  \<open>quote_plus\<close> of their \<open>str\<close>.\<close>

definition urlencode :: "(string \<times> pyval) list \<Rightarrow> string" where
  "urlencode ps = join_amp (map (\<lambda>(k, v). quote_plus k @ ''='' @ quote_plus (py_str_val v)) ps)"

definition trends_url :: string where
  "trends_url = trends_api @ ''?'' @ urlencode trends_payload"

section \<open>The walk of the answer\<close>

text \<open>\<open>x.get(k1, {}).get(k2, {})...\<close>.\<close>

fun get_path :: "json \<Rightarrow> string list \<Rightarrow> json res" where
  "get_path x [] = Inr x"
| "get_path x (k # ks) = bindr (jget_or x k (JObj [])) (\<lambda>y. get_path y ks)"

text \<open>A list comprehension over a fallible body: the first exception ends it.\<close>

fun map_res :: "('a \<Rightarrow> 'b res) \<Rightarrow> 'a list \<Rightarrow> 'b list res" where
  "map_res f [] = Inr []"
| "map_res f (x # xs) = bindr (f x) (\<lambda>y. bindr (map_res f xs) (\<lambda>ys. Inr (y # ys)))"

text \<open>One item of the \<open>trends\<close> module: the three chains of \<open>get\<close>, in the order of the code.\<close>

definition trend_of :: "json \<Rightarrow> json res" where
  "trend_of item =
     bindr (get_path item [''item'', ''content'', ''trend'']) (\<lambda>t.
     bindr (jget_or t ''name'' (JStr [])) (\<lambda>name.
     bindr (get_path item [''item'', ''content'', ''trend'', ''trendMetadata'']) (\<lambda>m.
     bindr (jget_or m ''metaDescription'' (JStr [])) (\<lambda>meta.
     bindr (get_path item [''item'', ''content'', ''trend'', ''trendMetadata'']) (\<lambda>m'.
     bindr (jget_or m' ''domainContext'' (JStr [])) (\<lambda>dom.
     Inr (JObj [(''name'', name), (''metaDescription'', meta), (''domainContext'', dom)])))))))"

definition trends_entry :: "json \<Rightarrow> json list res" where
  "trends_entry entry =
     bindr (jget_or entry ''entryId'' JNull) (\<lambda>eid.
       if eid = JStr ''trends''
       then bindr (get_path entry [''content'', ''timelineModule'']) (\<lambda>tm.
            bindr (jget_or tm ''items'' (JList [])) (\<lambda>its.
            bindr (jiter its) (map_res trend_of)))
       else Inr [])"

text \<open>\<open>isinstance(intruction, dict) and intruction.get("addEntries", {})\<close>: other values are
  skipped.\<close>

definition trends_instr :: "json \<Rightarrow> json list res" where
  "trends_instr ins =
     (case ins of
        JObj _ \<Rightarrow>
          bindr (jget_or ins ''addEntries'' (JObj [])) (\<lambda>ae.
            if truthy ae
            then bindr (jget_or ae ''entries'' (JList [])) (\<lambda>es.
                 bindr (jiter es) (\<lambda>es'.
                 bindr (map_res trends_entry es') (\<lambda>rs. Inr (concat rs))))
            else Inr [])
      | _ \<Rightarrow> Inr [])"

definition trends_result :: "json \<Rightarrow> json res" where
  "trends_result data =
     bindr (get_path data [''timeline'']) (\<lambda>tl.
     bindr (jget_or tl ''instructions'' (JList [])) (\<lambda>is.
     bindr (jiter is) (\<lambda>is'.
     bindr (map_res trends_instr is') (\<lambda>rs. Inr (JObj [(''result'', JList (concat rs))])))))"

text \<open>The status test: the body is decoded only for a 200 answer; otherwise the code builds
  an \<open>HTTPErrorException\<close> without raising it and the method returns \<open>None\<close>.\<close>

definition trends_response :: "http_resp \<Rightarrow> json option res" where
  "trends_response r =
     (if status r = 200
      then (case body r of
              None \<Rightarrow> Inl (ValueError ''JSONDecodeError'')
            | Some data \<Rightarrow> bindr (trends_result data) (\<lambda>v. Inr (Some v)))
      else Inr None)"

text \<open>The whole method: header preparation (User-Agent \<open>ua\<close>, the token, with the guest
  activation answer \<open>g\<close>), then the answer \<open>r\<close> to the request for \<open>trends_url\<close>.\<close>

definition trends :: "string \<Rightarrow> string \<Rightarrow> http_resp \<Rightarrow> http_resp \<Rightarrow> session \<Rightarrow> session \<times> json option res" where
  "trends ua ua' g r st =
     (case prepare_headers ua ua' g st of
        (st1, Inl e) \<Rightarrow> (st1, Inl e)
      | (st1, Inr _) \<Rightarrow> (st1, trends_response r))"

text \<open>A sample answer with one trend whose metadata has no description.\<close>

definition demo_trends :: json where
  "demo_trends = JObj [(''timeline'', JObj [(''instructions'', JList [JObj [(''addEntries'', JObj [(''entries'', JList [
     JObj [(''entryId'', JStr ''trends''), (''content'', JObj [(''timelineModule'', JObj [(''items'', JList [
       JObj [(''item'', JObj [(''content'', JObj [(''trend'', JObj [(''name'', JStr ''#x''),
         (''trendMetadata'', JObj [(''domainContext'', JStr ''Trending'')])])])])]])])])]])])]])])]"

text \<open>The record shape the parser promises.\<close>

definition trend_shaped :: "json \<Rightarrow> bool" where
  "trend_shaped x =
     (case x of
        JObj [(k1, _), (k2, _), (k3, _)] \<Rightarrow> k1 = ''name'' \<and> k2 = ''metaDescription'' \<and> k3 = ''domainContext''
      | _ \<Rightarrow> False)"

section \<open>Lemmas\<close>

lemma map_res_all:
  "(\<And>x y. f x = Inr y \<Longrightarrow> P y) \<Longrightarrow> map_res f xs = Inr ys \<Longrightarrow> y \<in> set ys \<Longrightarrow> P y"
  by (induction xs arbitrary: ys) (auto elim!: res_elims)

lemma map_res_concat:
  "(\<And>x ys z. f x = Inr ys \<Longrightarrow> z \<in> set ys \<Longrightarrow> P z) \<Longrightarrow> map_res f xs = Inr rs \<Longrightarrow> r \<in> set rs \<Longrightarrow> y \<in> set r \<Longrightarrow> P y"
  by (induction xs arbitrary: rs) (auto elim!: res_elims)

lemma trend_of_shaped: "trend_of item = Inr y \<Longrightarrow> trend_shaped y"
  by (auto simp: trend_of_def trend_shaped_def elim!: res_elims)

lemma trends_entry_shaped: "trends_entry e = Inr ys \<Longrightarrow> y \<in> set ys \<Longrightarrow> trend_shaped y"
  unfolding trends_entry_def
  by (auto elim!: res_elims split: if_splits intro: map_res_all [OF trend_of_shaped])

lemma trends_instr_shaped: "trends_instr i = Inr ys \<Longrightarrow> y \<in> set ys \<Longrightarrow> trend_shaped y"
  unfolding trends_instr_def
  by (auto elim!: res_elims split: json.splits if_splits intro: map_res_concat [where f = trends_entry and P = trend_shaped, OF trends_entry_shaped])

text \<open>Shape of the trends result: a successful walk of the answer returns a dict with
  the single key \<open>result\<close>, a list of records each holding exactly the keys \<open>name\<close>,
  \<open>metaDescription\<close> and \<open>domainContext\<close>, in this order.\<close>

theorem trends_result_shape:
  "trends_result data = Inr v \<Longrightarrow>
     \<exists>recs. v = JObj [(''result'', JList recs)] \<and> (\<forall>x \<in> set recs. trend_shaped x)"
  unfolding trends_result_def
  by (auto elim!: res_elims intro: map_res_concat [where f = trends_instr and P = trend_shaped, OF trends_instr_shaped])

lemma map_res_append:
  "map_res f (xs @ ys) = bindr (map_res f xs) (\<lambda>a. bindr (map_res f ys) (\<lambda>b. Inr (a @ b)))"
  by (induction xs) (auto simp: bindr_def split: sum.split)

lemma trends_entry_other:
  "map_of d ''entryId'' \<noteq> Some (JStr ''trends'') \<Longrightarrow> trends_entry (JObj d) = Inr []"
  by (auto simp: trends_entry_def split: option.split)

text \<open>C19. Only entries whose \<open>entryId\<close> is \<open>trends\<close> contribute records: inserting any
  other entry (a dict with another or no \<open>entryId\<close>) anywhere in the entries of an
  \<open>addEntries\<close> instruction leaves the records collected from them unchanged, and
  never raises.\<close>

theorem trends_skips_other_entries:
  assumes "map_of d ''entryId'' \<noteq> Some (JStr ''trends'')"
  shows "bindr (map_res trends_entry (xs @ JObj d # ys)) (\<lambda>rs. Inr (concat rs)) =
         bindr (map_res trends_entry (xs @ ys)) (\<lambda>rs. Inr (concat rs))"
  using trends_entry_other [OF assms]
  by (simp add: map_res_append bindr_def split: sum.split)

text \<open>C20. \<open>trends\<close> raises no HTTP error: for a non-200 answer it builds the exception
  without raising it and returns \<open>None\<close>, and a 200 answer without trends gives an
  empty result list.\<close>

theorem trends_errors_not_raised:
  "(status r \<noteq> 200 \<longrightarrow> trends_response r = Inr None) \<and>
   (status r = 200 \<and> body r = Some (JObj []) \<longrightarrow> trends_response r = Inr (Some (JObj [(''result'', JList [])])))"
  by (simp add: trends_response_def trends_result_def)

lemma demo_trends_result:
  "trends_result demo_trends = Inr (JObj [(''result'', JList [JObj [(''name'', JStr ''#x''),
     (''metaDescription'', JStr []), (''domainContext'', JStr ''Trending'')]])])"
  by code_simp

lemma trends_errors_not_raised_witness:
  "trends_response \<lparr>status = 404, reason = ''Not Found'', body = None\<rparr> = Inr None"
  using trends_errors_not_raised [of "\<lparr>status = 404, reason = ''Not Found'', body = None\<rparr>"] by simp

lemma trends_skips_other_entries_witness:
  "map_of [(''entryId'', JStr ''promoted-1'')] ''entryId'' \<noteq> Some (JStr ''trends'') \<and>
   bindr (map_res trends_entry ([] @ JObj [(''entryId'', JStr ''promoted-1'')] # [JObj [(''entryId'', JStr ''trends'')]]))
     (\<lambda>rs. Inr (concat rs)) =
   bindr (map_res trends_entry ([] @ [JObj [(''entryId'', JStr ''trends'')]])) (\<lambda>rs. Inr (concat rs))"
proof -
  have h: "map_of [(''entryId'', JStr ''promoted-1'')] ''entryId'' \<noteq> Some (JStr ''trends'')" by simp
  show ?thesis using h trends_skips_other_entries [OF h, of "[]" "[JObj [(''entryId'', JStr ''trends'')]]"] by simp
qed

end
