(* ===== verification/Search.thy ===== *)
theory Search
  imports Dispatcher Trends
begin

text \<open>
  The whole of \<open>XCrawl.search\<close> (src/controller/x/xcrawl.py, lines 760-1004) as the
  composition of the components that model its parts: the argument checks and the
  encoded parameters (\<open>search_args\<close>, \<open>buildparams\<close>, \<open>encode_param\<close>,
  \<open>search_url\<close> of QueryBuilder), the header preparation (\<open>prepare_headers\<close> of
  Auth), the request, and the walk of the answer (\<open>search_response\<close> of
  Dispatcher); and the \<open>__main__\<close> block (lines 1007-1009) that constructs the
  crawler. The HTTP transport is an input that maps the URL and the headers it is
  sent to an answer. \<open>requests\<close> builds that URL from the \<open>url\<close> and the
  \<open>params\<close> arguments (\<open>PreparedRequest.prepare_url\<close>): the encoded parameters are
  appended to the query of the URL (\<open>prepare_url\<close>).
\<close>

section \<open>The request URL\<close>

text \<open>\<open>requests\<close>' \<open>prepare_url(url, params)\<close>: \<open>_encode_params\<close> is \<open>urlencode\<close> of the
  UTF-8 pairs (\<open>quote_plus\<close> of keys and values), joined to an existing query by
  \<open>&\<close>. The final \<open>requote_uri\<close> leaves a URL made of \<open>quote\<close> and \<open>quote_plus\<close>
  output unchanged, so it is not modelled.\<close>

definition prepare_url :: "string \<Rightarrow> (string \<times> string) list \<Rightarrow> string" where
  "prepare_url url ps =
     (if ps = [] then url
      else url @ (if CHR ''?'' \<in> set url then ''&'' else ''?'') @ urlencode (map (\<lambda>(k, v). (k, PStr v)) ps))"

section \<open>\<open>XCrawl.search\<close>\<close>

text \<open>The transport answers a GET of a URL with given headers.\<close>

type_synonym transport = "string \<Rightarrow> dict \<Rightarrow> http_resp"

text \<open>The checks raise before anything changes; the header preparation stores the
  User-Agent and the token (and keeps them when it raises); the request is sent with
  \<open>url=url, params=params\<close>, so the parameters travel in the URL twice.\<close>

definition search ::
  "pyval \<Rightarrow> pyval \<Rightarrow> pyval \<Rightarrow> pyval \<Rightarrow> string \<Rightarrow> string \<Rightarrow> http_resp \<Rightarrow> transport \<Rightarrow> session \<Rightarrow> session \<times> json res" where
  "search rawquery product count cursor ua ua' g transport st =
     (case search_args rawquery product count cursor of
        Inl e \<Rightarrow> (st, Inl e)
      | Inr (rq, p, n, c) \<Rightarrow>
          (let ps = map encode_param (buildparams rq n c p) in
           case search_url ps of
             Inl e \<Rightarrow> (st, Inl e)
           | Inr url \<Rightarrow>
               (case prepare_headers ua ua' g st of
                  (st1, Inl e) \<Rightarrow> (st1, Inl e)
                | (st1, Inr _) \<Rightarrow> (st1, search_response p (transport (prepare_url url ps) (headers st1))))))"

section \<open>The entry point\<close>

text \<open>\<open>if __name__ == "__main__": cookie = ''; sb = XCrawl(cookie=cookie)\<close>.\<close>

definition cli_main :: "session res" where
  "cli_main = (let cookie = [] in xcrawl_init (ArgStr cookie))"

section \<open>Lemmas\<close>

lemma search_args_product:
  "search_args rq p cnt cur = Inr (q, pr, n, c) \<Longrightarrow> p = PStr pr"
  by (auto simp: search_args_def split: pyval.splits sum.splits elim!: res_elims)

lemma search_query_Inr:
  assumes "search_query rq p cnt cur = Inr (ps, url)"
  obtains q pr n c where "search_args rq p cnt cur = Inr (q, pr, n, c)"
    and "ps = map encode_param (buildparams q n c pr)" and "search_url ps = Inr url"
  using assms
  by (auto simp: search_query_def Let_def split: sum.splits elim!: res_elims)

lemma search_after_query:
  assumes "search_query rq p cnt cur = Inr (ps, url)"
    and "prepare_headers ua ua' g st = (st1, Inr ())"
  shows "\<exists>pr. p = PStr pr \<and>
           search rq p cnt cur ua ua' g tr st = (st1, search_response pr (tr (prepare_url url ps) (headers st1)))"
proof -
  obtain q pr n c where a: "search_args rq p cnt cur = Inr (q, pr, n, c)"
    and ps: "ps = map encode_param (buildparams q n c pr)" and u: "search_url ps = Inr url"
    using assms(1) by (rule search_query_Inr)
  have "p = PStr pr" using a by (rule search_args_product)
  moreover have "search rq p cnt cur ua ua' g tr st = (st1, search_response pr (tr (prepare_url url ps) (headers st1)))"
    using a u assms(2) by (simp add: search_def ps [symmetric])
  ultimately show ?thesis by blast
qed

lemma urlencode_two:
  "urlencode [(''variables'', PStr v), (''features'', PStr f)] =
     ''variables='' @ quote_plus v @ ''&features='' @ quote_plus f"
  by (simp add: urlencode_def quote_plus_def quote_plus_byte_def is_safe_byte_def)

lemma search_url_Inr:
  assumes "search_url [(''variables'', v), (''features'', f)] = Inr url"
  shows "url = search_base @ ''?variables='' @ quote v @ ''&features='' @ quote f"
  using assms by (simp add: search_url_def)

lemma prepare_headers_empty_cookie:
  assumes "cookie st = Some []"
  shows "snd (prepare_headers ua ua' g st) = Inl CSRFTokenMissingError"
  using assms by (simp add: prepare_headers_def csrf_token_def Let_def)

lemma search_prepare_fails:
  assumes "\<And>ua ua' g. snd (prepare_headers ua ua' g st) = Inl e0"
  shows "search rq p cnt cur ua ua' g tr st = search rq p cnt cur ua ua' g tr' st \<and>
         (\<exists>e. snd (search rq p cnt cur ua ua' g tr st) = Inl e)"
proof -
  obtain st1 where ph: "prepare_headers ua ua' g st = (st1, Inl e0)"
    using assms [of ua ua' g] by (cases "prepare_headers ua ua' g st") simp
  show ?thesis
    by (simp add: search_def ph Let_def split: sum.split prod.split)
qed

lemma search_query_sample:
  "search_query (PStr ''a'') (PStr ''Top'') (PInt 20) PNone =
     Inr ([(''variables'', fix_rawquery (convertws (build_variables (quote ''a'') (JInt 20) None ''Top''))),
           (''features'', compact_json features_json)],
          search_base @ ''?variables='' @ quote (fix_rawquery (convertws (build_variables (quote ''a'') (JInt 20) None ''Top''))) @
          ''&features='' @ quote (compact_json features_json))"
proof -
  have a: "search_args (PStr ''a'') (PStr ''Top'') (PInt 20) PNone = Inr (quote ''a'', ''Top'', JInt 20, None)"
    by (simp add: search_args_def)
  show ?thesis by (rule search_query_text [OF a refl])
qed

lemma prepare_headers_token:
  assumes "cookie st = Some ck" and "csrf_search ck = Some t"
  shows "prepare_headers ua ua' g st =
           (st\<lparr>headers := aset (aset (headers st) ''User-Agent'' (JStr ua)) ''X-Csrf-Token'' (JStr t)\<rparr>, Inr ())"
  using assms by (simp add: prepare_headers_csrf csrf_token_def Let_def)

lemma demo_session_token: "cookie demo_session = Some ''ct0=ab'' \<and> csrf_search ''ct0=ab'' = Some ''ab''"
  by code_simp

text \<open>C11. A search whose arguments pass the checks, from a session whose header
  preparation succeeds, sends one GET whose URL carries the parameters twice: the
  \<open>variables\<close> and \<open>features\<close> texts encoded by \<open>quote\<close> in the URL the code formats,
  and again by \<open>quote_plus\<close> from the \<open>params=\<close> argument; the answer to that request
  is walked by \<open>search_response\<close>.\<close>

theorem search_sends_params_twice:
  assumes "search_query rq p cnt cur = Inr (ps, url)"
    and "prepare_headers ua ua' g st = (st1, Inr ())"
  shows "\<exists>pr vs fs. p = PStr pr \<and> ps = [(''variables'', vs), (''features'', fs)] \<and>
     search rq p cnt cur ua ua' g tr st =
       (st1, search_response pr (tr (search_base @ ''?variables='' @ quote vs @ ''&features='' @ quote fs @
                                     ''&variables='' @ quote_plus vs @ ''&features='' @ quote_plus fs) (headers st1)))"
proof -
  obtain q pr n c where "search_args rq p cnt cur = Inr (q, pr, n, c)"
    and ps: "ps = map encode_param (buildparams q n c pr)" and u: "search_url ps = Inr url"
    using assms(1) by (rule search_query_Inr)
  define vs where "vs = fix_rawquery (convertws (build_variables q n c pr))"
  define fs where "fs = convertws features_json"
  have ps2: "ps = [(''variables'', vs), (''features'', fs)]"
    by (simp add: ps vs_def fs_def buildparams_def encode_param_def)
  have url: "url = search_base @ ''?variables='' @ quote vs @ ''&features='' @ quote fs"
    using u unfolding ps2 by (rule search_url_Inr)
  have "prepare_url url ps =
          search_base @ ''?variables='' @ quote vs @ ''&features='' @ quote fs @
          ''&variables='' @ quote_plus vs @ ''&features='' @ quote_plus fs"
    by (simp add: prepare_url_def ps2 url urlencode_two)
  with search_after_query [OF assms, of tr] ps2 show ?thesis by auto
qed

theorem search_sends_params_twice_witness:
  "search_query (PStr ''a'') (PStr ''Top'') (PInt 20) PNone =
     Inr ([(''variables'', fix_rawquery (convertws (build_variables (quote ''a'') (JInt 20) None ''Top''))),
           (''features'', compact_json features_json)],
          search_base @ ''?variables='' @ quote (fix_rawquery (convertws (build_variables (quote ''a'') (JInt 20) None ''Top''))) @
          ''&features='' @ quote (compact_json features_json)) \<and>
   prepare_headers ''UA'' ''UA1'' \<lparr>status = 200, reason = ''OK'', body = None\<rparr> demo_session =
     (fst (prepare_headers ''UA'' ''UA1'' \<lparr>status = 200, reason = ''OK'', body = None\<rparr> demo_session), Inr ()) \<and>
   (\<exists>pr vs fs. PStr ''Top'' = PStr pr \<and>
     [(''variables'', fix_rawquery (convertws (build_variables (quote ''a'') (JInt 20) None ''Top''))),
      (''features'', compact_json features_json)] = [(''variables'', vs), (''features'', fs)] \<and>
     search (PStr ''a'') (PStr ''Top'') (PInt 20) PNone ''UA'' ''UA1'' \<lparr>status = 200, reason = ''OK'', body = None\<rparr>
        (\<lambda>u h. \<lparr>status = 404, reason = ''Not Found'', body = None\<rparr>) demo_session =
       (fst (prepare_headers ''UA'' ''UA1'' \<lparr>status = 200, reason = ''OK'', body = None\<rparr> demo_session),
        search_response pr ((\<lambda>u h. \<lparr>status = 404, reason = ''Not Found'', body = None\<rparr>)
          (search_base @ ''?variables='' @ quote vs @ ''&features='' @ quote fs @
           ''&variables='' @ quote_plus vs @ ''&features='' @ quote_plus fs)
          (headers (fst (prepare_headers ''UA'' ''UA1'' \<lparr>status = 200, reason = ''OK'', body = None\<rparr> demo_session))))))"
proof -
  note h1 = search_query_sample
  have "snd (prepare_headers ''UA'' ''UA1'' \<lparr>status = 200, reason = ''OK'', body = None\<rparr> demo_session) = Inr ()"
    by code_simp
  then have h2: "prepare_headers ''UA'' ''UA1'' \<lparr>status = 200, reason = ''OK'', body = None\<rparr> demo_session =
     (fst (prepare_headers ''UA'' ''UA1'' \<lparr>status = 200, reason = ''OK'', body = None\<rparr> demo_session), Inr ())"
    by (metis prod.collapse)
  show ?thesis
    using h1 h2 search_sends_params_twice [OF h1 h2, of "\<lambda>u h. \<lparr>status = 404, reason = ''Not Found'', body = None\<rparr>"]
    by blast
qed

text \<open>C12. Progress of a search: from every reachable session whose cookie carries a
  \<open>ct0\<close> token, a search whose arguments pass the checks always gets to send its
  request (the result is the walk of the transport's answer) and leaves the crawler in
  a reachable session.\<close>

theorem search_reaches_transport:
  assumes "session_reach st" and "cookie st = Some ck" and "csrf_search ck = Some t"
    and "search_query rq p cnt cur = Inr (ps, url)"
  shows "\<exists>pr st1. p = PStr pr \<and> session_reach st1 \<and>
           search rq p cnt cur ua ua' g tr st = (st1, search_response pr (tr (prepare_url url ps) (headers st1)))"
proof -
  define st1 where "st1 = st\<lparr>headers := aset (aset (headers st) ''User-Agent'' (JStr ua)) ''X-Csrf-Token'' (JStr t)\<rparr>"
  have ph: "prepare_headers ua ua' g st = (st1, Inr ())"
    unfolding st1_def using assms(2,3) by (rule prepare_headers_token)
  have "session_reach (fst (prepare_headers ua ua' g st))"
    using assms(1) by (rule session_reach.prepare)
  then have "session_reach st1" by (simp add: ph)
  with search_after_query [OF assms(4) ph, of tr] show ?thesis by blast
qed

theorem search_reaches_transport_witness:
  "session_reach demo_session \<and> cookie demo_session = Some ''ct0=ab'' \<and> csrf_search ''ct0=ab'' = Some ''ab'' \<and>
   search_query (PStr ''a'') (PStr ''Top'') (PInt 20) PNone =
     Inr ([(''variables'', fix_rawquery (convertws (build_variables (quote ''a'') (JInt 20) None ''Top''))),
           (''features'', compact_json features_json)],
          search_base @ ''?variables='' @ quote (fix_rawquery (convertws (build_variables (quote ''a'') (JInt 20) None ''Top''))) @
          ''&features='' @ quote (compact_json features_json)) \<and>
   (\<exists>pr st1. PStr ''Top'' = PStr pr \<and> session_reach st1 \<and>
      search (PStr ''a'') (PStr ''Top'') (PInt 20) PNone ''UA'' ''UA1'' \<lparr>status = 200, reason = ''OK'', body = None\<rparr>
        (\<lambda>u h. \<lparr>status = 404, reason = ''Not Found'', body = None\<rparr>) demo_session =
      (st1, search_response pr ((\<lambda>u h. \<lparr>status = 404, reason = ''Not Found'', body = None\<rparr>)
        (prepare_url (search_base @ ''?variables='' @ quote (fix_rawquery (convertws (build_variables (quote ''a'') (JInt 20) None ''Top''))) @
          ''&features='' @ quote (compact_json features_json))
          [(''variables'', fix_rawquery (convertws (build_variables (quote ''a'') (JInt 20) None ''Top''))),
           (''features'', compact_json features_json)]) (headers st1))))"
  using demo_session_reach demo_session_token search_query_sample
    search_reaches_transport [OF demo_session_reach _ _ search_query_sample, where ck = "''ct0=ab''" and t = "''ab''"
      and ua = "''UA''" and ua' = "''UA1''" and g = "\<lparr>status = 200, reason = ''OK'', body = None\<rparr>"
      and tr = "\<lambda>u h. \<lparr>status = 404, reason = ''Not Found'', body = None\<rparr>"]
  by blast

text \<open>C21. The entry point builds a crawler with the empty cookie: since \<open>''\<close> is not
  \<open>None\<close> the guest-token branch is never taken, and the empty string has no
  \<open>ct0=\<close> token, so every \<open>search\<close> and every \<open>trends\<close> call on that crawler raises
  (\<open>CSRFTokenMissingError\<close> once the arguments pass) without consulting the
  transport.\<close>

theorem cli_never_requests:
  "\<exists>st. cli_main = Inr st \<and> cookie st = Some [] \<and>
     (\<forall>ua ua' g r. snd (trends ua ua' g r st) = Inl CSRFTokenMissingError) \<and>
     (\<forall>rq p cnt cur ua ua' g tr tr'.
        search rq p cnt cur ua ua' g tr st = search rq p cnt cur ua ua' g tr' st \<and>
        (\<exists>e. snd (search rq p cnt cur ua ua' g tr st) = Inl e))"
proof -
  define st where "st = \<lparr>cookie = Some [], headers = aset base_headers ''Cookie'' (JStr [])\<rparr>"
  have main: "cli_main = Inr st" by (simp add: cli_main_def st_def)
  have ck: "cookie st = Some []" by (simp add: st_def)
  have ph: "\<And>ua ua' g. snd (prepare_headers ua ua' g st) = Inl CSRFTokenMissingError"
    using ck by (rule prepare_headers_empty_cookie)
  have tr: "\<And>ua ua' g r. snd (trends ua ua' g r st) = Inl CSRFTokenMissingError"
  proof -
    fix ua ua' g r
    obtain st1 where "prepare_headers ua ua' g st = (st1, Inl CSRFTokenMissingError)"
      using ph [of ua ua' g] by (cases "prepare_headers ua ua' g st") simp
    then show "snd (trends ua ua' g r st) = Inl CSRFTokenMissingError"
      by (simp add: trends_def)
  qed
  show ?thesis
    using main ck tr search_prepare_fails [where st = st, OF ph] by blast
qed

end
