(* ===== verification/MySQL.thy ===== *)
theory MySQL
  imports Timestamp QueryBuilder
begin

text \<open>
  The MySQL helpers of src/MySQL: the error translation \<open>ErrorHandling\<close> of
  src/MySQL/exception.py, the statements \<open>MySQLDManipulator\<close> (mysqldml.py) sends for
  \<open>insert\<close>, \<open>manyinsert\<close>, \<open>update\<close> and \<open>delete\<close>, and the DDL operations of
  \<open>MySQLDDefinition\<close> (mysqlddl.py) with the messages they print. The driver is the
  interface the specification names, \<open>execute(query, params) -> elapsed_time\<close> with typed
  errors: a function of the statements sent so far and the new one, returning the
  elapsed time in hundredths of a second (as \<open>{elapsed: .2f}\<close> shows it) or the
  exception it raises. The connection is a record of the statements sent, the lines
  printed and the keyword arguments of the constructor; every operation returns the
  new connection and its result, an exception included.
\<close>

section \<open>Exceptions\<close>

text \<open>The error numbers of \<open>mysql.connector.errorcode\<close> the code tests.\<close>

definition ER_ACCESS_DENIED_ERROR :: int where "ER_ACCESS_DENIED_ERROR = 1045"
definition ER_BAD_DB_ERROR :: int where "ER_BAD_DB_ERROR = 1049"
definition ER_TABLE_EXISTS_ERROR :: int where "ER_TABLE_EXISTS_ERROR = 1050"
definition ER_NO_SUCH_TABLE :: int where "ER_NO_SUCH_TABLE = 1146"

text \<open>\<open>e.errno\<close> and \<open>str(e)\<close> of the two MySQL exception classes: an instance built from a
  message alone has errno -1 and prints as its message.\<close>

fun err_errno :: "pyerr \<Rightarrow> int" where
  "err_errno (MySQLError n m) = n"
| "err_errno _ = -1"

fun err_str :: "pyerr \<Rightarrow> string" where
  "err_str (MySQLError n m) = (if n = -1 then m else str_int n @ '': '' @ m)"
| "err_str (MySQLConnectorError m) = m"
| "err_str _ = []"

text \<open>\<open>ErrorHandling(error, name)\<close>: the exception it raises (it always raises); a missing
  name is formatted as \<open>None\<close>.\<close>

definition error_handling :: "pyerr \<Rightarrow> string option \<Rightarrow> pyerr" where
  "error_handling e name =
     (let n = (case name of Some s \<Rightarrow> s | None \<Rightarrow> ''None'') in
      if err_errno e = ER_ACCESS_DENIED_ERROR then MySQLConnectorError ''Error! Access denied. Check your username and password.''
      else if err_errno e = ER_BAD_DB_ERROR then MySQLConnectorError ''Error! Database not found.''
      else if err_errno e = ER_TABLE_EXISTS_ERROR then MySQLConnectorError (''Error! Table '' @ [CHR 0x27] @ n @ [CHR 0x27] @ '' already exists'')
      else if err_errno e = ER_NO_SUCH_TABLE then MySQLConnectorError (''Error! Table '' @ [CHR 0x27] @ n @ [CHR 0x27] @ '' doesn'' @ [CHR 0x27] @ ''t exist'')
      else MySQLConnectorError (''Error! '' @ err_str e))"

text \<open>The \<open>except MySQLConnectorError as e\<close> clause of the DML methods: only an instance of
  that class is caught and translated; every other exception propagates.\<close>

definition dml_except :: "pyerr \<Rightarrow> pyerr" where
  "dml_except e =
     (case e of
        MySQLConnectorError _ \<Rightarrow>
          if err_errno e = ER_ACCESS_DENIED_ERROR then MySQLConnectorError ''Error! Access denied. Check your username and password.''
          else if err_errno e = ER_BAD_DB_ERROR then MySQLConnectorError ''Error! Database not found.''
          else MySQLConnectorError (''Error! '' @ err_str e)
      | _ \<Rightarrow> e)"

text \<open>The same clause in the DDL methods, which hands the exception to \<open>ErrorHandling\<close>.\<close>

definition ddl_except :: "string option \<Rightarrow> pyerr \<Rightarrow> pyerr" where
  "ddl_except name e = (case e of MySQLConnectorError _ \<Rightarrow> error_handling e name | _ \<Rightarrow> e)"

section \<open>The driver and the connection\<close>

datatype stmt = Execute string "pyval list" | ExecuteMany string "pyval list list" | Commit

type_synonym driver = "stmt list \<Rightarrow> stmt \<Rightarrow> nat res"

record conn =
  log :: "stmt list"
  out :: "string list"
  kwargs :: "(string \<times> string) list"

text \<open>The constructors: \<open>mysql.connector.connect(**kwargs)\<close> (an input, which may raise
  the driver's exception) and a cursor on it. \<open>MySQLDDefinition\<close> also keeps the
  keyword arguments (\<open>self.__kwargs\<close>); \<open>MySQLDManipulator\<close> keeps none.\<close>

definition dml_init :: "((string \<times> string) list \<Rightarrow> unit res) \<Rightarrow> (string \<times> string) list \<Rightarrow> conn res" where
  "dml_init connect kw = bindr (connect kw) (\<lambda>_. Inr \<lparr>log = [], out = [], kwargs = []\<rparr>)"

definition ddl_init :: "((string \<times> string) list \<Rightarrow> unit res) \<Rightarrow> (string \<times> string) list \<Rightarrow> conn res" where
  "ddl_init connect kw = bindr (connect kw) (\<lambda>_. Inr \<lparr>log = [], out = [], kwargs = kw\<rparr>)"

text \<open>Sending a statement: it is recorded, and the driver answers.\<close>

definition send :: "driver \<Rightarrow> stmt \<Rightarrow> conn \<Rightarrow> conn \<times> nat res" where
  "send drv s c = (c\<lparr>log := log c @ [s]\<rparr>, drv (log c) s)"

text \<open>The body of a DML method after the statement is built: \<open>execute\<close>, then
  \<open>self.__connector.commit()\<close>.\<close>

definition exec_commit :: "driver \<Rightarrow> stmt \<Rightarrow> conn \<Rightarrow> conn \<times> unit res" where
  "exec_commit drv s c =
     (case send drv s c of
        (c1, Inl e) \<Rightarrow> (c1, Inl e)
      | (c1, Inr _) \<Rightarrow> (case send drv Commit c1 of
                         (c2, Inl e) \<Rightarrow> (c2, Inl e)
                       | (c2, Inr _) \<Rightarrow> (c2, Inr ())))"

definition dml_try :: "conn \<times> unit res \<Rightarrow> conn \<times> unit res" where
  "dml_try r = (case r of (c, Inl e) \<Rightarrow> (c, Inl (dml_except e)) | (c, Inr u) \<Rightarrow> (c, Inr u))"

section \<open>Python's \<open>str\<close> of a tuple of strings\<close>

text \<open>\<open>repr\<close> of a str: single quotes unless the string holds a single quote and no
  double quote; backslash, the quote, tab, newline and carriage return are escaped,
  other control characters are written \<open>\xhh\<close>. Bytes of non-ASCII characters are
  kept, as \<open>repr\<close> keeps printable non-ASCII characters.\<close>

definition repr_quote :: "string \<Rightarrow> char" where
  "repr_quote s = (if CHR 0x27 \<in> set s \<and> CHR 0x22 \<notin> set s then CHR 0x22 else CHR 0x27)"

definition repr_char :: "char \<Rightarrow> char \<Rightarrow> string" where
  "repr_char q c =
     (if c = CHR 0x5C then [CHR 0x5C, CHR 0x5C]
      else if c = q then [CHR 0x5C, q]
      else if c = CHR 0x09 then [CHR 0x5C, CHR ''t'']
      else if c = CHR 0x0A then [CHR 0x5C, CHR ''n'']
      else if c = CHR 0x0D then [CHR 0x5C, CHR ''r'']
      else if (of_char c :: nat) < 32 \<or> (of_char c :: nat) = 127
      then [CHR 0x5C, CHR ''x'', hex_lower ((of_char c :: nat) div 16), hex_lower ((of_char c :: nat) mod 16)]
      else [c])"

definition py_repr_str :: "string \<Rightarrow> string" where
  "py_repr_str s = (let q = repr_quote s in [q] @ concat (map (repr_char q) s) @ [q])"

text \<open>\<open>tuple.__str__\<close>: the reprs separated by \<open>", "\<close> (\<open>join_sep\<close>), with a trailing
  comma for one element.\<close>

definition tuple_str :: "string list \<Rightarrow> string" where
  "tuple_str xs = ''('' @ join_sep (map py_repr_str xs) @ (if length xs = 1 then '','' else []) @ '')''"

text \<open>\<open>.replace("'", "")\<close>.\<close>

definition drop_squotes :: "string \<Rightarrow> string" where
  "drop_squotes s = filter (\<lambda>c. c \<noteq> CHR 0x27) s"

section \<open>\<open>MySQLDManipulator\<close>\<close>

text \<open>A dict is the list of its items in insertion order.\<close>

definition insert_pattern :: "nat \<Rightarrow> string" where
  "insert_pattern n = drop_squotes (tuple_str (replicate n ''%s''))"

definition insert_columns :: "(string \<times> pyval) list \<Rightarrow> string" where
  "insert_columns d = drop_squotes (tuple_str (map fst d))"

definition insert_query :: "string \<Rightarrow> (string \<times> pyval) list \<Rightarrow> string" where
  "insert_query table d = ''INSERT INTO '' @ table @ insert_columns d @ '' VALUES'' @ insert_pattern (length d)"

definition insert_dml :: "driver \<Rightarrow> string \<Rightarrow> (string \<times> pyval) list \<Rightarrow> conn \<Rightarrow> conn \<times> unit res" where
  "insert_dml drv table datas c =
     dml_try (if datas = [] then (c, Inl EmptyDictionaryError)
              else exec_commit drv (Execute (insert_query table datas) (map snd datas)) c)"

definition manyinsert :: "driver \<Rightarrow> string \<Rightarrow> (string \<times> pyval) list list \<Rightarrow> conn \<Rightarrow> conn \<times> unit res" where
  "manyinsert drv table datas c =
     dml_try (if datas = [] then (c, Inl EmptyListError)
              else exec_commit drv (ExecuteMany (''INSERT INTO '' @ table @ insert_columns (hd datas) @ '' VALUES'' @
                                                  insert_pattern (length (hd datas)))
                                                 (map (map snd) datas)) c)"

definition update_query :: "string \<Rightarrow> string \<Rightarrow> string \<Rightarrow> string \<Rightarrow> string" where
  "update_query table column setv cond = ''UPDATE '' @ table @ '' SET '' @ column @ '' = '' @ setv @ '' WHERE '' @ cond"

definition update :: "driver \<Rightarrow> string \<Rightarrow> string \<Rightarrow> string \<Rightarrow> string \<Rightarrow> conn \<Rightarrow> conn \<times> unit res" where
  "update drv table column setv cond c = dml_try (exec_commit drv (Execute (update_query table column setv cond) []) c)"

text \<open>\<open>query += " " + f"WHERE {condition}" if condition else ""\<close>: the conditional binds
  weakest, so the \<open>WHERE\<close> clause is added exactly when the condition is truthy.\<close>

definition delete_query :: "string \<Rightarrow> string option \<Rightarrow> string" where
  "delete_query table cond =
     ''DELETE FROM '' @ table @ (case cond of Some s \<Rightarrow> if s \<noteq> [] then '' '' @ ''WHERE '' @ s else [] | None \<Rightarrow> [])"

definition delete_dml :: "driver \<Rightarrow> string \<Rightarrow> string option \<Rightarrow> conn \<Rightarrow> conn \<times> unit res" where
  "delete_dml drv table cond c = dml_try (exec_commit drv (Execute (delete_query table cond) []) c)"

text \<open>A sequence of DML calls on one object; the first exception ends it.\<close>

datatype dml_op =
    Insert string "(string \<times> pyval) list"
  | ManyInsert string "(string \<times> pyval) list list"
  | Update string string string string
  | Delete string "string option"

fun dml_step :: "driver \<Rightarrow> dml_op \<Rightarrow> conn \<Rightarrow> conn \<times> unit res" where
  "dml_step drv (Insert t d) c = insert_dml drv t d c"
| "dml_step drv (ManyInsert t ds) c = manyinsert drv t ds c"
| "dml_step drv (Update t col s w) c = update drv t col s w c"
| "dml_step drv (Delete t w) c = delete_dml drv t w c"

fun dml_ops :: "driver \<Rightarrow> dml_op list \<Rightarrow> conn \<Rightarrow> conn \<times> unit res" where
  "dml_ops drv [] c = (c, Inr ())"
| "dml_ops drv (op # ops) c =
     (case dml_step drv op c of (c', Inl e) \<Rightarrow> (c', Inl e) | (c', Inr _) \<Rightarrow> dml_ops drv ops c')"

section \<open>\<open>MySQLDDefinition\<close>\<close>

text \<open>\<open>f"{elapsed: .2f}"\<close> of a non-negative time given in hundredths of a second.\<close>

definition fmt_elapsed :: "nat \<Rightarrow> string" where
  "fmt_elapsed cs = '' '' @ digits_nat (cs div 100) @ ''.'' @ pad2 (cs mod 100)"

text \<open>\<open>__execute\<close>: the elapsed time, or the exception (a \<open>MySQLConnectorError\<close> goes
  through \<open>ErrorHandling\<close> without a name).\<close>

definition ddl_execute :: "driver \<Rightarrow> string \<Rightarrow> conn \<Rightarrow> conn \<times> nat res" where
  "ddl_execute drv q c =
     (case send drv (Execute q []) c of (c1, Inl e) \<Rightarrow> (c1, Inl (ddl_except None e)) | r \<Rightarrow> r)"

text \<open>The common shape of the four methods: execute, print the message with the
  elapsed time, and translate a \<open>MySQLConnectorError\<close> with the given name.\<close>

definition ddl_run :: "driver \<Rightarrow> string option \<Rightarrow> string \<Rightarrow> string \<Rightarrow> conn \<Rightarrow> conn \<times> unit res" where
  "ddl_run drv name q rows c =
     (case ddl_execute drv q c of
        (c1, Inl e) \<Rightarrow> (c1, Inl (ddl_except name e))
      | (c1, Inr t) \<Rightarrow> (c1\<lparr>out := out c1 @ [''Query OK, '' @ rows @ '' row affected ('' @ fmt_elapsed t @ '' sec )'']\<rparr>, Inr ()))"

definition create_database :: "driver \<Rightarrow> string \<Rightarrow> conn \<Rightarrow> conn \<times> unit res" where
  "create_database drv name c = ddl_run drv None (''CREATE DATABASE '' @ name) ''1'' c"

definition drop_database :: "driver \<Rightarrow> string \<Rightarrow> conn \<Rightarrow> conn \<times> unit res" where
  "drop_database drv name c = ddl_run drv None (''DROP DATABASE '' @ name) ''0'' c"

definition create_table :: "driver \<Rightarrow> string \<Rightarrow> string \<Rightarrow> string \<Rightarrow> conn \<Rightarrow> conn \<times> unit res" where
  "create_table drv name detail engine c =
     ddl_run drv (Some name) (''CREATE TABLE '' @ name @ ''('' @ detail @ '') ENGINE = '' @ engine) ''0'' c"

text \<open>\<open>recreate_table\<close> reads \<open>kwargs["database"]\<close> for the error message before it
  executes anything; a missing key raises \<open>KeyError\<close>, which the clause does not catch.\<close>

definition recreate_table :: "driver \<Rightarrow> string \<Rightarrow> conn \<Rightarrow> conn \<times> unit res" where
  "recreate_table drv name c =
     (case map_of (kwargs c) ''database'' of
        None \<Rightarrow> (c, Inl (KeyError ''database''))
      | Some db \<Rightarrow> ddl_run drv (Some (db @ ''.'' @ name)) (''TRUNCATE '' @ name) ''0'' c)"

text \<open>The log of a connection on which every statement was committed right after it.\<close>

fun committed :: "stmt list \<Rightarrow> bool" where
  "committed [] = True"
| "committed (s # Commit # rest) = (s \<noteq> Commit \<and> committed rest)"
| "committed _ = False"

text \<open>The statement the specification's contract expects from an insert: the column
  names and one placeholder per column, as SQL lists.\<close>

definition key_plain :: "string \<Rightarrow> bool" where
  "key_plain s = (\<forall>c \<in> set s. 32 \<le> (of_char c :: nat) \<and> (of_char c :: nat) \<noteq> 127 \<and>
                     c \<noteq> CHR 0x27 \<and> c \<noteq> CHR 0x22 \<and> c \<noteq> CHR 0x5C)"

definition sql_insert :: "string \<Rightarrow> string list \<Rightarrow> string" where
  "sql_insert table ks =
     ''INSERT INTO '' @ table @ ''('' @ join_sep ks @ '') VALUES('' @ join_sep (replicate (length ks) ''%s'') @ '')''"

section \<open>Lemmas\<close>

lemma repr_char_plain:
  assumes "32 \<le> (of_char c :: nat)" "(of_char c :: nat) \<noteq> 127" "c \<noteq> CHR 0x27" "c \<noteq> CHR 0x5C"
  shows "repr_char (CHR 0x27) c = [c]"
proof -
  have "c \<noteq> CHR 0x09" "c \<noteq> CHR 0x0A" "c \<noteq> CHR 0x0D" using assms(1) by auto
  with assms show ?thesis by (simp add: repr_char_def)
qed

lemma repr_plain: "key_plain s \<Longrightarrow> py_repr_str s = [CHR 0x27] @ s @ [CHR 0x27]"
proof -
  assume k: "key_plain s"
  then have "repr_quote s = CHR 0x27" by (auto simp: key_plain_def repr_quote_def)
  moreover have "concat (map (repr_char (CHR 0x27)) s) = s"
    using k by (induction s) (simp_all add: key_plain_def repr_char_plain)
  ultimately show ?thesis by (simp add: py_repr_str_def Let_def)
qed

lemma drop_squotes_Nil [simp]: "drop_squotes [] = []"
  and drop_squotes_Cons [simp]: "drop_squotes (x # xs) = (if x = CHR 0x27 then drop_squotes xs else x # drop_squotes xs)"
  by (simp_all add: drop_squotes_def)

lemma drop_squotes_append [simp]: "drop_squotes (xs @ ys) = drop_squotes xs @ drop_squotes ys"
  by (simp add: drop_squotes_def)

lemma drop_squotes_join: "drop_squotes (join_sep xs) = join_sep (map drop_squotes xs)"
  by (induction xs rule: join_sep.induct) simp_all

lemma drop_squotes_repr: "key_plain s \<Longrightarrow> drop_squotes (py_repr_str s) = s"
  by (auto simp: repr_plain drop_squotes_def key_plain_def filter_id_conv)

lemma tuple_plain:
  assumes "\<forall>k \<in> set ks. key_plain k"
  shows "drop_squotes (tuple_str ks) = ''('' @ join_sep ks @ (if length ks = 1 then '','' else []) @ '')''"
proof -
  have "map (drop_squotes \<circ> py_repr_str) ks = ks"
    using assms by (induction ks) (simp_all add: drop_squotes_repr)
  then show ?thesis by (simp add: tuple_str_def drop_squotes_join)
qed

lemma placeholder_plain: "key_plain ''%s''"
  by (simp add: key_plain_def)

lemma insert_query_plain:
  assumes "\<forall>k \<in> set (map fst d). key_plain k"
  shows "insert_query t d = ''INSERT INTO '' @ t @ ''('' @ join_sep (map fst d) @ (if length d = 1 then '','' else []) @
     '') VALUES('' @ join_sep (replicate (length d) ''%s'') @ (if length d = 1 then '','' else []) @ '')''"
  using tuple_plain [OF assms] tuple_plain [of "replicate (length d) ''%s''"] placeholder_plain
  by (simp add: insert_query_def insert_columns_def insert_pattern_def)

lemma exec_commit_eq:
  "exec_commit drv s c =
     (case drv (log c) s of
        Inl e \<Rightarrow> (c\<lparr>log := log c @ [s]\<rparr>, Inl e)
      | Inr _ \<Rightarrow> (c\<lparr>log := log c @ [s, Commit]\<rparr>,
                  case drv (log c @ [s]) Commit of Inl e \<Rightarrow> Inl e | Inr _ \<Rightarrow> Inr ()))"
  by (simp add: exec_commit_def send_def split: sum.split)

text \<open>C13. Refinement of \<open>insert\<close>: for a dict of at least two columns whose names are
  printable and hold no quote or backslash, \<open>insert\<close> sends the statement
  \<open>INSERT INTO t(k1, k2, ...) VALUES(%s, %s, ...)\<close> with the values in insertion order,
  then commits, and returns normally when the driver accepts both.\<close>

theorem insert_dml_sends:
  assumes "\<forall>k \<in> set (map fst d). key_plain k" and "2 \<le> length d"
    and "drv (log c) (Execute (sql_insert t (map fst d)) (map snd d)) = Inr ta"
    and "drv (log c @ [Execute (sql_insert t (map fst d)) (map snd d)]) Commit = Inr tb"
  shows "insert_dml drv t d c =
           (c\<lparr>log := log c @ [Execute (sql_insert t (map fst d)) (map snd d), Commit]\<rparr>, Inr ())"
proof -
  have "insert_query t d = sql_insert t (map fst d)"
    using insert_query_plain [OF assms(1)] assms(2) by (simp add: sql_insert_def)
  with assms(2-4) show ?thesis
    by (auto simp: insert_dml_def exec_commit_eq dml_try_def)
qed

text \<open>A one-column dict gives a statement with a trailing comma,
  \<open>INSERT INTO t(k,) VALUES(%s,)\<close>, because the column list is Python's \<open>str\<close> of a
  one-element tuple: MySQL rejects it.\<close>

theorem insert_single_column:
  "key_plain k \<Longrightarrow> insert_query t [(k, v)] = ''INSERT INTO '' @ t @ ''('' @ k @ '',) VALUES(%s,)''"
  using insert_query_plain [of "[(k, v)]" t] by simp


lemma dml_try_eq: "dml_try (c, r) = (c, case r of Inl e \<Rightarrow> Inl (dml_except e) | Inr u \<Rightarrow> Inr u)"
  by (simp add: dml_try_def split: sum.split)

lemma dml_step_disj:
  "dml_step drv op c = (c, Inl EmptyDictionaryError) \<or> dml_step drv op c = (c, Inl EmptyListError) \<or>
   (\<exists>s. s \<noteq> Commit \<and> dml_step drv op c = dml_try (exec_commit drv s c))"
  by (cases op) (auto simp: insert_dml_def manyinsert_def update_def delete_dml_def dml_try_def dml_except_def)

lemma dml_step_cases:
  assumes "dml_step drv op c = (c', r)"
  obtains (empty) "c' = c" and "r = Inl EmptyDictionaryError \<or> r = Inl EmptyListError"
  | (sent) s r0 where "s \<noteq> Commit" and "exec_commit drv s c = (c', r0)"
      and "r = (case r0 of Inl e \<Rightarrow> Inl (dml_except e) | Inr u \<Rightarrow> Inr u)"
proof -
  consider "dml_step drv op c = (c, Inl EmptyDictionaryError) \<or> dml_step drv op c = (c, Inl EmptyListError)"
    | s where "s \<noteq> Commit" and "dml_step drv op c = dml_try (exec_commit drv s c)"
    using dml_step_disj by blast
  then show ?thesis
  proof cases
    case 1
    with assms show ?thesis using empty by auto
  next
    case (2 s)
    obtain c1 r0 where e: "exec_commit drv s c = (c1, r0)" by fastforce
    with 2 assms have "c' = c1" and "r = (case r0 of Inl e \<Rightarrow> Inl (dml_except e) | Inr u \<Rightarrow> Inr u)"
      by (simp_all add: dml_try_eq)
    with 2(1) e show ?thesis using sent by simp
  qed
qed

lemma exec_commit_log:
  assumes "exec_commit drv s c = (c', r)"
  shows "(log c' = log c @ [s] \<and> (\<exists>e. r = Inl e \<and> drv (log c) s = Inl e)) \<or>
         (log c' = log c @ [s, Commit] \<and> (r = Inr () \<or> (\<exists>e. r = Inl e \<and> drv (log c @ [s]) Commit = Inl e)))"
  using assms by (auto simp: exec_commit_eq split: sum.splits)

lemma committed_append: "committed l \<Longrightarrow> committed m \<Longrightarrow> committed (l @ m)"
  by (induction l rule: committed.induct) auto

lemma committed_pair: "s \<noteq> Commit \<Longrightarrow> committed l \<Longrightarrow> committed (l @ [s, Commit])"
  by (rule committed_append) simp_all

text \<open>C14. Invariant of a sequence of DML calls: the statement log only grows; after a run
  without exception every statement is followed by its commit, and after an exception
  at most the last statement (the one the driver rejected) is uncommitted.\<close>

theorem dml_ops_log:
  assumes "committed (log c)" and "dml_ops drv ops c = (c', r)"
  shows "(\<exists>t. log c' = log c @ t) \<and> (r = Inr () \<longrightarrow> committed (log c')) \<and>
         (committed (log c') \<or> committed (butlast (log c')))"
  using assms
proof (induction ops arbitrary: c)
  case Nil
  then show ?case by auto
next
  case (Cons op ops)
  obtain c1 r1 where st: "dml_step drv op c = (c1, r1)" by fastforce
  from st show ?case
  proof (cases rule: dml_step_cases)
    case empty
    with Cons.prems st show ?thesis by auto
  next
    case (sent s r0)
    have lg: "log c1 = log c @ [s] \<and> (\<exists>e. r0 = Inl e) \<or> log c1 = log c @ [s, Commit]"
      using exec_commit_log [OF sent(2)] by auto
    have cp: "committed (log c @ [s, Commit])" using committed_pair [OF sent(1) Cons.prems(1)] .
    show ?thesis
    proof (cases r1)
      case (Inl e)
      with Cons.prems(2) st have "c' = c1" and "r = Inl e" by simp_all
      with lg cp Cons.prems(1) show ?thesis by auto
    next
      case (Inr u)
      have "\<nexists>e. r0 = Inl e" using sent(3) Inr by (cases r0) simp_all
      with lg have "log c1 = log c @ [s, Commit]" by blast
      moreover from Inr Cons.prems(2) st have "dml_ops drv ops c1 = (c', r)" by simp
      ultimately show ?thesis using Cons.IH [of c1] cp by auto
    qed
  qed
qed


lemma dml_except_other: "(\<forall>m. e \<noteq> MySQLConnectorError m) \<Longrightarrow> dml_except e = e"
  by (cases e) (simp_all add: dml_except_def)

text \<open>C15. The error translation of the DML methods never applies: since the driver raises
  its own exception classes and not the project's \<open>MySQLConnectorError\<close>, every
  exception of a DML call is the empty-input error or exactly an exception the driver
  raised, untranslated.\<close>

theorem dml_errors_untranslated:
  assumes "\<forall>l s m. drv l s \<noteq> Inl (MySQLConnectorError m)" and "dml_step drv op c = (c', Inl e)"
  shows "e = EmptyDictionaryError \<or> e = EmptyListError \<or> (\<exists>l s. drv l s = Inl e)"
  using assms(2)
proof (cases rule: dml_step_cases)
  case (sent s r0)
  then obtain e0 where r0: "r0 = Inl e0" and d: "\<exists>l s. drv l s = Inl e0"
    using exec_commit_log [OF sent(2)] by (cases r0) auto
  with assms(1) have "dml_except e0 = e0" by (metis dml_except_other)
  with sent(3) r0 d show ?thesis by simp
qed auto

lemma dml_try_sent: "\<exists>tl. log (fst (dml_try (exec_commit drv s c))) = log c @ s # tl"
proof -
  obtain c' r where e: "exec_commit drv s c = (c', r)" by fastforce
  then show ?thesis using exec_commit_log [OF e] by (auto simp: dml_try_def split: sum.split)
qed

text \<open>C16. \<open>manyinsert\<close> takes the columns from the first dict only and the values of every
  dict in that dict's own key order: for any rows, the statement names the columns of
  the first row and each row contributes its values as they come, so a row whose keys
  are ordered differently (or differ) is sent under the wrong columns.\<close>

theorem manyinsert_rows_misaligned:
  assumes "\<forall>k \<in> set (map fst r0). key_plain k" and "2 \<le> length r0"
  shows "\<exists>tl. log (fst (manyinsert drv t (r0 # rs) c)) =
           log c @ ExecuteMany (sql_insert t (map fst r0)) (map (map snd) (r0 # rs)) # tl"
proof -
  have "insert_query t r0 = sql_insert t (map fst r0)"
    using insert_query_plain [OF assms(1)] assms(2) by (simp add: sql_insert_def)
  then have q: "''INSERT INTO '' @ t @ insert_columns r0 @ '' VALUES'' @ insert_pattern (length r0) = sql_insert t (map fst r0)"
    by (simp add: insert_query_def)
  show ?thesis unfolding manyinsert_def if_not_P [OF list.distinct(2)] list.sel(1) q
    by (rule dml_try_sent)
qed

lemma ddl_run_ok:
  "drv (log c) (Execute q []) = Inr t \<Longrightarrow>
   ddl_run drv name q rows c =
     (c\<lparr>log := log c @ [Execute q []], out := out c @ [''Query OK, '' @ rows @ '' row affected ('' @ fmt_elapsed t @ '' sec )'']\<rparr>, Inr ())"
  by (simp add: ddl_run_def ddl_execute_def send_def)

text \<open>\<open>create_table\<close> sends \<open>CREATE TABLE name(detail) ENGINE = engine\<close> and, when the
  driver accepts it, prints the MySQL-style confirmation with the elapsed time to two
  decimals.\<close>

theorem create_table_prints:
  assumes "drv (log c) (Execute (''CREATE TABLE '' @ n @ ''('' @ d @ '') ENGINE = '' @ e) []) = Inr t"
  shows "create_table drv n d e c =
     (c\<lparr>log := log c @ [Execute (''CREATE TABLE '' @ n @ ''('' @ d @ '') ENGINE = '' @ e) []],
        out := out c @ [''Query OK, 0 row affected ('' @ fmt_elapsed t @ '' sec )'']\<rparr>, Inr ())"
  using ddl_run_ok [where drv = drv and c = c and q = "''CREATE TABLE '' @ n @ ''('' @ d @ '') ENGINE = '' @ e", OF assms]
  by (simp add: create_table_def)

text \<open>C17. \<open>recreate_table\<close> raises \<open>KeyError\<close> before sending anything when the object was
  built without a \<open>database\<close> keyword, although \<open>TRUNCATE\<close> does not need it (the key is
  read only for the error message).\<close>

theorem recreate_table_without_database:
  assumes "ddl_init connect kw = Inr c" and "map_of kw ''database'' = None"
  shows "log c = [] \<and> recreate_table drv n c = (c, Inl (KeyError ''database''))"
  using assms by (auto simp: ddl_init_def recreate_table_def elim!: res_elims)

lemma insert_dml_sends_witness:
  "insert_dml (\<lambda>l s. Inr 0) ''users'' [(''id'', PInt 1), (''name'', PStr ''x'')] \<lparr>log = [], out = [], kwargs = []\<rparr> =
     (\<lparr>log = [Execute ''INSERT INTO users(id, name) VALUES(%s, %s)'' [PInt 1, PStr ''x''], Commit], out = [], kwargs = []\<rparr>, Inr ())"
  using insert_dml_sends [where d = "[(''id'', PInt 1), (''name'', PStr ''x'')]" and drv = "\<lambda>l s. Inr 0"
      and c = "\<lparr>log = [], out = [], kwargs = []\<rparr>" and t = "''users''" and ta = 0 and tb = 0]
  by (simp add: key_plain_def sql_insert_def)

lemma insert_single_column_witness:
  "insert_query ''users'' [(''id'', PInt 1)] = ''INSERT INTO users(id,) VALUES(%s,)''"
  using insert_single_column [where k = "''id''" and t = "''users''" and v = "PInt 1"]
  by (simp add: key_plain_def)

lemma dml_ops_log_witness:
  "committed (log \<lparr>log = [], out = [], kwargs = []\<rparr>) \<and>
   dml_ops (\<lambda>l s. if s = Execute ''UPDATE t SET a = 1 WHERE b = 2'' [] then Inl (MySQLError 1146 ''no table'') else Inr 0)
     [Delete ''t'' None, Update ''t'' ''a'' ''1'' ''b = 2''] \<lparr>log = [], out = [], kwargs = []\<rparr> =
     (\<lparr>log = [Execute ''DELETE FROM t'' [], Commit, Execute ''UPDATE t SET a = 1 WHERE b = 2'' []], out = [], kwargs = []\<rparr>,
      Inl (MySQLError 1146 ''no table'')) \<and>
   (\<exists>t. [Execute ''DELETE FROM t'' [], Commit, Execute ''UPDATE t SET a = 1 WHERE b = 2'' []] = [] @ t) \<and>
   (committed [Execute ''DELETE FROM t'' [], Commit, Execute ''UPDATE t SET a = 1 WHERE b = 2'' []] \<or>
    committed (butlast [Execute ''DELETE FROM t'' [], Commit, Execute ''UPDATE t SET a = 1 WHERE b = 2'' []]))"
proof -
  have c0: "committed (log \<lparr>log = [], out = [], kwargs = []\<rparr>)" by simp
  have r: "dml_ops (\<lambda>l s. if s = Execute ''UPDATE t SET a = 1 WHERE b = 2'' [] then Inl (MySQLError 1146 ''no table'') else Inr 0)
     [Delete ''t'' None, Update ''t'' ''a'' ''1'' ''b = 2''] \<lparr>log = [], out = [], kwargs = []\<rparr> =
     (\<lparr>log = [Execute ''DELETE FROM t'' [], Commit, Execute ''UPDATE t SET a = 1 WHERE b = 2'' []], out = [], kwargs = []\<rparr>,
      Inl (MySQLError 1146 ''no table''))"
    by code_simp
  show ?thesis using c0 r dml_ops_log [OF c0 r] by simp
qed

lemma dml_errors_untranslated_witness:
  "(\<forall>l s m. (\<lambda>l s. Inl (MySQLError 1045 ''Access denied'')) l s \<noteq> (Inl (MySQLConnectorError m) :: nat res)) \<and>
   dml_step (\<lambda>l s. Inl (MySQLError 1045 ''Access denied'')) (Update ''t'' ''a'' ''1'' ''id = 2'') \<lparr>log = [], out = [], kwargs = []\<rparr> =
     (\<lparr>log = [Execute ''UPDATE t SET a = 1 WHERE id = 2'' []], out = [], kwargs = []\<rparr>, Inl (MySQLError 1045 ''Access denied'')) \<and>
   (MySQLError 1045 ''Access denied'' = EmptyDictionaryError \<or> MySQLError 1045 ''Access denied'' = EmptyListError \<or>
    (\<exists>l s. (\<lambda>l s. Inl (MySQLError 1045 ''Access denied'')) l s = (Inl (MySQLError 1045 ''Access denied'') :: nat res)))"
proof -
  have d: "\<forall>l s m. (\<lambda>l s. Inl (MySQLError 1045 ''Access denied'')) l s \<noteq> (Inl (MySQLConnectorError m) :: nat res)" by simp
  have r: "dml_step (\<lambda>l s. Inl (MySQLError 1045 ''Access denied'')) (Update ''t'' ''a'' ''1'' ''id = 2'') \<lparr>log = [], out = [], kwargs = []\<rparr> =
     (\<lparr>log = [Execute ''UPDATE t SET a = 1 WHERE id = 2'' []], out = [], kwargs = []\<rparr>, Inl (MySQLError 1045 ''Access denied''))"
    by (simp add: update_def update_query_def exec_commit_eq dml_try_def dml_except_def)
  show ?thesis using d r dml_errors_untranslated [OF d r] by blast
qed

lemma manyinsert_rows_misaligned_witness:
  "key_plain ''a'' \<and> key_plain ''b'' \<and> 2 \<le> length [(''a'', PInt 1), (''b'', PInt 2)] \<and>
   (\<exists>tl. log (fst (manyinsert (\<lambda>l s. Inr 0) ''t'' [[(''a'', PInt 1), (''b'', PInt 2)], [(''b'', PInt 3), (''a'', PInt 4)]]
                      \<lparr>log = [], out = [], kwargs = []\<rparr>)) =
      [] @ ExecuteMany (sql_insert ''t'' [''a'', ''b'']) [[PInt 1, PInt 2], [PInt 3, PInt 4]] # tl)"
proof -
  have a: "key_plain ''a''" and b: "key_plain ''b''" by code_simp+
  then have k: "\<forall>k \<in> set (map fst [(''a'', PInt 1), (''b'', PInt 2)]). key_plain k" by simp
  have l: "2 \<le> length [(''a'', PInt 1), (''b'', PInt 2)]" by simp
  show ?thesis using k l manyinsert_rows_misaligned [OF k l, where t = "''t''" and rs = "[[(''b'', PInt 3), (''a'', PInt 4)]]"
      and drv = "\<lambda>l s. Inr 0" and c = "\<lparr>log = [], out = [], kwargs = []\<rparr>"] a b by simp
qed

lemma create_table_prints_witness:
  "create_table (\<lambda>l s. Inr 12) ''users'' ''id INT'' ''InnoDB'' \<lparr>log = [], out = [], kwargs = []\<rparr> =
     (\<lparr>log = [Execute ''CREATE TABLE users(id INT) ENGINE = InnoDB'' []],
       out = [''Query OK, 0 row affected ( 0.12 sec )''], kwargs = []\<rparr>, Inr ())"
proof -
  have "fmt_elapsed 12 = '' 0.12''" by code_simp
  then show ?thesis
    using create_table_prints [where drv = "\<lambda>l s. Inr 12" and n = "''users''" and d = "''id INT''"
        and e = "''InnoDB''" and c = "\<lparr>log = [], out = [], kwargs = []\<rparr>" and t = 12]
    by simp
qed

lemma recreate_table_without_database_witness:
  "ddl_init (\<lambda>kw. Inr ()) [(''host'', ''127.0.0.1'')] = Inr \<lparr>log = [], out = [], kwargs = [(''host'', ''127.0.0.1'')]\<rparr> \<and>
   map_of [(''host'', ''127.0.0.1'')] ''database'' = None \<and>
   log \<lparr>log = [], out = [], kwargs = [(''host'', ''127.0.0.1'')]\<rparr> = [] \<and>
   recreate_table (\<lambda>l s. Inr 0) ''users'' \<lparr>log = [], out = [], kwargs = [(''host'', ''127.0.0.1'')]\<rparr> =
     (\<lparr>log = [], out = [], kwargs = [(''host'', ''127.0.0.1'')]\<rparr>, Inl (KeyError ''database''))"
proof -
  have i: "ddl_init (\<lambda>kw. Inr ()) [(''host'', ''127.0.0.1'')] = Inr \<lparr>log = [], out = [], kwargs = [(''host'', ''127.0.0.1'')]\<rparr>"
    by (simp add: ddl_init_def)
  have m: "map_of [(''host'', ''127.0.0.1'')] ''database'' = None" by simp
  show ?thesis
    using i m recreate_table_without_database [OF i m, where drv = "\<lambda>l s. Inr 0" and n = "''users''"]
    by simp
qed

end
