(* ===== verification/Exceptions.thy ===== *)
theory Exceptions
  imports MySQL
begin

text \<open>
  The exception classes as Python sees them. Three modules of the repository declare
  exception classes: src/controller/x/xcrawl.py (lines 20-54),
  src/MySQL/exception.py (lines 5-50) and src/helper/exception.py (lines 5-46, a copy
  that no module imports). A class is its module and its name (\<open>exc_class\<close>); each
  module is a table from class names to their bases, in the order of the source.
  The tables of the libraries the classes derive from (the built-in exceptions,
  \<open>requests.exceptions\<close>, \<open>mysql.connector.errors\<close>) hold the classes the code
  raises, catches or derives from.
  \<open>issubclass\<close> walks the bases a bounded number of rounds (\<open>class_fuel\<close>); the
  lemmas show that the bound is enough and that the constructor tests of the
  MySQL \<open>except\<close> clauses (\<open>dml_except\<close>, \<open>ddl_except\<close>) are Python's class test.
\<close>

section \<open>Classes and modules\<close>

datatype pymodule = Builtins | Requests | MySQLConnector | XCrawlModule | MySQLExceptionModule | HelperExceptionModule

datatype exc_class = Cls pymodule string

type_synonym class_table = "(string \<times> exc_class list) list"

abbreviation builtin :: "string \<Rightarrow> exc_class" where
  "builtin n \<equiv> Cls Builtins n"

abbreviation exception_cls :: exc_class where
  "exception_cls \<equiv> Cls Builtins ''Exception''"

text \<open>The built-in classes the code meets (\<open>IOError\<close> is \<open>OSError\<close>).\<close>

definition builtin_classes :: class_table where
  "builtin_classes =
     [(''BaseException'', []),
      (''Exception'', [builtin ''BaseException'']),
      (''KeyboardInterrupt'', [builtin ''BaseException'']),
      (''SystemExit'', [builtin ''BaseException'']),
      (''LookupError'', [exception_cls]),
      (''KeyError'', [builtin ''LookupError'']),
      (''IndexError'', [builtin ''LookupError'']),
      (''TypeError'', [exception_cls]),
      (''ValueError'', [exception_cls]),
      (''AttributeError'', [exception_cls]),
      (''NameError'', [exception_cls]),
      (''UnboundLocalError'', [builtin ''NameError'']),
      (''OSError'', [exception_cls])]"

text \<open>\<open>requests.exceptions.RequestException(IOError)\<close>.\<close>

definition requests_classes :: class_table where
  "requests_classes = [(''RequestException'', [builtin ''OSError''])]"

text \<open>\<open>mysql.connector.errors\<close>: \<open>Error(Exception)\<close> and the classes the driver raises.\<close>

definition connector_classes :: class_table where
  "connector_classes =
     [(''Error'', [exception_cls]),
      (''InterfaceError'', [Cls MySQLConnector ''Error'']),
      (''DatabaseError'', [Cls MySQLConnector ''Error'']),
      (''InternalError'', [Cls MySQLConnector ''DatabaseError'']),
      (''OperationalError'', [Cls MySQLConnector ''DatabaseError'']),
      (''ProgrammingError'', [Cls MySQLConnector ''DatabaseError'']),
      (''IntegrityError'', [Cls MySQLConnector ''DatabaseError'']),
      (''DataError'', [Cls MySQLConnector ''DatabaseError'']),
      (''NotSupportedError'', [Cls MySQLConnector ''DatabaseError''])]"

text \<open>The classes of src/controller/x/xcrawl.py, lines 20-54.\<close>

definition xcrawl_classes :: class_table where
  "xcrawl_classes =
     [(''MySQLProjectException'', [exception_cls]),
      (''HTTPErrorException'', [exception_cls]),
      (''RequestProcessingError'', [Cls Requests ''RequestException'']),
      (''CSRFTokenMissingError'', [exception_cls]),
      (''URLValidationError'', [exception_cls]),
      (''FunctionNotFoundError'', [exception_cls]),
      (''CookieFileNotFoundError'', [exception_cls]),
      (''CookieCreationError'', [exception_cls])]"

text \<open>The classes of src/MySQL/exception.py, lines 5-50;
  \<open>MySQLConnectorError(Error, Exception)\<close> has two bases.\<close>

definition mysql_exception_classes :: class_table where
  "mysql_exception_classes =
     [(''MySQLProjectException'', [exception_cls]),
      (''EmptyListError'', [exception_cls]),
      (''EmptyDictionaryError'', [exception_cls]),
      (''HTTPErrorException'', [exception_cls]),
      (''RequestProcessingError'', [Cls Requests ''RequestException'']),
      (''CSRFTokenMissingError'', [exception_cls]),
      (''URLValidationError'', [exception_cls]),
      (''FunctionNotFoundError'', [exception_cls]),
      (''CookieFileNotFoundError'', [exception_cls]),
      (''CookieCreationError'', [exception_cls]),
      (''MySQLConnectorError'', [Cls MySQLConnector ''Error'', exception_cls])]"

text \<open>The classes of src/helper/exception.py, lines 5-46; here
  \<open>MySQLConnectorError(Error)\<close> has one base.\<close>

definition helper_exception_classes :: class_table where
  "helper_exception_classes =
     [(''MySQLProjectException'', [exception_cls]),
      (''EmptyListError'', [exception_cls]),
      (''EmptyDictionaryError'', [exception_cls]),
      (''HTTPErrorException'', [exception_cls]),
      (''RequestProcessingError'', [Cls Requests ''RequestException'']),
      (''CSRFTokenMissingError'', [exception_cls]),
      (''URLValidationError'', [exception_cls]),
      (''FunctionNotFoundError'', [exception_cls]),
      (''CookieFileNotFoundError'', [exception_cls]),
      (''CookieCreationError'', [exception_cls]),
      (''MySQLConnectorError'', [Cls MySQLConnector ''Error''])]"

primrec module_classes :: "pymodule \<Rightarrow> class_table" where
  "module_classes Builtins = builtin_classes"
| "module_classes Requests = requests_classes"
| "module_classes MySQLConnector = connector_classes"
| "module_classes XCrawlModule = xcrawl_classes"
| "module_classes MySQLExceptionModule = mysql_exception_classes"
| "module_classes HelperExceptionModule = helper_exception_classes"

text \<open>\<open>C.__bases__\<close>; a name that the module does not declare has none.\<close>

fun class_bases :: "exc_class \<Rightarrow> exc_class list" where
  "class_bases (Cls m n) = (case map_of (module_classes m) n of Some bs \<Rightarrow> bs | None \<Rightarrow> [])"

section \<open>\<open>issubclass\<close>\<close>

text \<open>The classes reached from \<open>c\<close> in at most \<open>n\<close> steps along the bases; with enough
  rounds this is the set of classes of \<open>c.__mro__\<close>.\<close>

fun ancestors :: "nat \<Rightarrow> exc_class \<Rightarrow> exc_class list" where
  "ancestors 0 c = [c]"
| "ancestors (Suc n) c = c # concat (map (ancestors n) (class_bases c))"

text \<open>The longest chain of bases has four steps (\<open>IntegrityError\<close>, \<open>DatabaseError\<close>,
  \<open>Error\<close>, \<open>Exception\<close>, \<open>BaseException\<close>; and \<open>RequestProcessingError\<close>,
  \<open>RequestException\<close>, \<open>OSError\<close>, \<open>Exception\<close>, \<open>BaseException\<close>).\<close>

definition class_fuel :: nat where
  "class_fuel = 4"

definition issubclass :: "exc_class \<Rightarrow> exc_class \<Rightarrow> bool" where
  "issubclass c d = (d \<in> set (ancestors class_fuel c))"

text \<open>The class of each exception of the model: the crawler raises the classes of its
  own module, the MySQL wrappers those of src/MySQL/exception.py, the driver an
  \<open>Error\<close> of \<open>mysql.connector\<close>.\<close>

fun pyerr_class :: "pyerr \<Rightarrow> exc_class" where
  "pyerr_class (KeyError _) = builtin ''KeyError''"
| "pyerr_class IndexError = builtin ''IndexError''"
| "pyerr_class (TypeError _) = builtin ''TypeError''"
| "pyerr_class (ValueError _) = builtin ''ValueError''"
| "pyerr_class (AttributeError _) = builtin ''AttributeError''"
| "pyerr_class (UnboundLocalError _) = builtin ''UnboundLocalError''"
| "pyerr_class (HTTPErrorException _) = Cls XCrawlModule ''HTTPErrorException''"
| "pyerr_class CSRFTokenMissingError = Cls XCrawlModule ''CSRFTokenMissingError''"
| "pyerr_class EmptyListError = Cls MySQLExceptionModule ''EmptyListError''"
| "pyerr_class EmptyDictionaryError = Cls MySQLExceptionModule ''EmptyDictionaryError''"
| "pyerr_class (MySQLConnectorError _) = Cls MySQLExceptionModule ''MySQLConnectorError''"
| "pyerr_class (MySQLError _ _) = Cls MySQLConnector ''Error''"

text \<open>\<open>isinstance(e, C)\<close>, the test of \<open>except C\<close>.\<close>

definition isinstance :: "pyerr \<Rightarrow> exc_class \<Rightarrow> bool" where
  "isinstance e c = issubclass (pyerr_class e) c"

text \<open>\<open>try: ... except C as e: h(e)\<close> on an exception \<open>e\<close> raised in the body: the
  handler runs on the instances of \<open>C\<close>, every other exception propagates.\<close>

definition except_clause :: "exc_class \<Rightarrow> (pyerr \<Rightarrow> pyerr) \<Rightarrow> pyerr \<Rightarrow> pyerr" where
  "except_clause c h e = (if isinstance e c then h e else e)"

section \<open>Lemmas\<close>

lemma module_classes_stable:
  "list_all (\<lambda>p. ancestors (Suc class_fuel) (Cls m (fst p)) = ancestors class_fuel (Cls m (fst p))) (module_classes m)"
  by (induct m) code_simp+

lemma ancestors_no_bases: "class_bases c = [] \<Longrightarrow> ancestors n c = [c]"
  by (cases n) simp_all

lemma ancestors_stable_once: "ancestors (Suc class_fuel) c = ancestors class_fuel c"
proof (cases c)
  case (Cls m n)
  show ?thesis
  proof (cases "map_of (module_classes m) n")
    case None
    then have "class_bases c = []" by (simp add: Cls)
    then show ?thesis by (simp only: ancestors_no_bases)
  next
    case (Some bs)
    then have "(n, bs) \<in> set (module_classes m)" by (rule map_of_SomeD)
    with module_classes_stable [of m] show ?thesis
      by (fastforce simp: Cls list_all_iff)
  qed
qed

lemma ancestors_stable_step:
  assumes "\<And>c. ancestors (Suc n) c = ancestors n c"
  shows "ancestors (Suc (Suc n)) c = ancestors (Suc n) c"
proof -
  have e: "ancestors (Suc n) = ancestors n" by (rule ext) (rule assms)
  have "ancestors (Suc (Suc n)) c = c # concat (map (ancestors (Suc n)) (class_bases c))"
    by (rule ancestors.simps(2))
  also have "\<dots> = c # concat (map (ancestors n) (class_bases c))" by (simp only: e)
  also have "\<dots> = ancestors (Suc n) c" by (rule ancestors.simps(2) [symmetric])
  finally show ?thesis .
qed

lemma ancestors_stable_from_fuel: "ancestors (Suc (class_fuel + k)) c = ancestors (class_fuel + k) c"
proof (induction k arbitrary: c)
  case 0
  show ?case unfolding add_0_right by (rule ancestors_stable_once)
next
  case (Suc k)
  show ?case unfolding add_Suc_right by (rule ancestors_stable_step) (rule Suc.IH)
qed

text \<open>The walk along the bases reaches its fixpoint within \<open>class_fuel\<close> rounds: the
  class hierarchy the modules declare is acyclic and at most four steps deep, so more
  rounds never change the ancestors, and \<open>issubclass\<close> decides Python's subclass
  relation.\<close>

theorem ancestors_fuel_enough: "ancestors (class_fuel + k) c = ancestors class_fuel c"
proof (induction k)
  case 0
  show ?case by simp
next
  case (Suc k)
  have "ancestors (class_fuel + Suc k) c = ancestors (class_fuel + k) c"
    unfolding add_Suc_right by (rule ancestors_stable_from_fuel)
  with Suc.IH show ?case by simp
qed

lemma isinstance_mce:
  "isinstance e (Cls MySQLExceptionModule ''MySQLConnectorError'') = (case e of MySQLConnectorError _ \<Rightarrow> True | _ \<Rightarrow> False)"
  unfolding isinstance_def by (induct e) code_simp+

text \<open>C18. The \<open>except MySQLConnectorError\<close> clauses of the MySQL wrappers, modelled as a
  match on the constructor, are Python's \<open>isinstance\<close> test against the class of
  src/MySQL/exception.py: \<open>ddl_except\<close> hands exactly the instances to
  \<open>ErrorHandling\<close>, and \<open>dml_except\<close> lets every other exception through unchanged.\<close>

theorem mysql_except_refines:
  "ddl_except name = except_clause (Cls MySQLExceptionModule ''MySQLConnectorError'') (\<lambda>e. error_handling e name) \<and>
   dml_except = except_clause (Cls MySQLExceptionModule ''MySQLConnectorError'') dml_except"
proof
  show "ddl_except name = except_clause (Cls MySQLExceptionModule ''MySQLConnectorError'') (\<lambda>e. error_handling e name)"
    by (rule ext) (simp add: except_clause_def isinstance_mce ddl_except_def split: pyerr.split)
  show "dml_except = except_clause (Cls MySQLExceptionModule ''MySQLConnectorError'') dml_except"
    by (rule ext) (simp add: except_clause_def isinstance_mce dml_except_def split: pyerr.split)
qed

end
