(* ===== verification/Utility.thy ===== *)
theory Utility
  imports Exceptions "HOL-Library.Sublist"
begin

text \<open>
  The helper classes at the top of src/controller/x/xcrawl.py: \<open>HtmlParser\<close>
  (lines 57-96) and \<open>Utility.makeunique\<close> (lines 133-140). The parsers wrap two calls
  of a parsing library (BeautifulSoup or PyQuery), which are inputs of the model:
  each either returns or raises an instance of some class with its \<open>str\<close>. The
  wrappers' \<open>try/except Exception/finally: return result\<close> is modelled with the
  class hierarchy of the Exceptions theory, so that the exceptions the \<open>except\<close>
  clause does not catch (\<open>KeyboardInterrupt\<close>, \<open>SystemExit\<close>) are cancelled by the
  \<open>return\<close> in \<open>finally\<close>. \<open>makeunique\<close> is the list-comprehension loop over an
  accumulator, shown equal to a recursive first-occurrence deduplication and to
  \<open>rev (remdups (rev xs))\<close>.
\<close>

section \<open>\<open>HtmlParser\<close>\<close>

text \<open>The outcome of a library call: an instance of a class with its \<open>str\<close>, or a value.\<close>

type_synonym 'a lib_res = "(exc_class \<times> string) + 'a"

definition lib_bind :: "'a lib_res \<Rightarrow> ('a \<Rightarrow> 'b lib_res) \<Rightarrow> 'b lib_res" where
  "lib_bind m f = (case m of Inl e \<Rightarrow> Inl e | Inr a \<Rightarrow> f a)"

text \<open>\<open>result = None; try: body; except Exception as e: print(e); finally: return
  result\<close>: the value of the body, or \<open>None\<close> with the line printed for an
  \<open>Exception\<close>; any other exception is dropped by the \<open>return\<close> in \<open>finally\<close>.\<close>

definition parser_try :: "'r lib_res \<Rightarrow> 'r option \<times> string list" where
  "parser_try r =
     (case r of
        Inr v \<Rightarrow> (Some v, [])
      | Inl (c, msg) \<Rightarrow> (None, if issubclass c exception_cls then [msg] else []))"

text \<open>\<open>bs4_parser(html, selector)\<close>: \<open>BeautifulSoup(html, "lxml").select(selector)\<close>.\<close>

definition bs4_parser ::
  "(string \<Rightarrow> string \<Rightarrow> 'd lib_res) \<Rightarrow> ('d \<Rightarrow> string \<Rightarrow> 'r lib_res) \<Rightarrow> string \<Rightarrow> string \<Rightarrow> 'r option \<times> string list" where
  "bs4_parser soup select html selector =
     parser_try (lib_bind (soup html ''lxml'') (\<lambda>doc. select doc selector))"

text \<open>\<open>pyq_parser(html, selector)\<close>: \<open>pq(html)(selector)\<close>.\<close>

definition pyq_parser ::
  "(string \<Rightarrow> 'd lib_res) \<Rightarrow> ('d \<Rightarrow> string \<Rightarrow> 'r lib_res) \<Rightarrow> string \<Rightarrow> string \<Rightarrow> 'r option \<times> string list" where
  "pyq_parser pq call html selector =
     parser_try (lib_bind (pq html) (\<lambda>doc. call doc selector))"

section \<open>\<open>Utility.makeunique\<close>\<close>

text \<open>\<open>unique_list = []; [unique_list.append(x) for x in datas if x not in
  unique_list]\<close>: the comprehension appends to the accumulator as it goes.\<close>

fun makeunique_loop :: "'a list \<Rightarrow> 'a list \<Rightarrow> 'a list" where
  "makeunique_loop acc [] = acc"
| "makeunique_loop acc (x # xs) = makeunique_loop (if x \<in> set acc then acc else acc @ [x]) xs"

definition makeunique :: "'a list \<Rightarrow> 'a list" where
  "makeunique datas = makeunique_loop [] datas"

text \<open>The reference: keep the first occurrence of each element and remove its later
  copies. The recursion is on a shorter list, not on a sublist.\<close>

function dedup_first :: "'a list \<Rightarrow> 'a list" where
  "dedup_first [] = []"
| "dedup_first (x # xs) = x # dedup_first (removeAll x xs)"
  by pat_completeness auto
termination
  by (relation "measure length") (simp_all add: le_imp_less_Suc)

section \<open>Lemmas\<close>

lemma parser_try_Inl [simp]:
  "parser_try (Inl (c, msg)) = (None, if issubclass c exception_cls then [msg] else [])"
  by (simp add: parser_try_def)

lemma lib_bind_Inl [simp]: "lib_bind (Inl e) f = Inl e"
  by (simp add: lib_bind_def)

lemma makeunique_loop_dedup:
  "makeunique_loop acc xs = acc @ dedup_first (filter (\<lambda>y. y \<notin> set acc) xs)"
proof (induction xs arbitrary: acc)
  case Nil
  then show ?case by simp
next
  case (Cons x xs)
  show ?case
  proof (cases "x \<in> set acc")
    case True
    then show ?thesis by (simp add: Cons.IH)
  next
    case False
    have "removeAll x (filter (\<lambda>y. y \<notin> set acc) xs) = filter (\<lambda>y. y \<notin> set (acc @ [x])) xs"
      by (induction xs) auto
    with False show ?thesis by (simp add: Cons.IH)
  qed
qed

lemma dedup_first_rev_remdups: "dedup_first xs = rev (remdups (rev xs))"
proof (induction xs rule: dedup_first.induct)
  case 1
  then show ?case by simp
next
  case (2 x xs)
  have "rev (remdups (rev (x # xs))) = x # rev (remdups (rev (removeAll x xs)))"
    by (induction xs rule: rev_induct) (auto simp: removeAll_filter_not_eq)
  with 2 show ?case by simp
qed

lemma dedup_first_props:
  "distinct (dedup_first xs) \<and> set (dedup_first xs) = set xs \<and> subseq (dedup_first xs) xs"
proof (induction xs rule: dedup_first.induct)
  case 1
  then show ?case by simp
next
  case (2 x xs)
  have "subseq (removeAll x xs) xs" by (simp add: removeAll_filter_not_eq)
  with 2 show ?case by (auto intro: subseq_order.order_trans)
qed

text \<open>C22. The parsers never let an exception escape: when the library raises, the
  result is \<open>None\<close>, and the message is printed only when the class derives from
  \<open>Exception\<close>. A \<open>KeyboardInterrupt\<close> or \<open>SystemExit\<close> raised while parsing is
  silently cancelled by the \<open>return\<close> in \<open>finally\<close>.\<close>

theorem bs4_parser_swallows:
  assumes "soup html ''lxml'' = Inl (c, msg)"
  shows "bs4_parser soup select html selector = (None, if issubclass c exception_cls then [msg] else [])"
  using assms by (simp add: bs4_parser_def)

theorem bs4_parser_swallows_witness:
  "bs4_parser (\<lambda>h f. Inl (builtin ''KeyboardInterrupt'', [])) (\<lambda>d s. Inr (d :: nat)) ''<p>'' ''p'' = (None, [])"
proof -
  have "\<not> issubclass (builtin ''KeyboardInterrupt'') exception_cls" by code_simp
  with bs4_parser_swallows [where soup = "\<lambda>h f. Inl (builtin ''KeyboardInterrupt'', [])"
      and select = "\<lambda>d s. Inr (d :: nat)" and html = "''<p>''" and selector = "''p''"
      and c = "builtin ''KeyboardInterrupt''" and msg = "[]"]
  show ?thesis by simp
qed

text \<open>C23. \<open>makeunique\<close> keeps the first occurrence of every element in the order of the
  input: it equals the recursive reference \<open>dedup_first\<close> and the library's
  \<open>remdups\<close> read from the right, on every list.\<close>

theorem makeunique_equiv:
  "makeunique xs = dedup_first xs \<and> makeunique xs = rev (remdups (rev xs))"
  using makeunique_loop_dedup [of "[]" xs] dedup_first_rev_remdups [of xs]
  by (simp add: makeunique_def)

text \<open>The result of \<open>makeunique\<close> has no duplicates, the elements of the input, and
  is a subsequence of it (the docstring's "preserving order").\<close>

theorem makeunique_spec:
  "distinct (makeunique xs) \<and> set (makeunique xs) = set xs \<and> subseq (makeunique xs) xs"
  using makeunique_loop_dedup [of "[]" xs] dedup_first_props [of xs]
  by (simp add: makeunique_def)

end
