(* ===== verification/Spec2Isabelle.thy ===== *)
theory Spec2Isabelle
  imports Search Utility
begin

text \<open>
  A verification library for the X (Twitter) crawler of src/controller/x/xcrawl.py and
  the MySQL helpers under src/MySQL. The crawler builds an authenticated session, sends
  a GraphQL search (or a trends request), walks the instructions of the JSON answer and
  turns every entry into a sanitized record: noise keys are deleted, entity blocks are
  cleaned, profile images are rewritten to the 400x400 size and \<open>created_at\<close> is
  canonicalised. The model is a shallow embedding: every Python function is an
  executable HOL function over decoded JSON values, every exception is a value.

  \<^bold>\<open>Theories.\<close>
  \<^item> \<open>Prelude\<close>: the Python values and operations the code uses. \<open>pyerr\<close> holds the
    exceptions (src/helper/exception.py, src/MySQL/exception.py and the builtins the
    code raises); \<open>'a res = pyerr + 'a\<close> with \<open>bindr\<close> threads them. \<open>json\<close> is a
    decoded JSON value, a dict being an association list in insertion order;
    \<open>jget\<close>, \<open>jget_or\<close>, \<open>jin\<close>, \<open>truthy\<close>, \<open>jiter\<close>, \<open>jupdate\<close>, \<open>jdel\<close>, \<open>jsub\<close>,
    \<open>jsub_set\<close> are \<open>d[k]\<close>, \<open>d.get\<close>, \<open>in\<close>, \<open>if x\<close>, iteration, \<open>update\<close>, \<open>del\<close> and
    subscripts with iterated keys, each raising what Python raises; \<open>jpath\<close>/\<open>jput\<close>
    read and write nested paths (in-place mutation seen from the root). Strings are
    byte lists (UTF-8 of a Python str); \<open>py_replace\<close> and \<open>rstrip\<close> are \<open>str.replace\<close>
    and \<open>str.rstrip\<close>. The collection \<open>res_elims\<close> holds the elimination rule of a
    computation that returned a value; \<open>py_simps\<close> evaluates character literals.
  \<^item> \<open>Auth\<close>: \<open>XCrawl.__init__\<close> (\<open>xcrawl_init\<close>, the \<open>session\<close> record of cookie and
    headers), \<open>__Csrftoken\<close> (\<open>csrf_search\<close>, \<open>csrf_token\<close>), \<open>__guest_token\<close>
    (\<open>guest_token\<close>, over an \<open>http_resp\<close> input) and the header preparation of
    \<open>search\<close>/\<open>trends\<close> (\<open>prepare_headers\<close>); \<open>session_reach\<close> is the inductive set
    of sessions the object can be in.
  \<^item> \<open>Timestamp\<close>: \<open>datetime.strptime(s, "%a %b %d %H:%M:%S +0000 %Y")\<close> and
    \<open>strftime("%Y-%m-%dT%H:%M:%S")\<close> as the code uses them on \<open>created_at\<close>
    (\<open>strptime_twitter\<close>, \<open>strftime_iso\<close>, \<open>convert_created_at\<close>), and the
    platform's renderer of that format (\<open>strftime_twitter\<close>) to state the round trip.
  \<^item> \<open>Entities\<close>: \<open>__generatekey\<close> and the deletion loops (\<open>generatekey\<close>,
    \<open>strip_keys\<close>) and \<open>__removeallentites\<close> (\<open>removeallentites\<close>, with one
    definition per branch: \<open>hashtags_block\<close>, \<open>media_block\<close>, \<open>list_block\<close>); the local
    \<open>url\<close> is threaded as an option, \<open>None\<close> being "unbound".
  \<^item> \<open>Sanitizer\<close>: \<open>__replacechar\<close> (\<open>replacechar\<close>, with the regex
    \<open>_(.*?)\.jpg\<close> as \<open>search_us\<close>/\<open>lazy_jpg\<close>), \<open>__processuserresults\<close>,
    \<open>__processretweeted\<close> and \<open>__processmedia\<close>, which returns the record and the
    mutated entry.
  \<^item> \<open>Dispatcher\<close>: the response walk of \<open>search\<close> (lines 857-1004). The locals
    \<open>datas\<close>, \<open>cursor_value\<close>, \<open>user_results\<close> are the record \<open>walk\<close> (an unbound local is
    \<open>None\<close>); \<open>instr_step\<close> handles one instruction (\<open>add_entries\<close>, \<open>add_to_module\<close>,
    \<open>replace_entry\<close>), \<open>entry_step\<close> one entry per product (\<open>people_entry\<close>,
    \<open>media_entry\<close>, \<open>tweet_entry\<close>), \<open>search_result\<close>/\<open>search_response\<close> the 200 and
    non-200 branches. The Media branch re-reads its records from the final entry
    (\<open>media_fixups\<close>) because they share objects with the tweet that is mutated later.
  \<^item> \<open>QueryBuilder\<close>: the query side of \<open>search\<close> (lines 783-841, \<open>search_query\<close>): the
    argument checks (\<open>search_args\<close>), \<open>__buildparams\<close> (\<open>build_variables\<close>,
    \<open>features_json\<close>), \<open>Utility.convertws\<close> and the rawQuery repair (\<open>encode_param\<close>,
    \<open>fix_rawquery\<close>), and the URL. The library functions are modelled from CPython on
    UTF-8 byte strings: \<open>quote\<close>, \<open>unquote\<close> (\<open>utf8_fix\<close> is \<open>decode('utf-8','replace')\<close>),
    \<open>json_dumps\<close>, \<open>strip_ws\<close> (\<open>re.sub(r'\s+', '')\<close>), \<open>py_int\<close>. The specification's
    compact JSON text is \<open>compact_json\<close>.
  \<^item> \<open>MySQL\<close>: \<open>ErrorHandling\<close> (\<open>error_handling\<close>), \<open>MySQLDManipulator\<close>
    (\<open>insert_dml\<close>, \<open>manyinsert\<close>, \<open>update\<close>, \<open>delete_dml\<close>) and \<open>MySQLDDefinition\<close>
    (\<open>create_database\<close>, \<open>drop_database\<close>, \<open>create_table\<close>, \<open>recreate_table\<close>) on a
    connection record (\<open>conn\<close>: statements sent, lines printed, constructor kwargs) over
    a \<open>driver\<close> with the specification's contract \<open>execute(query, params) -> elapsed\<close>;
    \<open>dml_ops\<close> runs a sequence of DML calls.
  \<^item> \<open>Trends\<close>: \<open>XCrawl.trends\<close> (\<open>trends\<close>, lines 654-760): the URL (\<open>urlencode\<close> of
    \<open>trends_payload\<close> with \<open>quote_plus\<close>), the header preparation of \<open>Auth\<close>, and the walk
    of the answer (\<open>trends_result\<close>, \<open>trends_instr\<close>, \<open>trends_entry\<close>, \<open>trend_of\<close>,
    chains of \<open>d.get\<close> as \<open>get_path\<close>).
  \<^item> \<open>Exceptions\<close>: the exception classes of xcrawl.py (lines 20-54),
    src/MySQL/exception.py (5-50) and src/helper/exception.py (5-46) as tables from
    class names to bases (\<open>xcrawl_classes\<close>, \<open>mysql_exception_classes\<close>,
    \<open>helper_exception_classes\<close>), beside the tables of the library classes they derive
    from; \<open>issubclass\<close> walks the bases (\<open>ancestors\<close>), \<open>pyerr_class\<close> gives the
    class of each exception of the model, and \<open>except_clause\<close> is the semantics of
    \<open>except C as e\<close>.
  \<^item> \<open>Utility\<close>: \<open>HtmlParser.bs4_parser\<close> and \<open>pyq_parser\<close> (\<open>parser_try\<close> is their
    \<open>try/except Exception/finally: return result\<close>, the parsing library an input that
    returns or raises an instance of some class) and \<open>Utility.makeunique\<close>
    (\<open>makeunique_loop\<close>, against the reference \<open>dedup_first\<close>).
  \<^item> \<open>Search\<close>: \<open>XCrawl.search\<close> as a whole (\<open>search\<close>): the query of \<open>QueryBuilder\<close>,
    the header preparation of \<open>Auth\<close>, the request to a \<open>transport\<close> input at the URL
    that \<open>requests\<close> builds from \<open>url\<close> and \<open>params\<close> (\<open>prepare_url\<close>), and the walk
    of \<open>Dispatcher\<close>; and the \<open>__main__\<close> block (\<open>cli_main\<close>).

  \<^bold>\<open>What is proved.\<close> Every property is stated for all inputs of its kind; the
  concrete runs are only the witnesses that its hypotheses can be met. Auth: the CSRF
  token is missing exactly when no \<open>ct0=\<close> token occurs; every reachable session keeps
  its cookie and the platform headers (rule induction on \<open>session_reach\<close>); the
  guest-token branch is dead; the guest activation decodes JSON before it looks at the
  status. Timestamp: every platform timestamp converts to the ISO string of the same
  time, and a converted value never parses again. Entities: \<open>__removeallentites\<close>
  changes only the entity block and \<open>full_text\<close> of \<open>legacy\<close>; a media element that
  a first pass cleaned makes a second pass raise \<open>UnboundLocalError\<close>. Sanitizer:
  the shape of a sanitized user record; the size of a profile image is replaced in the
  whole URL. Dispatcher: the empty-result 404, the cursor after an AddEntries
  instruction, unknown instructions skipped, a typeless instruction raising, the walk
  only appending, one People record per entry (users repeated), and the unbound
  locals of the People and ReplaceEntry paths. QueryBuilder: the refinement theorem
  (the variables sent are the compact JSON of the dict holding the caller's raw query
  verbatim, unescaped, and URL decoding recovers them), a count string sent as its
  number, and the type and value errors in the order of the checks. MySQL: the insert
  statement refines the SQL the contract expects, the columns of \<open>manyinsert\<close> come
  from the first row only, the statement log invariant of DML sequences, the dead
  error translation of DML, and the missing-database error of \<open>recreate_table\<close>.
  Exceptions: the constructor tests of the MySQL \<open>except\<close> clauses refine Python's
  \<open>isinstance\<close> over the declared hierarchy. Trends: entries other than \<open>trends\<close>
  contribute nothing, and no HTTP error is raised (a non-200 answer gives \<open>None\<close>).
  Utility: \<open>makeunique\<close> equals the first-occurrence deduplication and
  \<open>rev (remdups (rev xs))\<close>; the parsers return \<open>None\<close> for every raised class and
  silently swallow \<open>KeyboardInterrupt\<close>. Search: from a reachable session with a CSRF
  token every well-typed search sends its request and stays reachable, a request
  carries its parameters twice, and the entry point's crawler can never send a request
  (its empty cookie is not \<open>None\<close> and has no CSRF token).

  \<^bold>\<open>Bounds.\<close> The one fuel of the development is \<open>class_fuel\<close> = 4, the rounds of
  \<open>issubclass\<close>: the longest chain of bases has four steps (\<open>IntegrityError\<close> to
  \<open>BaseException\<close>), and \<open>ancestors_fuel_enough\<close> proves that more rounds change
  nothing. Every other loop of the model runs over a finite list or dict and is
  structural recursion (\<open>dedup_first\<close> recurses on a shorter list, by \<open>measure length\<close>); \<open>rstrip\<close>, \<open>skip_ws\<close>, the UTF-8 decoder
  (\<open>utf8_fix\<close>, \<open>utf8_valid\<close>), \<open>unq_runs\<close>, \<open>strip_ws\<close> and \<open>replace_ne\<close> terminate by
  the length of the string. The elapsed time of the DDL methods is an input in hundredths
  of a second, the precision the code prints.

  \<^bold>\<open>Not modelled.\<close> The HTTP transport (requests) and the MySQL driver are inputs, and
  so are the two calls of BeautifulSoup/PyQuery inside \<open>HtmlParser\<close>;
  \<open>Utility.hashmd5\<close> (MD5), \<open>timezone\<close> (pytz), \<open>UniqClear\<close> (unicodedata NFKD) and
  \<open>current_funcname\<close> (inspect frames) are single calls of libraries whose behaviour
  is not part of this repository. The constructors of the MySQL classes only open the
  driver's connection; mysqlddl.py imports \<open>MySQL.utility\<close>, which is not in the
  repository and whose name it never uses. A \<open>MySQLConnectorError\<close> is always built
  by the code from a message only, so its \<open>errno\<close> is the driver's default -1
  (\<open>err_errno\<close>). \<open>int()\<close> is modelled for ASCII text (Python also accepts other
  Unicode digits), \<open>repr\<close> keeps every non-ASCII character (Python escapes the
  non-printable ones), and strings are byte lists, which agrees with Python's code-point
  operations on the ASCII text the properties use. Python's \<open>x in list\<close> in
  \<open>makeunique\<close> compares by identity before \<open>==\<close>; the model uses equality, which
  differs only for values not equal to themselves (NaN).
\<close>

end
